theory Spec2Isabelle
  imports Main "HOL-Library.Sublist" "HOL-Library.Word" "HOL-Library.Char_ord"
    "HOL-Library.List_Lexorder"
begin

section \<open>Strings and formatting\<close>

text \<open>
  Go strings are byte sequences; they are modelled as \<open>string\<close> (a list of \<open>char\<close>,
  one \<open>char\<close> per byte). Go's \<open>int\<close> is modelled as \<open>int\<close>: the integers of the
  generator are list indices, counters bounded by list lengths, and configuration values
  that are only copied and compared, so the 64-bit wrap-around is never reached. The one
  sum of values of the input, the total weight of \<open>validateSplits\<close>, wraps around.
\<close>

definition dquote :: char where
  "dquote = CHR 0x22"

definition backslash :: char where
  "backslash = CHR 0x5C"

fun digit_char :: "nat \<Rightarrow> char" where
  "digit_char n = (''0123456789'' ! n)"

text \<open>\<open>fmt.Sprintf("%d", n)\<close> for a non-negative \<open>n\<close>.\<close>

fun show_nat :: "nat \<Rightarrow> string" where
  "show_nat n = (if n < 10 then [digit_char n] else show_nat (n div 10) @ [digit_char (n mod 10)])"

declare show_nat.simps [simp del]

text \<open>\<open>fmt.Sprintf("%d", i)\<close> (and \<open>%v\<close>) for an \<open>int\<close>.\<close>

definition show_int :: "int \<Rightarrow> string" where
  "show_int i = (if i < 0 then CHR ''-'' # show_nat (nat (- i)) else show_nat (nat i))"

text \<open>\<open>strings.Join(xs, sep)\<close>.\<close>

fun join :: "string list \<Rightarrow> string \<Rightarrow> string" where
  "join [] sep = []"
| "join [x] sep = x"
| "join (x # y # ys) sep = x @ sep @ join (y # ys) sep"

text \<open>\<open>strings.ReplaceAll(s, "-", "_")\<close>: both strings are one byte long.\<close>

definition replace_dash :: "string \<Rightarrow> string" where
  "replace_dash s = map (\<lambda>c. if c = CHR ''-'' then CHR ''_'' else c) s"

text \<open>\<open>strings.HasPrefix(s, p)\<close> and \<open>strings.TrimPrefix(s, p)\<close>.\<close>

definition HasPrefix :: "string \<Rightarrow> string \<Rightarrow> bool" where
  "HasPrefix s p = prefix p s"

definition TrimPrefix :: "string \<Rightarrow> string \<Rightarrow> string" where
  "TrimPrefix s p = (if HasPrefix s p then drop (length p) s else s)"

section \<open>The resource types (package \<open>conf_v1\<close>)\<close>

text \<open>
  Each struct is a record; a pointer field is an \<open>option\<close> (\<open>None\<close> is \<open>nil\<close>). Field
  names carry a prefix naming their struct, since several structs share field names.
  A Go \<open>map[string]string\<close> whose entries are enumerated (\<open>Subselector\<close>) is an
  association list.
\<close>

record UpstreamBuffers =
  ub_Number :: int
  ub_Size :: string

record UpstreamTLS =
  utls_Enable :: bool

record Header =
  h_Name :: string
  h_Value :: string

record HealthCheck =
  hc_Enable :: bool
  hc_Path :: string
  hc_Interval :: string
  hc_Jitter :: string
  hc_Fails :: int
  hc_Passes :: int
  hc_Port :: int
  hc_TLS :: "UpstreamTLS option"
  hc_ConnectTimeout :: string
  hc_ReadTimeout :: string
  hc_SendTimeout :: string
  hc_Headers :: "Header list"
  hc_StatusMatch :: string

record SessionCookie =
  sc_Enable :: bool
  sc_Name :: string
  sc_Path :: string
  sc_Expires :: string
  sc_Domain :: string
  sc_HTTPOnly :: bool
  sc_Secure :: bool

record UpstreamQueue =
  q_Size :: int
  q_Timeout :: string

record Upstream =
  u_Name :: string
  u_Service :: string
  u_Subselector :: "(string \<times> string) list"
  u_Port :: "16 word"
  u_LBMethod :: string
  u_FailTimeout :: string
  u_MaxFails :: "int option"
  u_MaxConns :: "int option"
  u_Keepalive :: "int option"
  u_ProxyConnectTimeout :: string
  u_ProxyReadTimeout :: string
  u_ProxySendTimeout :: string
  u_ProxyNextUpstream :: string
  u_ProxyNextUpstreamTimeout :: string
  u_ProxyNextUpstreamTries :: int
  u_ProxyBuffering :: "bool option"
  u_ProxyBuffers :: "UpstreamBuffers option"
  u_ProxyBufferSize :: string
  u_ClientMaxBodySize :: string
  u_TLS :: UpstreamTLS
  u_HealthCheck :: "HealthCheck option"
  u_SlowStart :: string
  u_Queue :: "UpstreamQueue option"
  u_SessionCookie :: "SessionCookie option"

record ActionRedirect =
  ar_URL :: string
  ar_Code :: int

record ActionReturn =
  rt_Code :: int
  rt_Type :: string
  rt_Body :: string

record Action =
  a_Pass :: string
  a_Redirect :: "ActionRedirect option"
  a_Return :: "ActionReturn option"

record Split =
  s_Weight :: int
  s_Action :: "Action option"

record Condition =
  c_Header :: string
  c_Cookie :: string
  c_Argument :: string
  c_Variable :: string
  c_Value :: string

record Match =
  m_Conditions :: "Condition list"
  m_Action :: "Action option"
  m_Splits :: "Split list"

record Route =
  r_Path :: string
  r_Route :: string
  r_Action :: "Action option"
  r_Splits :: "Split list"
  r_Matches :: "Match list"

record TLSRedirect =
  tr_Enable :: bool
  tr_Code :: "int option"
  tr_BasedOn :: string

record TLS =
  tls_Secret :: string
  tls_Redirect :: "TLSRedirect option"

record VirtualServerSpec =
  vss_Host :: string
  vss_TLS :: "TLS option"
  vss_Upstreams :: "Upstream list"
  vss_Routes :: "Route list"

text \<open>
  A resource is handled through a pointer, and the warnings are keyed by that pointer.
  The records of the two resources therefore carry the address they live at
  (\<open>vs_addr\<close>, \<open>vsr_addr\<close>), next to the namespace and name of their \<open>ObjectMeta\<close>.
\<close>

record VirtualServer =
  vs_addr :: nat
  vs_Namespace :: string
  vs_Name :: string
  vs_Spec :: VirtualServerSpec

record VirtualServerRouteSpec =
  vsrs_Host :: string
  vsrs_Upstreams :: "Upstream list"
  vsrs_Subroutes :: "Route list"

record VirtualServerRoute =
  vsr_addr :: nat
  vsr_Namespace :: string
  vsr_Name :: string
  vsr_Spec :: VirtualServerRouteSpec

text \<open>The zero value of \<open>Upstream\<close>, which a lookup of a missing key in a Go map returns.\<close>

definition zeroUpstream :: Upstream where
  "zeroUpstream = \<lparr>u_Name = [], u_Service = [], u_Subselector = [], u_Port = 0,
     u_LBMethod = [], u_FailTimeout = [], u_MaxFails = None, u_MaxConns = None,
     u_Keepalive = None, u_ProxyConnectTimeout = [], u_ProxyReadTimeout = [],
     u_ProxySendTimeout = [], u_ProxyNextUpstream = [], u_ProxyNextUpstreamTimeout = [],
     u_ProxyNextUpstreamTries = 0, u_ProxyBuffering = None, u_ProxyBuffers = None,
     u_ProxyBufferSize = [], u_ClientMaxBodySize = [], u_TLS = \<lparr>utls_Enable = False\<rparr>,
     u_HealthCheck = None, u_SlowStart = [], u_Queue = None, u_SessionCookie = None\<rparr>"

section \<open>The configuration model (package \<open>version2\<close>)\<close>

record v2_UpstreamServer =
  us_Address :: string

record v2_Queue =
  v2q_Size :: int
  v2q_Timeout :: string

record v2_SessionCookie =
  v2sc_Enable :: bool
  v2sc_Name :: string
  v2sc_Path :: string
  v2sc_Expires :: string
  v2sc_Domain :: string
  v2sc_HTTPOnly :: bool
  v2sc_Secure :: bool

record v2_Upstream =
  v2u_Name :: string
  v2u_Servers :: "v2_UpstreamServer list"
  v2u_LBMethod :: string
  v2u_Resolve :: bool
  v2u_Keepalive :: int
  v2u_MaxFails :: int
  v2u_MaxConns :: int
  v2u_SlowStart :: string
  v2u_FailTimeout :: string
  v2u_UpstreamZoneSize :: string
  v2u_Queue :: "v2_Queue option"
  v2u_SessionCookie :: "v2_SessionCookie option"

record v2_SSL =
  ssl_HTTP2 :: bool
  ssl_Certificate :: string
  ssl_CertificateKey :: string
  ssl_Ciphers :: string

record v2_Return =
  ret_Code :: int
  ret_Text :: string

record v2_Location =
  loc_Path :: string
  loc_Snippets :: "string list"
  loc_ProxyConnectTimeout :: string
  loc_ProxyReadTimeout :: string
  loc_ProxySendTimeout :: string
  loc_ClientMaxBodySize :: string
  loc_ProxyMaxTempFileSize :: string
  loc_ProxyBuffering :: bool
  loc_ProxyBuffers :: string
  loc_ProxyBufferSize :: string
  loc_ProxyPass :: string
  loc_ProxyNextUpstream :: string
  loc_ProxyNextUpstreamTimeout :: string
  loc_ProxyNextUpstreamTries :: int
  loc_HasKeepalive :: bool
  loc_DefaultType :: string
  loc_Return :: "v2_Return option"

record v2_Distribution =
  d_Weight :: string
  d_Value :: string

record v2_SplitClient =
  spc_Source :: string
  spc_Variable :: string
  spc_Distributions :: "v2_Distribution list"

record v2_HealthCheck =
  v2hc_Name :: string
  v2hc_URI :: string
  v2hc_Interval :: string
  v2hc_Jitter :: string
  v2hc_Fails :: int
  v2hc_Passes :: int
  v2hc_Port :: int
  v2hc_ProxyPass :: string
  v2hc_ProxyConnectTimeout :: string
  v2hc_ProxyReadTimeout :: string
  v2hc_ProxySendTimeout :: string
  v2hc_Headers :: "string \<rightharpoonup> string"
  v2hc_Match :: string

record v2_TLSRedirect =
  v2tr_Code :: int
  v2tr_BasedOn :: string

record v2_InternalRedirectLocation =
  irl_Path :: string
  irl_Destination :: string

record v2_Parameter =
  p_Value :: string
  p_Result :: string

record v2_Map =
  map_Source :: string
  map_Variable :: string
  map_Parameters :: "v2_Parameter list"

record v2_StatusMatch =
  sm_Name :: string
  sm_Code :: string

record v2_Server =
  srv_ServerName :: string
  srv_StatusZone :: string
  srv_ProxyProtocol :: bool
  srv_SSL :: "v2_SSL option"
  srv_ServerTokens :: string
  srv_RealIPHeader :: string
  srv_SetRealIPFrom :: "string list"
  srv_RealIPRecursive :: bool
  srv_Snippets :: "string list"
  srv_InternalRedirectLocations :: "v2_InternalRedirectLocation list"
  srv_Locations :: "v2_Location list"
  srv_HealthChecks :: "v2_HealthCheck list"
  srv_TLSRedirect :: "v2_TLSRedirect option"

record v2_VirtualServerConfig =
  cfg_Server :: v2_Server
  cfg_Upstreams :: "v2_Upstream list"
  cfg_SplitClients :: "v2_SplitClient list"
  cfg_Maps :: "v2_Map list"
  cfg_StatusMatches :: "v2_StatusMatch list"

section \<open>The generator (\<open>internal/configs/virtualserver.go\<close>)\<close>

subsection \<open>Inputs and names\<close>

definition nginx502Server :: string where
  "nginx502Server = ''unix:/var/lib/nginx/nginx-502-server.sock''"

definition incompatibleLBMethodsForSlowStart :: "string list" where
  "incompatibleLBMethodsForSlowStart =
     [''random'', ''ip_hash'', ''random two'', ''random two least_conn'',
      ''random two least_time=header'', ''random two least_time=last_byte'']"

text \<open>
  \<open>ConfigParams\<close> is declared outside the files at hand; the record has the fields the
  generator reads, with the types its uses and the tests give them.
\<close>

record ConfigParams =
  cp_ClientMaxBodySize :: string
  cp_FailTimeout :: string
  cp_HTTP2 :: bool
  cp_Keepalive :: int
  cp_LBMethod :: string
  cp_LocationSnippets :: "string list"
  cp_MaxConns :: int
  cp_MaxFails :: int
  cp_ProxyBuffering :: bool
  cp_ProxyBuffers :: string
  cp_ProxyBufferSize :: string
  cp_ProxyConnectTimeout :: string
  cp_ProxyMaxTempFileSize :: string
  cp_ProxyProtocol :: bool
  cp_ProxyReadTimeout :: string
  cp_ProxySendTimeout :: string
  cp_RealIPHeader :: string
  cp_RealIPRecursive :: bool
  cp_ServerSnippets :: "string list"
  cp_ServerTokens :: string
  cp_SetRealIPFrom :: "string list"
  cp_UpstreamZoneSize :: string

text \<open>
  \<open>VirtualServerEx\<close>: the two Go maps are partial functions (a missing key of
  \<open>Endpoints\<close> reads as the empty list). The field \<open>TLSSecret\<close> is not read by the
  generator and is left out.
\<close>

record VirtualServerEx =
  vsx_VirtualServer :: VirtualServer
  vsx_Endpoints :: "string \<rightharpoonup> string list"
  vsx_VirtualServerRoutes :: "VirtualServerRoute list"
  vsx_ExternalNameSvcs :: "string \<rightharpoonup> bool"

text \<open>
  \<open>labels.Set(subselector).String()\<close> of the Kubernetes library: the entries rendered
  as \<open>key=value\<close>, sorted, joined by commas.
\<close>

definition labels_Set_String :: "(string \<times> string) list \<Rightarrow> string" where
  "labels_Set_String ls = join (sort (map (\<lambda>(k, v). k @ ''='' @ v) ls)) '',''"

definition GenerateEndpointsKey ::
  "string \<Rightarrow> string \<Rightarrow> (string \<times> string) list \<Rightarrow> 16 word \<Rightarrow> string" where
  "GenerateEndpointsKey serviceNamespace serviceName subselector port =
     (if length subselector > 0
      then serviceNamespace @ ''/'' @ serviceName @ ''_'' @ labels_Set_String subselector
             @ '':'' @ show_nat (unat port)
      else serviceNamespace @ ''/'' @ serviceName @ '':'' @ show_nat (unat port))"

definition GenerateExternalNameSvcKey :: "string \<Rightarrow> string \<Rightarrow> string" where
  "GenerateExternalNameSvcKey namespace service = namespace @ ''/'' @ service"

record upstreamNamer =
  un_prefix :: string

definition newUpstreamNamerForVirtualServer :: "VirtualServer \<Rightarrow> upstreamNamer" where
  "newUpstreamNamerForVirtualServer virtualServer =
     \<lparr>un_prefix = ''vs_'' @ vs_Namespace virtualServer @ ''_'' @ vs_Name virtualServer\<rparr>"

definition newUpstreamNamerForVirtualServerRoute ::
  "VirtualServer \<Rightarrow> VirtualServerRoute \<Rightarrow> upstreamNamer" where
  "newUpstreamNamerForVirtualServerRoute virtualServer virtualServerRoute =
     \<lparr>un_prefix = ''vs_'' @ vs_Namespace virtualServer @ ''_'' @ vs_Name virtualServer
        @ ''_vsr_'' @ vsr_Namespace virtualServerRoute @ ''_'' @ vsr_Name virtualServerRoute\<rparr>"

definition GetNameForUpstream :: "upstreamNamer \<Rightarrow> string \<Rightarrow> string" where
  "GetNameForUpstream namer upstream = un_prefix namer @ ''_'' @ upstream"

record variableNamer =
  vn_safeNsName :: string

definition newVariableNamer :: "VirtualServer \<Rightarrow> variableNamer" where
  "newVariableNamer virtualServer =
     \<lparr>vn_safeNsName = replace_dash (vs_Namespace virtualServer @ ''_'' @ vs_Name virtualServer)\<rparr>"

definition GetNameForSplitClientVariable :: "variableNamer \<Rightarrow> int \<Rightarrow> string" where
  "GetNameForSplitClientVariable namer index =
     ''$vs_'' @ vn_safeNsName namer @ ''_splits_'' @ show_int index"

definition GetNameForVariableForMatchesRouteMap ::
  "variableNamer \<Rightarrow> int \<Rightarrow> int \<Rightarrow> int \<Rightarrow> string" where
  "GetNameForVariableForMatchesRouteMap namer matchesIndex matchIndex conditionIndex =
     ''$vs_'' @ vn_safeNsName namer @ ''_matches_'' @ show_int matchesIndex
       @ ''_match_'' @ show_int matchIndex @ ''_cond_'' @ show_int conditionIndex"

definition GetNameForVariableForMatchesRouteMainMap :: "variableNamer \<Rightarrow> int \<Rightarrow> string" where
  "GetNameForVariableForMatchesRouteMainMap namer matchesIndex =
     ''$vs_'' @ vn_safeNsName namer @ ''_matches_'' @ show_int matchesIndex"

subsection \<open>Lowering primitives\<close>

definition generateLBMethod :: "string \<Rightarrow> string \<Rightarrow> string" where
  "generateLBMethod method defaultMethod =
     (if method = [] then defaultMethod
      else if method = ''round_robin'' then []
      else method)"

definition generateIntFromPointer :: "int option \<Rightarrow> int \<Rightarrow> int" where
  "generateIntFromPointer n defaultN = (case n of None \<Rightarrow> defaultN | Some v \<Rightarrow> v)"

definition upstreamHasKeepalive :: "Upstream \<Rightarrow> ConfigParams \<Rightarrow> bool" where
  "upstreamHasKeepalive upstream cfgParams =
     (case u_Keepalive upstream of
        Some k \<Rightarrow> k \<noteq> 0
      | None \<Rightarrow> cp_Keepalive cfgParams \<noteq> 0)"

definition generateProxyPassProtocol :: "bool \<Rightarrow> string" where
  "generateProxyPassProtocol enableTLS = (if enableTLS then ''https'' else ''http'')"

definition generateString :: "string \<Rightarrow> string \<Rightarrow> string" where
  "generateString s defaultS = (if s = [] then defaultS else s)"

definition generateBuffers :: "UpstreamBuffers option \<Rightarrow> string \<Rightarrow> string" where
  "generateBuffers s defaultS =
     (case s of None \<Rightarrow> defaultS | Some b \<Rightarrow> show_int (ub_Number b) @ '' '' @ ub_Size b)"

definition generateBool :: "bool option \<Rightarrow> bool \<Rightarrow> bool" where
  "generateBool s defaultS = (case s of Some b \<Rightarrow> b | None \<Rightarrow> defaultS)"

definition generatePath :: "string \<Rightarrow> string" where
  "generatePath path =
     (if HasPrefix path ''~*''
      then ''~* '' @ [dquote] @ TrimPrefix (TrimPrefix path ''~*'') '' '' @ [dquote]
      else if HasPrefix path ''~''
      then ''~ '' @ [dquote] @ TrimPrefix (TrimPrefix path ''~'') '' '' @ [dquote]
      else path)"

definition generateReturnBlock :: "string \<Rightarrow> int \<Rightarrow> int \<Rightarrow> v2_Return" where
  "generateReturnBlock text code defaultCode =
     (let returnBlock = \<lparr>ret_Code = defaultCode, ret_Text = text\<rparr>
      in if code \<noteq> 0 then returnBlock\<lparr>ret_Code := code\<rparr> else returnBlock)"

definition generateLocationForProxying ::
  "string \<Rightarrow> string \<Rightarrow> Upstream \<Rightarrow> ConfigParams \<Rightarrow> v2_Location" where
  "generateLocationForProxying path upstreamName upstream cfgParams =
     \<lparr>loc_Path = generatePath path,
      loc_Snippets = cp_LocationSnippets cfgParams,
      loc_ProxyConnectTimeout =
        generateString (u_ProxyConnectTimeout upstream) (cp_ProxyConnectTimeout cfgParams),
      loc_ProxyReadTimeout =
        generateString (u_ProxyReadTimeout upstream) (cp_ProxyReadTimeout cfgParams),
      loc_ProxySendTimeout =
        generateString (u_ProxySendTimeout upstream) (cp_ProxySendTimeout cfgParams),
      loc_ClientMaxBodySize =
        generateString (u_ClientMaxBodySize upstream) (cp_ClientMaxBodySize cfgParams),
      loc_ProxyMaxTempFileSize = cp_ProxyMaxTempFileSize cfgParams,
      loc_ProxyBuffering = generateBool (u_ProxyBuffering upstream) (cp_ProxyBuffering cfgParams),
      loc_ProxyBuffers = generateBuffers (u_ProxyBuffers upstream) (cp_ProxyBuffers cfgParams),
      loc_ProxyBufferSize =
        generateString (u_ProxyBufferSize upstream) (cp_ProxyBufferSize cfgParams),
      loc_ProxyPass =
        generateProxyPassProtocol (utls_Enable (u_TLS upstream)) @ ''://'' @ upstreamName,
      loc_ProxyNextUpstream = generateString (u_ProxyNextUpstream upstream) ''error timeout'',
      loc_ProxyNextUpstreamTimeout = generateString (u_ProxyNextUpstreamTimeout upstream) ''0s'',
      loc_ProxyNextUpstreamTries = u_ProxyNextUpstreamTries upstream,
      loc_HasKeepalive = upstreamHasKeepalive upstream cfgParams,
      loc_DefaultType = [],
      loc_Return = None\<rparr>"

definition generateLocationForReturnBlock ::
  "string \<Rightarrow> string list \<Rightarrow> v2_Return \<Rightarrow> string \<Rightarrow> v2_Location" where
  "generateLocationForReturnBlock path locationSnippets r defaultType =
     \<lparr>loc_Path = path,
      loc_Snippets = locationSnippets,
      loc_ProxyConnectTimeout = [],
      loc_ProxyReadTimeout = [],
      loc_ProxySendTimeout = [],
      loc_ClientMaxBodySize = [],
      loc_ProxyMaxTempFileSize = [],
      loc_ProxyBuffering = False,
      loc_ProxyBuffers = [],
      loc_ProxyBufferSize = [],
      loc_ProxyPass = [],
      loc_ProxyNextUpstream = [],
      loc_ProxyNextUpstreamTimeout = [],
      loc_ProxyNextUpstreamTries = 0,
      loc_HasKeepalive = False,
      loc_DefaultType = defaultType,
      loc_Return = Some r\<rparr>"

text \<open>
  \<open>generateLocation\<close> receives a pointer to the action and dereferences it at once. Each
  caller reads \<open>action.Pass\<close> before the call, so the pointer is not nil when the call
  is reached: the model takes the action itself, and the callers model the nil
  dereference.
\<close>

definition generateLocation ::
  "string \<Rightarrow> string \<Rightarrow> Upstream \<Rightarrow> Action \<Rightarrow> ConfigParams \<Rightarrow> v2_Location" where
  "generateLocation path upstreamName upstream action cfgParams =
     (case a_Redirect action of
        Some redirect \<Rightarrow>
          generateLocationForReturnBlock path (cp_LocationSnippets cfgParams)
            (generateReturnBlock (ar_URL redirect) (ar_Code redirect) 301) []
      | None \<Rightarrow>
          (case a_Return action of
             Some ret \<Rightarrow>
               (let defaultType = (if rt_Type ret = [] then ''text/plain'' else rt_Type ret)
                in generateLocationForReturnBlock path (cp_LocationSnippets cfgParams)
                     (generateReturnBlock (rt_Body ret) (rt_Code ret) 200) defaultType)
           | None \<Rightarrow> generateLocationForProxying path upstreamName upstream cfgParams))"

text \<open>
  The constant \<open>pemFileNameForMissingTLSSecret\<close> is declared outside the files at hand;
  \<open>generateSSLConfig\<close> takes it as its first argument.
\<close>

definition generateSSLConfig ::
  "string \<Rightarrow> TLS option \<Rightarrow> string \<Rightarrow> ConfigParams \<Rightarrow> v2_SSL option" where
  "generateSSLConfig pemFileNameForMissingTLSSecret tls tlsPemFileName cfgParams =
     (case tls of
        None \<Rightarrow> None
      | Some t \<Rightarrow>
          if tls_Secret t = [] then None
          else
            (let (name, ciphers) =
                   (if tlsPemFileName \<noteq> [] then (tlsPemFileName, [])
                    else (pemFileNameForMissingTLSSecret, ''NULL''))
             in Some \<lparr>ssl_HTTP2 = cp_HTTP2 cfgParams,
                       ssl_Certificate = name,
                       ssl_CertificateKey = name,
                       ssl_Ciphers = ciphers\<rparr>))"

definition generateTLSRedirectBasedOn :: "string \<Rightarrow> string" where
  "generateTLSRedirectBasedOn basedOn =
     (if basedOn = ''x-forwarded-proto'' then ''$http_x_forwarded_proto'' else ''$scheme'')"

definition generateTLSRedirectConfig :: "TLS option \<Rightarrow> v2_TLSRedirect option" where
  "generateTLSRedirectConfig tls =
     (case tls of
        None \<Rightarrow> None
      | Some t \<Rightarrow>
          (case tls_Redirect t of
             None \<Rightarrow> None
           | Some redirect \<Rightarrow>
               if \<not> tr_Enable redirect then None
               else Some \<lparr>v2tr_Code = generateIntFromPointer (tr_Code redirect) 301,
                          v2tr_BasedOn = generateTLSRedirectBasedOn (tr_BasedOn redirect)\<rparr>))"

definition generateSessionCookie :: "SessionCookie option \<Rightarrow> v2_SessionCookie option" where
  "generateSessionCookie sc =
     (case sc of
        None \<Rightarrow> None
      | Some c \<Rightarrow>
          if \<not> sc_Enable c then None
          else Some \<lparr>v2sc_Enable = True, v2sc_Name = sc_Name c, v2sc_Path = sc_Path c,
                     v2sc_Expires = sc_Expires c, v2sc_Domain = sc_Domain c,
                     v2sc_HTTPOnly = sc_HTTPOnly c, v2sc_Secure = sc_Secure c\<rparr>)"

definition generateQueueForPlus :: "UpstreamQueue option \<Rightarrow> string \<Rightarrow> v2_Queue option" where
  "generateQueueForPlus upstreamQueue defaultTimeout =
     (case upstreamQueue of
        None \<Rightarrow> None
      | Some q \<Rightarrow> Some \<lparr>v2q_Size = q_Size q,
                         v2q_Timeout = generateString (q_Timeout q) defaultTimeout\<rparr>)"

definition generateStatusMatchName :: "string \<Rightarrow> string" where
  "generateStatusMatchName upstreamName = upstreamName @ ''_match''"

definition generateUpstreamStatusMatch :: "string \<Rightarrow> string \<Rightarrow> v2_StatusMatch" where
  "generateUpstreamStatusMatch upstreamName status =
     \<lparr>sm_Name = generateStatusMatchName upstreamName, sm_Code = status\<rparr>"

definition newHealthCheckWithDefaults ::
  "Upstream \<Rightarrow> string \<Rightarrow> ConfigParams \<Rightarrow> v2_HealthCheck" where
  "newHealthCheckWithDefaults upstream upstreamName cfgParams =
     \<lparr>v2hc_Name = upstreamName,
      v2hc_URI = ''/'',
      v2hc_Interval = ''5s'',
      v2hc_Jitter = ''0s'',
      v2hc_Fails = 1,
      v2hc_Passes = 1,
      v2hc_Port = int (unat (u_Port upstream)),
      v2hc_ProxyPass =
        generateProxyPassProtocol (utls_Enable (u_TLS upstream)) @ ''://'' @ upstreamName,
      v2hc_ProxyConnectTimeout =
        generateString (u_ProxyConnectTimeout upstream) (cp_ProxyConnectTimeout cfgParams),
      v2hc_ProxyReadTimeout =
        generateString (u_ProxyReadTimeout upstream) (cp_ProxyReadTimeout cfgParams),
      v2hc_ProxySendTimeout =
        generateString (u_ProxySendTimeout upstream) (cp_ProxySendTimeout cfgParams),
      v2hc_Headers = Map.empty,
      v2hc_Match = []\<rparr>"

definition generateHealthCheck ::
  "Upstream \<Rightarrow> string \<Rightarrow> ConfigParams \<Rightarrow> v2_HealthCheck option" where
  "generateHealthCheck upstream upstreamName cfgParams =
     (case u_HealthCheck upstream of
        None \<Rightarrow> None
      | Some uhc \<Rightarrow>
          if \<not> hc_Enable uhc then None
          else
            (let hc = newHealthCheckWithDefaults upstream upstreamName cfgParams;
                 hc = (if hc_Path uhc \<noteq> [] then hc\<lparr>v2hc_URI := hc_Path uhc\<rparr> else hc);
                 hc = (if hc_Interval uhc \<noteq> [] then hc\<lparr>v2hc_Interval := hc_Interval uhc\<rparr>
                       else hc);
                 hc = (if hc_Jitter uhc \<noteq> [] then hc\<lparr>v2hc_Jitter := hc_Jitter uhc\<rparr> else hc);
                 hc = (if hc_Fails uhc > 0 then hc\<lparr>v2hc_Fails := hc_Fails uhc\<rparr> else hc);
                 hc = (if hc_Passes uhc > 0 then hc\<lparr>v2hc_Passes := hc_Passes uhc\<rparr> else hc);
                 hc = (if hc_Port uhc > 0 then hc\<lparr>v2hc_Port := hc_Port uhc\<rparr> else hc);
                 hc = (if hc_ConnectTimeout uhc \<noteq> []
                       then hc\<lparr>v2hc_ProxyConnectTimeout := hc_ConnectTimeout uhc\<rparr> else hc);
                 hc = (if hc_ReadTimeout uhc \<noteq> []
                       then hc\<lparr>v2hc_ProxyReadTimeout := hc_ReadTimeout uhc\<rparr> else hc);
                 hc = (if hc_SendTimeout uhc \<noteq> []
                       then hc\<lparr>v2hc_ProxySendTimeout := hc_SendTimeout uhc\<rparr> else hc);
                 hc = hc\<lparr>v2hc_Headers :=
                        foldl (\<lambda>hs h. hs(h_Name h \<mapsto> h_Value h)) (v2hc_Headers hc)
                          (hc_Headers uhc)\<rparr>;
                 hc = (case hc_TLS uhc of
                         Some t \<Rightarrow>
                           hc\<lparr>v2hc_ProxyPass :=
                                generateProxyPassProtocol (utls_Enable t) @ ''://'' @ upstreamName\<rparr>
                       | None \<Rightarrow> hc);
                 hc = (if hc_StatusMatch uhc \<noteq> []
                       then hc\<lparr>v2hc_Match := generateStatusMatchName upstreamName\<rparr> else hc)
             in Some hc))"

subsection \<open>The configurator and its warnings\<close>

text \<open>
  \<open>Warnings\<close> is a Go map from \<open>runtime.Object\<close> to a list of messages. Its keys are
  the pointers to the resources: a key is the kind of resource and its address.
  The configurator is the receiver of the generating methods; a method that writes a
  warning returns the updated configurator next to its result.
\<close>

datatype Object = VirtualServerObject nat | VirtualServerRouteObject nat

type_synonym Warnings = "Object \<rightharpoonup> string list"

record virtualServerConfigurator =
  vsc_cfgParams :: ConfigParams
  vsc_isPlus :: bool
  vsc_isResolverConfigured :: bool
  vsc_warnings :: Warnings

definition addWarningf ::
  "virtualServerConfigurator \<Rightarrow> Object \<Rightarrow> string \<Rightarrow> virtualServerConfigurator" where
  "addWarningf vsc obj msg =
     vsc\<lparr>vsc_warnings :=
       (vsc_warnings vsc)(obj \<mapsto> (case vsc_warnings vsc obj of None \<Rightarrow> [] | Some ws \<Rightarrow> ws) @ [msg])\<rparr>"

definition clearWarnings :: "virtualServerConfigurator \<Rightarrow> virtualServerConfigurator" where
  "clearWarnings vsc = vsc\<lparr>vsc_warnings := Map.empty\<rparr>"

definition newVirtualServerConfigurator ::
  "ConfigParams \<Rightarrow> bool \<Rightarrow> bool \<Rightarrow> virtualServerConfigurator" where
  "newVirtualServerConfigurator cfgParams isPlus isResolverConfigured =
     \<lparr>vsc_cfgParams = cfgParams, vsc_isPlus = isPlus,
      vsc_isResolverConfigured = isResolverConfigured, vsc_warnings = Map.empty\<rparr>"

definition externalNameWarning :: "string \<Rightarrow> string \<Rightarrow> string" where
  "externalNameWarning service name =
     ''Type ExternalName service '' @ service @ '' in upstream '' @ name
       @ '' will be ignored. To use ExternaName services, a resolver must be configured in the ConfigMap''"

definition generateEndpointsForUpstream ::
  "virtualServerConfigurator \<Rightarrow> Object \<Rightarrow> string \<Rightarrow> Upstream \<Rightarrow> VirtualServerEx
     \<Rightarrow> string list \<times> virtualServerConfigurator" where
  "generateEndpointsForUpstream vsc owner namespace upstream virtualServerEx =
     (let endpointsKey = GenerateEndpointsKey namespace (u_Service upstream)
            (u_Subselector upstream) (u_Port upstream);
          externalNameSvcKey = GenerateExternalNameSvcKey namespace (u_Service upstream);
          endpoints = (case vsx_Endpoints virtualServerEx endpointsKey of
                         None \<Rightarrow> [] | Some es \<Rightarrow> es)
      in if \<not> vsc_isPlus vsc \<and> length endpoints = 0 then ([nginx502Server], vsc)
         else
           (let isExternalNameSvc =
                  (vsx_ExternalNameSvcs virtualServerEx externalNameSvcKey \<noteq> None)
            in if isExternalNameSvc \<and> \<not> vsc_isResolverConfigured vsc
               then ([], addWarningf vsc owner
                           (externalNameWarning (u_Service upstream) (u_Name upstream)))
               else (endpoints, vsc)))"

definition slowStartWarning :: "string \<Rightarrow> string \<Rightarrow> string" where
  "slowStartWarning name lbMethod =
     ''Slow start will be disabled for upstream '' @ name @ '' because lb method ''
       @ [CHR 0x27] @ lbMethod @ [CHR 0x27] @ '' is incompatible with slow start''"

definition generateSlowStartForPlus ::
  "virtualServerConfigurator \<Rightarrow> Object \<Rightarrow> Upstream \<Rightarrow> string
     \<Rightarrow> string \<times> virtualServerConfigurator" where
  "generateSlowStartForPlus vsc owner upstream lbMethod =
     (if u_SlowStart upstream = [] then ([], vsc)
      else
        (let isIncompatible = (lbMethod \<in> set incompatibleLBMethodsForSlowStart);
             isHash = HasPrefix lbMethod ''hash''
         in if isIncompatible \<or> isHash
            then ([], addWarningf vsc owner (slowStartWarning (u_Name upstream) lbMethod))
            else (u_SlowStart upstream, vsc)))"

definition generateUpstream ::
  "virtualServerConfigurator \<Rightarrow> Object \<Rightarrow> string \<Rightarrow> Upstream \<Rightarrow> bool \<Rightarrow> string list
     \<Rightarrow> v2_Upstream \<times> virtualServerConfigurator" where
  "generateUpstream vsc owner upstreamName upstream isExternalNameSvc endpoints =
     (let upsServers = map (\<lambda>e. \<lparr>us_Address = e\<rparr>) endpoints;
          lbMethod = generateLBMethod (u_LBMethod upstream) (cp_LBMethod (vsc_cfgParams vsc));
          ups = \<lparr>v2u_Name = upstreamName,
                 v2u_Servers = upsServers,
                 v2u_LBMethod = lbMethod,
                 v2u_Resolve = isExternalNameSvc,
                 v2u_Keepalive =
                   generateIntFromPointer (u_Keepalive upstream) (cp_Keepalive (vsc_cfgParams vsc)),
                 v2u_MaxFails =
                   generateIntFromPointer (u_MaxFails upstream) (cp_MaxFails (vsc_cfgParams vsc)),
                 v2u_MaxConns =
                   generateIntFromPointer (u_MaxConns upstream) (cp_MaxConns (vsc_cfgParams vsc)),
                 v2u_SlowStart = [],
                 v2u_FailTimeout =
                   generateString (u_FailTimeout upstream) (cp_FailTimeout (vsc_cfgParams vsc)),
                 v2u_UpstreamZoneSize = cp_UpstreamZoneSize (vsc_cfgParams vsc),
                 v2u_Queue = None,
                 v2u_SessionCookie = None\<rparr>
      in if vsc_isPlus vsc
         then
           (let (slowStart, vsc') = generateSlowStartForPlus vsc owner upstream lbMethod
            in (ups\<lparr>v2u_SlowStart := slowStart,
                     v2u_Queue := generateQueueForPlus (u_Queue upstream) ''60s'',
                     v2u_SessionCookie := generateSessionCookie (u_SessionCookie upstream)\<rparr>,
                vsc'))
         else (ups, vsc))"

subsection \<open>The routing compiler\<close>

record routingCfg =
  rc_Maps :: "v2_Map list"
  rc_SplitClients :: "v2_SplitClient list"
  rc_Locations :: "v2_Location list"
  rc_InternalRedirectLocation :: v2_InternalRedirectLocation

text \<open>\<open>crUpstreams[upstreamName]\<close>: a missing key reads as the zero value.\<close>

definition lookupUpstream :: "(string \<rightharpoonup> Upstream) \<Rightarrow> string \<Rightarrow> Upstream" where
  "lookupUpstream crUpstreams upstreamName =
     (case crUpstreams upstreamName of None \<Rightarrow> zeroUpstream | Some u \<Rightarrow> u)"

text \<open>
  The generating functions that read \<open>Action.Pass\<close> through an action pointer return an
  \<open>option\<close>: \<open>None\<close> is the run-time panic of a nil dereference. A loop
  \<open>for i, x := range xs\<close> that only appends is a \<open>map\<close> over \<open>enumerate 0 xs\<close>.
\<close>

definition generateSplits ::
  "Split list \<Rightarrow> upstreamNamer \<Rightarrow> (string \<rightharpoonup> Upstream) \<Rightarrow> variableNamer \<Rightarrow> int \<Rightarrow> ConfigParams
     \<Rightarrow> (v2_SplitClient \<times> v2_Location list) option" where
  "generateSplits splits upstreamNamer crUpstreams variableNamer scIndex cfgParams =
     (let distributions =
            map (\<lambda>(i, s). \<lparr>d_Weight = show_int (s_Weight s) @ ''%'',
                           d_Value = ''@splits_'' @ show_int scIndex @ ''_split_''
                                       @ show_int (int i)\<rparr>)
              (enumerate 0 splits);
          splitClient = \<lparr>spc_Source = ''$request_id'',
                         spc_Variable = GetNameForSplitClientVariable variableNamer scIndex,
                         spc_Distributions = distributions\<rparr>
      in case those
                (map (\<lambda>(i, s).
                        case s_Action s of
                          None \<Rightarrow> None
                        | Some action \<Rightarrow>
                            (let path = ''@splits_'' @ show_int scIndex @ ''_split_''
                                          @ show_int (int i);
                                 upstreamName = GetNameForUpstream upstreamNamer (a_Pass action);
                                 upstream = lookupUpstream crUpstreams upstreamName
                             in Some (generateLocation path upstreamName upstream action
                                        cfgParams)))
                   (enumerate 0 splits)) of
           None \<Rightarrow> None
         | Some locations \<Rightarrow> Some (splitClient, locations))"

definition generateDefaultSplitsConfig ::
  "Route \<Rightarrow> upstreamNamer \<Rightarrow> (string \<rightharpoonup> Upstream) \<Rightarrow> variableNamer \<Rightarrow> int \<Rightarrow> ConfigParams
     \<Rightarrow> routingCfg option" where
  "generateDefaultSplitsConfig route upstreamNamer crUpstreams variableNamer scIndex cfgParams =
     (case generateSplits (r_Splits route) upstreamNamer crUpstreams variableNamer scIndex
             cfgParams of
        None \<Rightarrow> None
      | Some (sc, locs) \<Rightarrow>
          (let splitClientVarName = GetNameForSplitClientVariable variableNamer scIndex;
               irl = \<lparr>irl_Path = r_Path route, irl_Destination = splitClientVarName\<rparr>
           in Some \<lparr>rc_Maps = [],
                     rc_SplitClients = [sc],
                     rc_Locations = locs,
                     rc_InternalRedirectLocation = irl\<rparr>))"

definition specialMapParameters :: "string list" where
  "specialMapParameters = [''default'', ''hostnames'', ''include'', ''volatile'']"

definition generateValueForMatchesRouteMap :: "string \<Rightarrow> string \<times> bool" where
  "generateValueForMatchesRouteMap matchedValue =
     (case matchedValue of
        [] \<Rightarrow> ([dquote, dquote], False)
      | c # rest \<Rightarrow>
          (let (isNegative, matchedValue) =
                 (if c = CHR ''!'' then (True, rest) else (False, matchedValue))
           in if matchedValue \<in> set specialMapParameters
              then (backslash # matchedValue, isNegative)
              else ([dquote] @ matchedValue @ [dquote], isNegative)))"

definition generateParametersForMatchesRouteMap :: "string \<Rightarrow> string \<Rightarrow> v2_Parameter list" where
  "generateParametersForMatchesRouteMap matchedValue successfulResult =
     (let (val, isNegative) = generateValueForMatchesRouteMap matchedValue;
          (valueResult, defaultResult) =
            (if isNegative then (''0'', successfulResult) else (successfulResult, ''0''))
      in [\<lparr>p_Value = val, p_Result = valueResult\<rparr>,
          \<lparr>p_Value = ''default'', p_Result = defaultResult\<rparr>])"

definition getNameForSourceForMatchesRouteMapFromCondition :: "Condition \<Rightarrow> string" where
  "getNameForSourceForMatchesRouteMapFromCondition condition =
     (if c_Header condition \<noteq> [] then ''$http_'' @ replace_dash (c_Header condition)
      else if c_Cookie condition \<noteq> [] then ''$cookie_'' @ c_Cookie condition
      else if c_Argument condition \<noteq> [] then ''$arg_'' @ c_Argument condition
      else c_Variable condition)"

text \<open>The first loop of \<open>generateMatchesConfig\<close>: one map for each condition of each match.\<close>

definition generateMatchesConfig_conditionMaps ::
  "variableNamer \<Rightarrow> int \<Rightarrow> Match list \<Rightarrow> v2_Map list" where
  "generateMatchesConfig_conditionMaps variableNamer index matches =
     concat
       (map (\<lambda>(i, m).
               map (\<lambda>(j, c).
                      (let source = getNameForSourceForMatchesRouteMapFromCondition c;
                           variable = GetNameForVariableForMatchesRouteMap variableNamer index
                                        (int i) (int j);
                           successfulResult =
                             (if int j < int (length (m_Conditions m)) - 1
                              then GetNameForVariableForMatchesRouteMap variableNamer index
                                     (int i) (int j + 1)
                              else ''1'');
                           params = generateParametersForMatchesRouteMap (c_Value c)
                                      successfulResult
                       in \<lparr>map_Source = source, map_Variable = variable,
                            map_Parameters = params\<rparr>))
                 (enumerate 0 (m_Conditions m)))
          (enumerate 0 matches))"

text \<open>
  The second loop: the source and the parameters of the main map. The loop state is
  \<open>(source, params, scLocalIndex)\<close>; \<open>i\<close> is the index of the match at the head.
\<close>

fun generateMatchesConfig_mainMapLoop ::
  "variableNamer \<Rightarrow> int \<Rightarrow> int \<Rightarrow> nat \<Rightarrow> Match list \<Rightarrow> string \<times> v2_Parameter list \<times> int
     \<Rightarrow> string \<times> v2_Parameter list \<times> int" where
  "generateMatchesConfig_mainMapLoop variableNamer index scIndex i [] st = st"
| "generateMatchesConfig_mainMapLoop variableNamer index scIndex i (m # ms)
     (source, params, scLocalIndex) =
     (let source' = source @ GetNameForVariableForMatchesRouteMap variableNamer index (int i) 0;
          v = ''~^'' @ replicate i (CHR ''0'') @ ''1'';
          r = ''@matches_'' @ show_int index @ ''_match_'' @ show_int (int i);
          (r', scLocalIndex') =
            (if length (m_Splits m) > 0
             then (GetNameForSplitClientVariable variableNamer (scIndex + scLocalIndex),
                   scLocalIndex + 1)
             else (r, scLocalIndex));
          p = \<lparr>p_Value = v, p_Result = r'\<rparr>
      in generateMatchesConfig_mainMapLoop variableNamer index scIndex (Suc i) ms
           (source', params @ [p], scLocalIndex'))"

text \<open>
  The third loop: the locations and split clients of the matches. The loop state is
  \<open>(locations, splitClients, scLocalIndex)\<close>.
\<close>

fun generateMatchesConfig_locationsLoop ::
  "upstreamNamer \<Rightarrow> (string \<rightharpoonup> Upstream) \<Rightarrow> variableNamer \<Rightarrow> int \<Rightarrow> int \<Rightarrow> ConfigParams
     \<Rightarrow> nat \<Rightarrow> Match list \<Rightarrow> v2_Location list \<times> v2_SplitClient list \<times> int
     \<Rightarrow> (v2_Location list \<times> v2_SplitClient list \<times> int) option" where
  "generateMatchesConfig_locationsLoop upstreamNamer crUpstreams variableNamer index scIndex
     cfgParams i [] st = Some st"
| "generateMatchesConfig_locationsLoop upstreamNamer crUpstreams variableNamer index scIndex
     cfgParams i (m # ms) (locations, splitClients, scLocalIndex) =
     (if length (m_Splits m) > 0
      then
        (case generateSplits (m_Splits m) upstreamNamer crUpstreams variableNamer
                (scIndex + scLocalIndex) cfgParams of
           None \<Rightarrow> None
         | Some (sc, locs) \<Rightarrow>
             generateMatchesConfig_locationsLoop upstreamNamer crUpstreams variableNamer index
               scIndex cfgParams (Suc i) ms
               (locations @ locs, splitClients @ [sc], scLocalIndex + 1))
      else
        (case m_Action m of
           None \<Rightarrow> None
         | Some action \<Rightarrow>
             (let path = ''@matches_'' @ show_int index @ ''_match_'' @ show_int (int i);
                  upstreamName = GetNameForUpstream upstreamNamer (a_Pass action);
                  upstream = lookupUpstream crUpstreams upstreamName;
                  loc = generateLocation path upstreamName upstream action cfgParams
              in generateMatchesConfig_locationsLoop upstreamNamer crUpstreams variableNamer
                   index scIndex cfgParams (Suc i) ms
                   (locations @ [loc], splitClients, scLocalIndex))))"

definition generateMatchesConfig ::
  "Route \<Rightarrow> upstreamNamer \<Rightarrow> (string \<rightharpoonup> Upstream) \<Rightarrow> variableNamer \<Rightarrow> int \<Rightarrow> int \<Rightarrow> ConfigParams
     \<Rightarrow> routingCfg option" where
  "generateMatchesConfig route upstreamNamer crUpstreams variableNamer index scIndex cfgParams =
     (let maps = generateMatchesConfig_conditionMaps variableNamer index (r_Matches route);
          (source, params, scLocalIndex) =
            generateMatchesConfig_mainMapLoop variableNamer index scIndex 0 (r_Matches route)
              ([], [], 0);
          defaultResult =
            (if length (r_Splits route) > 0
             then GetNameForSplitClientVariable variableNamer (scIndex + scLocalIndex)
             else ''@matches_'' @ show_int index @ ''_default'');
          defaultParam = \<lparr>p_Value = ''default'', p_Result = defaultResult\<rparr>;
          variable = GetNameForVariableForMatchesRouteMainMap variableNamer index;
          mainMap = \<lparr>map_Source = source, map_Variable = variable,
                     map_Parameters = params @ [defaultParam]\<rparr>
      in case generateMatchesConfig_locationsLoop upstreamNamer crUpstreams variableNamer index
                scIndex cfgParams 0 (r_Matches route) ([], [], 0) of
           None \<Rightarrow> None
         | Some (locations, splitClients, scLocalIndex2) \<Rightarrow>
             (case (if length (r_Splits route) > 0
                    then
                      (case generateSplits (r_Splits route) upstreamNamer crUpstreams
                              variableNamer (scIndex + scLocalIndex2) cfgParams of
                         None \<Rightarrow> None
                       | Some (sc, locs) \<Rightarrow> Some (locations @ locs, splitClients @ [sc]))
                    else
                      (case r_Action route of
                         None \<Rightarrow> None
                       | Some action \<Rightarrow>
                           (let path = ''@matches_'' @ show_int index @ ''_default'';
                                upstreamName = GetNameForUpstream upstreamNamer (a_Pass action);
                                upstream = lookupUpstream crUpstreams upstreamName;
                                loc = generateLocation path upstreamName upstream action
                                        cfgParams
                            in Some (locations @ [loc], splitClients)))) of
                None \<Rightarrow> None
              | Some (locations', splitClients') \<Rightarrow>
                  Some \<lparr>rc_Maps = maps @ [mainMap],
                        rc_SplitClients = splitClients',
                        rc_Locations = locations',
                        rc_InternalRedirectLocation =
                          \<lparr>irl_Path = r_Path route, irl_Destination = variable\<rparr>\<rparr>))"

subsection \<open>The top-level assembler\<close>

text \<open>
  The state of the two upstream loops of \<open>GenerateVirtualServerConfig\<close>: the
  configurator, \<open>upstreams\<close>, \<open>crUpstreams\<close>, \<open>healthChecks\<close> and \<open>statusMatches\<close>.
  The loop over the upstreams of the VirtualServer and the inner loop over the
  upstreams of a VirtualServerRoute have the same body, with their own owner, namer and
  namespace. The status match is read through \<open>u.HealthCheck\<close>, which is not nil when
  \<open>generateHealthCheck\<close> has returned a health check.
\<close>

type_synonym upstreamsState =
  "virtualServerConfigurator \<times> v2_Upstream list \<times> (string \<rightharpoonup> Upstream)
     \<times> v2_HealthCheck list \<times> v2_StatusMatch list"

fun generateUpstreamsLoop ::
  "Object \<Rightarrow> upstreamNamer \<Rightarrow> string \<Rightarrow> VirtualServerEx \<Rightarrow> Upstream list \<Rightarrow> upstreamsState
     \<Rightarrow> upstreamsState" where
  "generateUpstreamsLoop owner namer upstreamNamespace virtualServerEx [] st = st"
| "generateUpstreamsLoop owner namer upstreamNamespace virtualServerEx (u # us)
     (vsc, upstreams, crUpstreams, healthChecks, statusMatches) =
     (let upstreamName = GetNameForUpstream namer (u_Name u);
          (endpoints, vsc1) =
            generateEndpointsForUpstream vsc owner upstreamNamespace u virtualServerEx;
          isExternalNameSvc =
            (vsx_ExternalNameSvcs virtualServerEx
               (GenerateExternalNameSvcKey upstreamNamespace (u_Service u)) \<noteq> None);
          (ups, vsc2) = generateUpstream vsc1 owner upstreamName u isExternalNameSvc endpoints;
          (healthChecks', statusMatches') =
            (case generateHealthCheck u upstreamName (vsc_cfgParams vsc2) of
               None \<Rightarrow> (healthChecks, statusMatches)
             | Some hc \<Rightarrow>
                 (healthChecks @ [hc],
                  (case u_HealthCheck u of
                     None \<Rightarrow> statusMatches
                   | Some uhc \<Rightarrow>
                       if hc_StatusMatch uhc \<noteq> []
                       then statusMatches
                              @ [generateUpstreamStatusMatch upstreamName (hc_StatusMatch uhc)]
                       else statusMatches)))
      in generateUpstreamsLoop owner namer upstreamNamespace virtualServerEx us
           (vsc2, upstreams @ [ups], crUpstreams(upstreamName \<mapsto> u), healthChecks',
            statusMatches'))"

fun generateUpstreamsOfRoutesLoop ::
  "VirtualServerEx \<Rightarrow> VirtualServerRoute list \<Rightarrow> upstreamsState \<Rightarrow> upstreamsState" where
  "generateUpstreamsOfRoutesLoop virtualServerEx [] st = st"
| "generateUpstreamsOfRoutesLoop virtualServerEx (vsr # vsrs) st =
     generateUpstreamsOfRoutesLoop virtualServerEx vsrs
       (generateUpstreamsLoop (VirtualServerRouteObject (vsr_addr vsr))
          (newUpstreamNamerForVirtualServerRoute (vsx_VirtualServer virtualServerEx) vsr)
          (vsr_Namespace vsr) virtualServerEx (vsrs_Upstreams (vsr_Spec vsr)) st)"

text \<open>
  The state of the two route loops: \<open>maps\<close>, \<open>locations\<close>,
  \<open>internalRedirectLocations\<close>, \<open>splitClients\<close> and \<open>matchesRoutes\<close>. \<open>generateRoute\<close>
  is the body both loops share: the three-way classification of a route.
\<close>

type_synonym routesState =
  "v2_Map list \<times> v2_Location list \<times> v2_InternalRedirectLocation list \<times> v2_SplitClient list
     \<times> int"

definition generateRoute ::
  "Route \<Rightarrow> upstreamNamer \<Rightarrow> (string \<rightharpoonup> Upstream) \<Rightarrow> variableNamer \<Rightarrow> ConfigParams
     \<Rightarrow> routesState \<Rightarrow> routesState option" where
  "generateRoute r namer crUpstreams variableNamer cfgParams st =
     (case st of (maps, locations, internalRedirectLocations, splitClients, matchesRoutes) \<Rightarrow>
        if length (r_Matches r) > 0
        then
          (case generateMatchesConfig r namer crUpstreams variableNamer matchesRoutes
                  (int (length splitClients)) cfgParams of
             None \<Rightarrow> None
           | Some cfg \<Rightarrow>
               Some (maps @ rc_Maps cfg,
                     locations @ rc_Locations cfg,
                     internalRedirectLocations @ [rc_InternalRedirectLocation cfg],
                     splitClients @ rc_SplitClients cfg,
                     matchesRoutes + 1))
        else if length (r_Splits r) > 0
        then
          (case generateDefaultSplitsConfig r namer crUpstreams variableNamer
                  (int (length splitClients)) cfgParams of
             None \<Rightarrow> None
           | Some cfg \<Rightarrow>
               Some (maps,
                     locations @ rc_Locations cfg,
                     internalRedirectLocations @ [rc_InternalRedirectLocation cfg],
                     splitClients @ rc_SplitClients cfg,
                     matchesRoutes))
        else
          (case r_Action r of
             None \<Rightarrow> None
           | Some action \<Rightarrow>
               (let upstreamName = GetNameForUpstream namer (a_Pass action);
                    upstream = lookupUpstream crUpstreams upstreamName;
                    loc = generateLocation (r_Path r) upstreamName upstream action cfgParams
                in Some (maps, locations @ [loc], internalRedirectLocations, splitClients,
                         matchesRoutes))))"

fun generateRoutesLoop ::
  "upstreamNamer \<Rightarrow> (string \<rightharpoonup> Upstream) \<Rightarrow> variableNamer \<Rightarrow> ConfigParams \<Rightarrow> Route list
     \<Rightarrow> routesState \<Rightarrow> routesState option" where
  "generateRoutesLoop namer crUpstreams variableNamer cfgParams [] st = Some st"
| "generateRoutesLoop namer crUpstreams variableNamer cfgParams (r # rs) st =
     (if r_Route r \<noteq> []
      then generateRoutesLoop namer crUpstreams variableNamer cfgParams rs st
      else
        (case generateRoute r namer crUpstreams variableNamer cfgParams st of
           None \<Rightarrow> None
         | Some st' \<Rightarrow> generateRoutesLoop namer crUpstreams variableNamer cfgParams rs st'))"

fun generateSubroutesLoop ::
  "upstreamNamer \<Rightarrow> (string \<rightharpoonup> Upstream) \<Rightarrow> variableNamer \<Rightarrow> ConfigParams \<Rightarrow> Route list
     \<Rightarrow> routesState \<Rightarrow> routesState option" where
  "generateSubroutesLoop namer crUpstreams variableNamer cfgParams [] st = Some st"
| "generateSubroutesLoop namer crUpstreams variableNamer cfgParams (r # rs) st =
     (case generateRoute r namer crUpstreams variableNamer cfgParams st of
        None \<Rightarrow> None
      | Some st' \<Rightarrow> generateSubroutesLoop namer crUpstreams variableNamer cfgParams rs st')"

fun generateSubroutesOfRoutesLoop ::
  "VirtualServer \<Rightarrow> (string \<rightharpoonup> Upstream) \<Rightarrow> variableNamer \<Rightarrow> ConfigParams
     \<Rightarrow> VirtualServerRoute list \<Rightarrow> routesState \<Rightarrow> routesState option" where
  "generateSubroutesOfRoutesLoop virtualServer crUpstreams variableNamer cfgParams [] st =
     Some st"
| "generateSubroutesOfRoutesLoop virtualServer crUpstreams variableNamer cfgParams
     (vsr # vsrs) st =
     (case generateSubroutesLoop (newUpstreamNamerForVirtualServerRoute virtualServer vsr)
             crUpstreams variableNamer cfgParams (vsrs_Subroutes (vsr_Spec vsr)) st of
        None \<Rightarrow> None
      | Some st' \<Rightarrow>
          generateSubroutesOfRoutesLoop virtualServer crUpstreams variableNamer cfgParams vsrs
            st')"

text \<open>
  \<open>GenerateVirtualServerConfig\<close> returns the configuration and the warnings; the model
  returns the configurator after the call as well, whose warnings are the returned
  ones. \<open>None\<close> is a panic.
\<close>

definition GenerateVirtualServerConfig ::
  "string \<Rightarrow> virtualServerConfigurator \<Rightarrow> VirtualServerEx \<Rightarrow> string
     \<Rightarrow> (v2_VirtualServerConfig \<times> Warnings \<times> virtualServerConfigurator) option" where
  "GenerateVirtualServerConfig pemFileNameForMissingTLSSecret vsc0 virtualServerEx tlsPemFileName =
     (let vsc = clearWarnings vsc0;
          virtualServer = vsx_VirtualServer virtualServerEx;
          ssl = generateSSLConfig pemFileNameForMissingTLSSecret (vss_TLS (vs_Spec virtualServer))
                  tlsPemFileName (vsc_cfgParams vsc);
          tlsRedirectConfig = generateTLSRedirectConfig (vss_TLS (vs_Spec virtualServer));
          virtualServerUpstreamNamer = newUpstreamNamerForVirtualServer virtualServer;
          st1 = generateUpstreamsLoop (VirtualServerObject (vs_addr virtualServer))
                  virtualServerUpstreamNamer (vs_Namespace virtualServer) virtualServerEx
                  (vss_Upstreams (vs_Spec virtualServer)) (vsc, [], Map.empty, [], []);
          (vsc', upstreams, crUpstreams, healthChecks, statusMatches) =
            generateUpstreamsOfRoutesLoop virtualServerEx
              (vsx_VirtualServerRoutes virtualServerEx) st1;
          variableNamer = newVariableNamer virtualServer
      in case generateRoutesLoop virtualServerUpstreamNamer crUpstreams variableNamer
                (vsc_cfgParams vsc') (vss_Routes (vs_Spec virtualServer)) ([], [], [], [], 0) of
           None \<Rightarrow> None
         | Some st2 \<Rightarrow>
             (case generateSubroutesOfRoutesLoop virtualServer crUpstreams variableNamer
                     (vsc_cfgParams vsc') (vsx_VirtualServerRoutes virtualServerEx) st2 of
                None \<Rightarrow> None
              | Some (maps, locations, internalRedirectLocations, splitClients, matchesRoutes) \<Rightarrow>
                  (let vscfg =
                         \<lparr>cfg_Server =
                            \<lparr>srv_ServerName = vss_Host (vs_Spec virtualServer),
                             srv_StatusZone = vss_Host (vs_Spec virtualServer),
                             srv_ProxyProtocol = cp_ProxyProtocol (vsc_cfgParams vsc'),
                             srv_SSL = ssl,
                             srv_ServerTokens = cp_ServerTokens (vsc_cfgParams vsc'),
                             srv_RealIPHeader = cp_RealIPHeader (vsc_cfgParams vsc'),
                             srv_SetRealIPFrom = cp_SetRealIPFrom (vsc_cfgParams vsc'),
                             srv_RealIPRecursive = cp_RealIPRecursive (vsc_cfgParams vsc'),
                             srv_Snippets = cp_ServerSnippets (vsc_cfgParams vsc'),
                             srv_InternalRedirectLocations = internalRedirectLocations,
                             srv_Locations = locations,
                             srv_HealthChecks = healthChecks,
                             srv_TLSRedirect = tlsRedirectConfig\<rparr>,
                          cfg_Upstreams = upstreams,
                          cfg_SplitClients = splitClients,
                          cfg_Maps = maps,
                          cfg_StatusMatches = statusMatches\<rparr>
                   in Some (vscfg, vsc_warnings vsc', vsc'))))"

section \<open>The validator (\<open>pkg/apis/configuration/validation/validation.go\<close>)\<close>

subsection \<open>Field paths and errors\<close>

text \<open>
  The types of the Kubernetes package \<open>field\<close>: a path is the list of its steps from the
  root; an error has a type, the path of its field, the offending value and a detail.
  \<open>Required\<close> and \<open>Forbidden\<close> carry the empty string as value, \<open>Duplicate\<close> and
  \<open>NotFound\<close> the empty detail. An error list is aggregated to \<open>nil\<close> exactly when it is
  empty.
\<close>

datatype PathElement = Child string | Index int

type_synonym Path = "PathElement list"

definition NewPath :: "string \<Rightarrow> Path" where
  "NewPath name = [Child name]"

definition path_Child :: "Path \<Rightarrow> string \<Rightarrow> Path" where
  "path_Child p name = p @ [Child name]"

definition path_Index :: "Path \<Rightarrow> int \<Rightarrow> Path" where
  "path_Index p i = p @ [Index i]"

datatype ErrorType =
  ErrorTypeNotFound | ErrorTypeRequired | ErrorTypeDuplicate | ErrorTypeInvalid
  | ErrorTypeForbidden

datatype BadValue =
  StringValue string | IntValue int | IntPointerValue int | Uint16Value "16 word"

record Error =
  err_Type :: ErrorType
  err_Field :: Path
  err_BadValue :: BadValue
  err_Detail :: string

type_synonym ErrorList = "Error list"

definition field_Invalid :: "Path \<Rightarrow> BadValue \<Rightarrow> string \<Rightarrow> Error" where
  "field_Invalid p v detail =
     \<lparr>err_Type = ErrorTypeInvalid, err_Field = p, err_BadValue = v, err_Detail = detail\<rparr>"

definition field_Required :: "Path \<Rightarrow> string \<Rightarrow> Error" where
  "field_Required p detail =
     \<lparr>err_Type = ErrorTypeRequired, err_Field = p, err_BadValue = StringValue [],
      err_Detail = detail\<rparr>"

definition field_Duplicate :: "Path \<Rightarrow> BadValue \<Rightarrow> Error" where
  "field_Duplicate p v =
     \<lparr>err_Type = ErrorTypeDuplicate, err_Field = p, err_BadValue = v, err_Detail = []\<rparr>"

definition field_NotFound :: "Path \<Rightarrow> BadValue \<Rightarrow> Error" where
  "field_NotFound p v =
     \<lparr>err_Type = ErrorTypeNotFound, err_Field = p, err_BadValue = v, err_Detail = []\<rparr>"

definition field_Forbidden :: "Path \<Rightarrow> string \<Rightarrow> Error" where
  "field_Forbidden p detail =
     \<lparr>err_Type = ErrorTypeForbidden, err_Field = p, err_BadValue = StringValue [],
      err_Detail = detail\<rparr>"

subsection \<open>Library functions\<close>

text \<open>
  The validator calls functions of the Kubernetes validation package, of Go's standard
  library and of the package \<open>configs\<close> whose code is not among the files at hand. They
  are the fields of a record that every validating function takes as its first
  argument. A function that returns an \<open>error\<close> is modelled by its error text (\<open>None\<close>
  when it succeeds); the validator uses nothing else of the result.
\<close>

record Library =
  IsDNS1123Subdomain :: "string \<Rightarrow> string list"
  IsDNS1035Label :: "string \<Rightarrow> string list"
  IsQualifiedName :: "string \<Rightarrow> string list"
  IsValidLabelValue :: "string \<Rightarrow> string list"
  IsHTTPHeaderName :: "string \<Rightarrow> string list"
  InclusiveRangeError :: "int \<Rightarrow> int \<Rightarrow> string"
  RegexError :: "string \<Rightarrow> string \<Rightarrow> string list \<Rightarrow> string"
  regexp_Compile :: "string \<Rightarrow> string option"
  strings_Fields :: "string \<Rightarrow> string list"
  ParseTime :: "string \<Rightarrow> string option"
  ParseLBMethod :: "string \<Rightarrow> string option"
  ParseLBMethodForPlus :: "string \<Rightarrow> string option"

text \<open>
  \<open>validation.IsInRange\<close> and \<open>validation.IsValidPortNum\<close>: no message when the value
  lies in the inclusive range, one message otherwise.
\<close>

definition IsInRange :: "Library \<Rightarrow> int \<Rightarrow> int \<Rightarrow> int \<Rightarrow> string list" where
  "IsInRange lib v lo hi =
     (if v \<ge> lo \<and> v \<le> hi then [] else [InclusiveRangeError lib lo hi])"

definition IsValidPortNum :: "Library \<Rightarrow> int \<Rightarrow> string list" where
  "IsValidPortNum lib port =
     (if 1 \<le> port \<and> port \<le> 65535 then [] else [InclusiveRangeError lib 1 65535])"

text \<open>\<open>strings.Split(s, sep)\<close> for a separator of one byte.\<close>

fun split_on :: "char \<Rightarrow> string \<Rightarrow> string list" where
  "split_on sep [] = [[]]"
| "split_on sep (c # cs) =
     (if c = sep then [] # split_on sep cs
      else (case split_on sep cs of
              [] \<Rightarrow> [[c]]
            | p # ps \<Rightarrow> (c # p) # ps))"

text \<open>\<open>strings.SplitN(s, "_", 2)\<close>: split at the first underscore, if there is one.\<close>

definition splitN2_underscore :: "string \<Rightarrow> string list" where
  "splitN2_underscore s =
     (if CHR ''_'' \<in> set s
      then [takeWhile (\<lambda>c. c \<noteq> CHR ''_'') s, tl (dropWhile (\<lambda>c. c \<noteq> CHR ''_'') s)]
      else [s])"

definition HasSuffix_dollar :: "string \<Rightarrow> bool" where
  "HasSuffix_dollar s = (s \<noteq> [] \<and> last s = CHR ''$'')"

definition isDigit :: "char \<Rightarrow> bool" where
  "isDigit c = (c \<in> set ''0123456789'')"

definition digit_value :: "char \<Rightarrow> int" where
  "digit_value c = int (length (takeWhile (\<lambda>d. d \<noteq> c) ''0123456789''))"

text \<open>
  \<open>strconv.ParseInt(s, 10, 64)\<close>: an optional sign, then one or more decimal digits;
  a value outside the 64-bit range is an error.
\<close>

definition ParseInt :: "string \<Rightarrow> int option" where
  "ParseInt s =
     (case s of
        [] \<Rightarrow> None
      | c # cs \<Rightarrow>
          (let (neg, ds) = (if c = CHR ''+'' then (False, cs)
                            else if c = CHR ''-'' then (True, cs)
                            else (False, s))
           in if ds = [] \<or> \<not> list_all isDigit ds then None
              else
                (let v = foldl (\<lambda>acc d. acc * 10 + digit_value d) 0 ds;
                     v' = (if neg then - v else v)
                 in if v' < - (2 ^ 63) \<or> v' > 2 ^ 63 - 1 then None else Some v')))"

text \<open>Addition of Go's 64-bit \<open>int\<close>.\<close>

definition wrap64 :: "int \<Rightarrow> int" where
  "wrap64 x = (x + 2 ^ 63) mod 2 ^ 64 - 2 ^ 63"

subsection \<open>The regular expressions\<close>

text \<open>
  Each compiled expression of the file is anchored at both ends, and is modelled by a
  function that decides the match. A negated class matches every byte outside it, and
  the dot every byte but the newline.
\<close>

definition newline :: char where
  "newline = CHR 0x0A"

definition squote :: char where
  "squote = CHR 0x27"

definition escapedStringsFmt :: string where
  "escapedStringsFmt = ''([^'' @ [dquote, backslash, backslash] @ '']|''
     @ [backslash, backslash] @ ''.)*''"

definition escapedStringsErrMsg :: string where
  "escapedStringsErrMsg = ''must have all '' @ [squote, dquote, squote]
     @ '' (double quotes) escaped and must not end with an unescaped ''
     @ [squote, backslash, squote] @ '' (backslash)''"

fun escapedStringsFmtRegexp_MatchString :: "string \<Rightarrow> bool" where
  "escapedStringsFmtRegexp_MatchString [] = True"
| "escapedStringsFmtRegexp_MatchString (c # cs) =
     (if c = backslash
      then (case cs of
              [] \<Rightarrow> False
            | d # ds \<Rightarrow> d \<noteq> newline \<and> escapedStringsFmtRegexp_MatchString ds)
      else c \<noteq> dquote \<and> escapedStringsFmtRegexp_MatchString cs)"

definition offsetFmt :: string where
  "offsetFmt = [backslash] @ ''d+[kKmMgG]?''"

definition offsetErrMsg :: string where
  "offsetErrMsg = ''must consist of numeric characters followed by a valid size suffix. ''
     @ [squote] @ ''k|K|m|M|g|G''"

definition offsetRegexp_MatchString :: "string \<Rightarrow> bool" where
  "offsetRegexp_MatchString s =
     (let ds = takeWhile isDigit s; rest = dropWhile isDigit s
      in ds \<noteq> [] \<and> (rest = [] \<or> (length rest = 1 \<and> hd rest \<in> set ''kKmMgG'')))"

definition sizeFmt :: string where
  "sizeFmt = [backslash] @ ''d+[kKmM]?''"

definition sizeErrMsg :: string where
  "sizeErrMsg = ''must consist of numeric characters followed by a valid size suffix. ''
     @ [squote] @ ''k|K|m|M''"

definition sizeRegexp_MatchString :: "string \<Rightarrow> bool" where
  "sizeRegexp_MatchString s =
     (let ds = takeWhile isDigit s; rest = dropWhile isDigit s
      in ds \<noteq> [] \<and> (rest = [] \<or> (length rest = 1 \<and> hd rest \<in> set ''kKmM'')))"

definition headerValueFmt :: string where
  "headerValueFmt = ''([^'' @ [dquote] @ ''$'' @ [backslash, backslash] @ '']|''
     @ [backslash, backslash] @ ''[^$])*''"

definition headerValueFmtErrMsg :: string where
  "headerValueFmtErrMsg = ''a valid header must have all '' @ [squote, dquote, squote]
     @ '' escaped and must not contain any '' @ [squote] @ ''$'' @ [squote]
     @ '' or end with an unescaped '' @ [squote, backslash, squote]"

fun headerValueFmtRegexp_MatchString :: "string \<Rightarrow> bool" where
  "headerValueFmtRegexp_MatchString [] = True"
| "headerValueFmtRegexp_MatchString (c # cs) =
     (if c = backslash
      then (case cs of
              [] \<Rightarrow> False
            | d # ds \<Rightarrow> d \<noteq> CHR ''$'' \<and> headerValueFmtRegexp_MatchString ds)
      else c \<noteq> dquote \<and> c \<noteq> CHR ''$'' \<and> headerValueFmtRegexp_MatchString cs)"

definition actionReturnTypeFmt :: string where
  "actionReturnTypeFmt = ''([^;'' @ [backslash] @ ''{'' @ [backslash] @ ''}''
     @ [dquote, backslash, backslash] @ '']|'' @ [backslash, backslash] @ ''.)*''"

definition actionReturnTypeErr :: string where
  "actionReturnTypeErr = ''must have all '' @ [squote, dquote, squote]
     @ '' (double quotes), '' @ [squote] @ ''{'' @ [squote] @ '', '' @ [squote] @ ''}''
     @ [squote] @ '' or '' @ [squote] @ '';'' @ [squote]
     @ '' escaped and must not end with an unescaped '' @ [squote, backslash, squote]
     @ '' (backslash)''"

fun actionReturnTypeRegexp_MatchString :: "string \<Rightarrow> bool" where
  "actionReturnTypeRegexp_MatchString [] = True"
| "actionReturnTypeRegexp_MatchString (c # cs) =
     (if c = backslash
      then (case cs of
              [] \<Rightarrow> False
            | d # ds \<Rightarrow> d \<noteq> newline \<and> actionReturnTypeRegexp_MatchString ds)
      else c \<noteq> CHR '';'' \<and> c \<noteq> CHR ''{'' \<and> c \<noteq> CHR ''}'' \<and> c \<noteq> dquote
           \<and> actionReturnTypeRegexp_MatchString cs)"

definition pathFmt :: string where
  "pathFmt = ''/[^'' @ [backslash] @ ''s{};]*''"

definition pathErrMsg :: string where
  "pathErrMsg =
     ''must start with / and must not include any whitespace character, `{`, `}` or `;`''"

definition isSpaceClass :: "char \<Rightarrow> bool" where
  "isSpaceClass c = (c \<in> set [CHR 0x09, CHR 0x0A, CHR 0x0C, CHR 0x0D, CHR 0x20])"

definition pathRegexp_MatchString :: "string \<Rightarrow> bool" where
  "pathRegexp_MatchString s =
     (case s of
        [] \<Rightarrow> False
      | c # cs \<Rightarrow>
          c = CHR ''/''
          \<and> list_all (\<lambda>d. \<not> isSpaceClass d \<and> d \<noteq> CHR ''{'' \<and> d \<noteq> CHR ''}'' \<and> d \<noteq> CHR '';'') cs)"

definition isNameChar :: "char \<Rightarrow> bool" where
  "isNameChar c =
     (c \<in> set ''_ABCDEFGHIJKLMNOPQRSTUVWXYZabcdefghijklmnopqrstuvwxyz0123456789'')"

definition cookieNameFmt :: string where
  "cookieNameFmt = ''[_A-Za-z0-9]+''"

definition cookieNameErrMsg :: string where
  "cookieNameErrMsg = ''a valid cookie name must consist of alphanumeric characters or ''
     @ [squote] @ ''_'' @ [squote]"

definition cookieNameRegexp_MatchString :: "string \<Rightarrow> bool" where
  "cookieNameRegexp_MatchString s = (s \<noteq> [] \<and> list_all isNameChar s)"

definition argumentNameFmt :: string where
  "argumentNameFmt = ''[_A-Za-z0-9]+''"

definition argumentNameErrMsg :: string where
  "argumentNameErrMsg = ''a valid argument name must consist of alphanumeric characters or ''
     @ [squote] @ ''_'' @ [squote]"

definition argumentNameRegexp_MatchString :: "string \<Rightarrow> bool" where
  "argumentNameRegexp_MatchString s = (s \<noteq> [] \<and> list_all isNameChar s)"

text \<open>
  \<open>captureVariables\<close>: the submatches of all matches of \<open>\$\{([^}]*)\}\<close>, leftmost first
  and without overlap. A match starts at a \<open>${\<close> that has a closing brace after it and
  ends at the first such brace.
\<close>

function captureVariables :: "string \<Rightarrow> string list" where
  "captureVariables [] = []"
| "captureVariables [c] = []"
| "captureVariables (c # d # rest) =
     (if c = CHR ''$'' \<and> d = CHR ''{'' \<and> CHR ''}'' \<in> set rest
      then takeWhile (\<lambda>x. x \<noteq> CHR ''}'') rest
             # captureVariables (tl (dropWhile (\<lambda>x. x \<noteq> CHR ''}'') rest))
      else captureVariables (d # rest))"
  by pat_completeness auto
termination
proof (relation "measure length", goal_cases)
  case 1
  show ?case by simp
next
  case (2 c d rest)
  have "length (dropWhile (\<lambda>x. x \<noteq> CHR ''}'') rest) \<le> length rest"
    by (rule length_dropWhile_le)
  then show ?case by simp
next
  case (3 c d rest)
  show ?case by simp
qed

subsection \<open>Scalars, times and sizes\<close>

definition validateHost :: "Library \<Rightarrow> string \<Rightarrow> Path \<Rightarrow> ErrorList" where
  "validateHost lib host fieldPath =
     (if host = [] then [field_Required fieldPath []]
      else map (\<lambda>msg. field_Invalid fieldPath (StringValue host) msg)
             (IsDNS1123Subdomain lib host))"

definition validRedirectStatusCodes :: "int list" where
  "validRedirectStatusCodes = [301, 302, 307, 308]"

definition validateRedirectStatusCode :: "int \<Rightarrow> Path \<Rightarrow> ErrorList" where
  "validateRedirectStatusCode code fieldPath =
     (if code \<notin> set validRedirectStatusCodes
      then [field_Invalid fieldPath (IntValue code)
              (''status code out of accepted range. accepted values are ''
                 @ [squote] @ ''301'' @ [squote] @ '', '' @ [squote] @ ''302'' @ [squote]
                 @ '', '' @ [squote] @ ''307'' @ [squote] @ '', '' @ [squote] @ ''308''
                 @ [squote])]
      else [])"

definition validateTLSRedirect :: "TLSRedirect option \<Rightarrow> Path \<Rightarrow> ErrorList" where
  "validateTLSRedirect redirect fieldPath =
     (case redirect of
        None \<Rightarrow> []
      | Some r \<Rightarrow>
          (case tr_Code r of
             None \<Rightarrow> []
           | Some code \<Rightarrow> validateRedirectStatusCode code (path_Child fieldPath ''code''))
          @ (if tr_BasedOn r \<noteq> [] \<and> tr_BasedOn r \<noteq> ''scheme''
                \<and> tr_BasedOn r \<noteq> ''x-forwarded-proto''
             then [field_Invalid (path_Child fieldPath ''basedOn'') (StringValue (tr_BasedOn r))
                     (''accepted values are '' @ [squote] @ ''scheme'' @ [squote] @ '', ''
                        @ [squote] @ ''x-forwarded-proto'' @ [squote])]
             else []))"

definition validateSecretName :: "Library \<Rightarrow> string \<Rightarrow> Path \<Rightarrow> ErrorList" where
  "validateSecretName lib name fieldPath =
     (if name = [] then []
      else map (\<lambda>msg. field_Invalid fieldPath (StringValue name) msg)
             (IsDNS1123Subdomain lib name))"

definition validateTLS :: "Library \<Rightarrow> TLS option \<Rightarrow> Path \<Rightarrow> ErrorList" where
  "validateTLS lib tls fieldPath =
     (case tls of
        None \<Rightarrow> []
      | Some t \<Rightarrow>
          validateSecretName lib (tls_Secret t) (path_Child fieldPath ''secret'')
          @ validateTLSRedirect (tls_Redirect t) (path_Child fieldPath ''redirect''))"

definition validatePositiveIntOrZero :: "int \<Rightarrow> Path \<Rightarrow> ErrorList" where
  "validatePositiveIntOrZero n fieldPath =
     (if n < 0 then [field_Invalid fieldPath (IntValue n) ''must be positive''] else [])"

definition validatePositiveIntOrZeroFromPointer :: "int option \<Rightarrow> Path \<Rightarrow> ErrorList" where
  "validatePositiveIntOrZeroFromPointer n fieldPath =
     (case n of
        None \<Rightarrow> []
      | Some v \<Rightarrow>
          if v < 0 then [field_Invalid fieldPath (IntPointerValue v) ''must be positive or zero'']
          else [])"

definition validateTime :: "Library \<Rightarrow> string \<Rightarrow> Path \<Rightarrow> ErrorList" where
  "validateTime lib time fieldPath =
     (if time = [] then []
      else (case ParseTime lib time of
              Some err \<Rightarrow> [field_Invalid fieldPath (StringValue time) err]
            | None \<Rightarrow> []))"

definition validateOffset :: "Library \<Rightarrow> string \<Rightarrow> Path \<Rightarrow> ErrorList" where
  "validateOffset lib offset fieldPath =
     (if offset = [] then []
      else if \<not> offsetRegexp_MatchString offset
      then [field_Invalid fieldPath (StringValue offset)
              (RegexError lib offsetErrMsg offsetFmt [''16'', ''32k'', ''64M''])]
      else [])"

definition validateSize :: "Library \<Rightarrow> string \<Rightarrow> Path \<Rightarrow> ErrorList" where
  "validateSize lib sz fieldPath =
     (if sz = [] then []
      else if \<not> sizeRegexp_MatchString sz
      then [field_Invalid fieldPath (StringValue sz)
              (RegexError lib sizeErrMsg sizeFmt [''16'', ''32k'', ''64M''])]
      else [])"

definition validateBuffer :: "Library \<Rightarrow> UpstreamBuffers option \<Rightarrow> Path \<Rightarrow> ErrorList" where
  "validateBuffer lib buff fieldPath =
     (case buff of
        None \<Rightarrow> []
      | Some b \<Rightarrow>
          (if ub_Number b \<le> 0
           then [field_Invalid (path_Child fieldPath ''number'') (IntValue (ub_Number b))
                   ''must be positive'']
           else [])
          @ (if ub_Size b = []
             then [field_Required (path_Child fieldPath ''size'') ''cannot be empty'']
             else validateSize lib (ub_Size b) (path_Child fieldPath ''size'')))"

definition validateUpstreamLBMethod :: "Library \<Rightarrow> string \<Rightarrow> Path \<Rightarrow> bool \<Rightarrow> ErrorList" where
  "validateUpstreamLBMethod lib lBMethod fieldPath isPlus =
     (if lBMethod = [] then []
      else if isPlus
      then (case ParseLBMethodForPlus lib lBMethod of
              Some err \<Rightarrow> [field_Invalid fieldPath (StringValue lBMethod) err]
            | None \<Rightarrow> [])
      else (case ParseLBMethod lib lBMethod of
              Some err \<Rightarrow> [field_Invalid fieldPath (StringValue lBMethod) err]
            | None \<Rightarrow> []))"

definition validatePath :: "Library \<Rightarrow> string \<Rightarrow> Path \<Rightarrow> ErrorList" where
  "validatePath lib path fieldPath =
     (if path = [] then [field_Required fieldPath []]
      else if \<not> pathRegexp_MatchString path
      then [field_Invalid fieldPath (StringValue path)
              (RegexError lib pathErrMsg pathFmt [''/'', ''/path'', ''/path/subpath-123''])]
      else [])"

definition isCookieName :: "Library \<Rightarrow> string \<Rightarrow> string list" where
  "isCookieName lib v =
     (if \<not> cookieNameRegexp_MatchString v
      then [RegexError lib cookieNameErrMsg cookieNameFmt [''my_cookie_123'']]
      else [])"

definition isArgumentName :: "Library \<Rightarrow> string \<Rightarrow> string list" where
  "isArgumentName lib v =
     (if \<not> argumentNameRegexp_MatchString v
      then [RegexError lib argumentNameErrMsg argumentNameFmt [''argument_123'']]
      else [])"

definition isValidHeaderValue :: "Library \<Rightarrow> string \<Rightarrow> string list" where
  "isValidHeaderValue lib s =
     (if \<not> headerValueFmtRegexp_MatchString s
      then [RegexError lib headerValueFmtErrMsg headerValueFmt [''my.service'', ''foo'']]
      else [])"

definition validateHeader :: "Library \<Rightarrow> Header \<Rightarrow> Path \<Rightarrow> ErrorList" where
  "validateHeader lib h fieldPath =
     (if h_Name h = [] then [field_Required (path_Child fieldPath ''name'') []] else [])
     @ map (\<lambda>msg. field_Invalid (path_Child fieldPath ''name'') (StringValue (h_Name h)) msg)
         (IsHTTPHeaderName lib (h_Name h))
     @ map (\<lambda>msg. field_Invalid (path_Child fieldPath ''value'') (StringValue (h_Value h)) msg)
         (isValidHeaderValue lib (h_Value h))"

subsection \<open>Status matches\<close>

definition validateIntFromString :: "string \<Rightarrow> int \<times> string" where
  "validateIntFromString number =
     (case ParseInt number of
        None \<Rightarrow> (0, number @ '' must be a valid integer'')
      | Some numberInt \<Rightarrow> (numberInt, []))"

definition validateStatusCode :: "Library \<Rightarrow> string \<Rightarrow> string" where
  "validateStatusCode lib status =
     (case validateIntFromString status of
        (code, errMsg) \<Rightarrow>
          if errMsg \<noteq> [] then errMsg
          else if code < 100 \<or> code > 999 then InclusiveRangeError lib 100 999
          else [])"

definition validateStatusCodeRange :: "Library \<Rightarrow> string \<Rightarrow> string" where
  "validateStatusCodeRange lib statusRangeStr =
     (let statusRange = split_on (CHR ''-'') statusRangeStr
      in if length statusRange \<noteq> 2 then ''ranges must only have 2 numbers''
         else
           (case validateIntFromString (statusRange ! 0) of
              (lo, msg) \<Rightarrow>
                if msg \<noteq> [] then msg
                else
                  (case validateIntFromString (statusRange ! 1) of
                     (hi, msg') \<Rightarrow>
                       if msg' \<noteq> [] then msg'
                       else
                         (case filter (\<lambda>m. m \<noteq> [])
                                 (map (validateStatusCode lib) statusRange) of
                            m # _ \<Rightarrow> m
                          | [] \<Rightarrow>
                              if hi \<le> lo
                              then ''range limits must be '' @ show_int lo @ '' < ''
                                     @ show_int hi
                              else []))))"

definition validateStatusMatch :: "Library \<Rightarrow> string \<Rightarrow> Path \<Rightarrow> ErrorList" where
  "validateStatusMatch lib s fieldPath =
     (if s = [] then []
      else
        (if HasPrefix s ''!'' \<and> \<not> HasPrefix s ''! ''
         then [field_Invalid fieldPath (StringValue s)
                 ''must have an space character after the `!`'']
         else [])
        @ concat
            (map (\<lambda>(i, v).
                    if v = ''!''
                    then (if i \<noteq> 0
                          then [field_Invalid fieldPath (StringValue s)
                                  ''`!` can only appear once at the beginning'']
                          else [])
                    else if CHR ''-'' \<in> set v
                    then (let msg = validateStatusCodeRange lib v
                          in if msg \<noteq> [] then [field_Invalid fieldPath (StringValue s) msg]
                             else [])
                    else (let msg = validateStatusCode lib v
                          in if msg \<noteq> [] then [field_Invalid fieldPath (StringValue s) msg]
                             else []))
               (enumerate 0 (split_on (CHR '' '') s))))"

subsection \<open>Upstreams\<close>

definition validateUpstreamHealthCheck :: "Library \<Rightarrow> HealthCheck option \<Rightarrow> Path \<Rightarrow> ErrorList" where
  "validateUpstreamHealthCheck lib hc fieldPath =
     (case hc of
        None \<Rightarrow> []
      | Some h \<Rightarrow>
          (if hc_Path h \<noteq> [] then validatePath lib (hc_Path h) (path_Child fieldPath ''path'')
           else [])
          @ validateTime lib (hc_Interval h) (path_Child fieldPath ''interval'')
          @ validateTime lib (hc_Jitter h) (path_Child fieldPath ''jitter'')
          @ validatePositiveIntOrZero (hc_Fails h) (path_Child fieldPath ''fails'')
          @ validatePositiveIntOrZero (hc_Passes h) (path_Child fieldPath ''passes'')
          @ validateTime lib (hc_ConnectTimeout h) (path_Child fieldPath ''connect-timeout'')
          @ validateTime lib (hc_ReadTimeout h) (path_Child fieldPath ''read-timeout'')
          @ validateTime lib (hc_SendTimeout h) (path_Child fieldPath ''send-timeout'')
          @ validateStatusMatch lib (hc_StatusMatch h) (path_Child fieldPath ''statusMatch'')
          @ concat
              (map (\<lambda>(i, header).
                      validateHeader lib header
                        (path_Index (path_Child fieldPath ''headers'') (int i)))
                 (enumerate 0 (hc_Headers h)))
          @ (if hc_Port h > 0
             then map (\<lambda>msg. field_Invalid (path_Child fieldPath ''port'') (IntValue (hc_Port h))
                               msg)
                    (IsValidPortNum lib (hc_Port h))
             else []))"

definition validateSessionCookie :: "Library \<Rightarrow> SessionCookie option \<Rightarrow> Path \<Rightarrow> ErrorList" where
  "validateSessionCookie lib sc fieldPath =
     (case sc of
        None \<Rightarrow> []
      | Some c \<Rightarrow>
          (if sc_Name c = [] then [field_Required (path_Child fieldPath ''name'') []]
           else map (\<lambda>msg. field_Invalid (path_Child fieldPath ''name'')
                              (StringValue (sc_Name c)) msg)
                  (isCookieName lib (sc_Name c)))
          @ (if sc_Path c \<noteq> [] then validatePath lib (sc_Path c) (path_Child fieldPath ''path'')
             else [])
          @ (if sc_Expires c \<noteq> ''max''
             then validateTime lib (sc_Expires c) (path_Child fieldPath ''expires'')
             else [])
          @ (if sc_Domain c \<noteq> []
             then map (\<lambda>msg. field_Invalid (path_Child fieldPath ''domain'')
                                (StringValue (sc_Domain c)) msg)
                    (IsDNS1123Subdomain lib (TrimPrefix (sc_Domain c) ''.''))
             else []))"

definition validateQueue :: "Library \<Rightarrow> UpstreamQueue option \<Rightarrow> Path \<Rightarrow> ErrorList" where
  "validateQueue lib queue fieldPath =
     (case queue of
        None \<Rightarrow> []
      | Some q \<Rightarrow>
          validateTime lib (q_Timeout q) (path_Child fieldPath ''timeout'')
          @ (if q_Size q \<le> 0
             then [field_Required (path_Child fieldPath ''size'') ''must be positive'']
             else []))"

definition validNextUpstreamParams :: "string list" where
  "validNextUpstreamParams =
     [''error'', ''timeout'', ''invalid_header'', ''http_500'', ''http_502'', ''http_503'',
      ''http_504'', ''http_403'', ''http_404'', ''http_429'', ''non_idempotent'', ''off'', []]"

fun validateNextUpstream_loop :: "Path \<Rightarrow> string list \<Rightarrow> string set \<Rightarrow> ErrorList" where
  "validateNextUpstream_loop fieldPath [] allParams = []"
| "validateNextUpstream_loop fieldPath (para # params) allParams =
     (if para \<notin> set validNextUpstreamParams
      then [field_Invalid fieldPath (StringValue para) ''not a valid parameter'']
      else [])
     @ (if para \<in> allParams
        then field_Invalid fieldPath (StringValue para) ''can not have duplicate parameters''
               # validateNextUpstream_loop fieldPath params allParams
        else validateNextUpstream_loop fieldPath params (insert para allParams))"

definition validateNextUpstream :: "Library \<Rightarrow> string \<Rightarrow> Path \<Rightarrow> ErrorList" where
  "validateNextUpstream lib nextUpstream fieldPath =
     (if nextUpstream = [] then []
      else validateNextUpstream_loop fieldPath (strings_Fields lib nextUpstream) {})"

definition validateDNS1035Label :: "Library \<Rightarrow> string \<Rightarrow> Path \<Rightarrow> ErrorList" where
  "validateDNS1035Label lib name fieldPath =
     (if name = [] then [field_Required fieldPath []]
      else map (\<lambda>msg. field_Invalid fieldPath (StringValue name) msg) (IsDNS1035Label lib name))"

definition validateUpstreamName :: "Library \<Rightarrow> string \<Rightarrow> Path \<Rightarrow> ErrorList" where
  "validateUpstreamName lib name fieldPath = validateDNS1035Label lib name fieldPath"

definition validateServiceName :: "Library \<Rightarrow> string \<Rightarrow> Path \<Rightarrow> ErrorList" where
  "validateServiceName lib name fieldPath = validateDNS1035Label lib name fieldPath"

definition isValidLabelName :: "Library \<Rightarrow> string \<Rightarrow> Path \<Rightarrow> ErrorList" where
  "isValidLabelName lib labelName fieldPath =
     map (\<lambda>msg. field_Invalid fieldPath (StringValue labelName) msg)
       (IsQualifiedName lib labelName)"

text \<open>
  \<open>validateLabels\<close> ranges over a Go map, in an order the language leaves open; the
  model takes the entries in the order of the association list.
\<close>

definition validateLabels :: "Library \<Rightarrow> (string \<times> string) list \<Rightarrow> Path \<Rightarrow> ErrorList" where
  "validateLabels lib labels fieldPath =
     concat
       (map (\<lambda>(labelName, labelValue).
               isValidLabelName lib labelName fieldPath
               @ map (\<lambda>msg. field_Invalid fieldPath (StringValue labelValue) msg)
                   (IsValidLabelValue lib labelValue))
          labels)"

definition rejectPlusResourcesInOSS :: "Upstream \<Rightarrow> Path \<Rightarrow> bool \<Rightarrow> ErrorList" where
  "rejectPlusResourcesInOSS upstream idxPath isPlus =
     (if isPlus then []
      else
        (if u_HealthCheck upstream \<noteq> None
         then [field_Forbidden (path_Child idxPath ''healthCheck'')
                 ''active health checks are only supported in NGINX Plus'']
         else [])
        @ (if u_SlowStart upstream \<noteq> []
           then [field_Forbidden (path_Child idxPath ''slow-start'')
                   ''slow start is only supported in NGINX Plus'']
           else [])
        @ (if u_SessionCookie upstream \<noteq> None
           then [field_Forbidden (path_Child idxPath ''sessionCookie'')
                   ''sticky cookies are only supported in NGINX Plus'']
           else [])
        @ (if u_Queue upstream \<noteq> None
           then [field_Forbidden (path_Child idxPath ''queue'')
                   ''queue is only supported in NGINX Plus'']
           else []))"

text \<open>
  The errors of one upstream that do not depend on the names seen so far: the body of
  the loop of \<open>validateUpstreams\<close> after the check of the name.
\<close>

definition validateUpstreams_fields :: "Library \<Rightarrow> Upstream \<Rightarrow> Path \<Rightarrow> bool \<Rightarrow> ErrorList" where
  "validateUpstreams_fields lib u idxPath isPlus =
     validateServiceName lib (u_Service u) (path_Child idxPath ''service'')
     @ validateLabels lib (u_Subselector u) (path_Child idxPath ''subselector'')
     @ validateTime lib (u_ProxyConnectTimeout u) (path_Child idxPath ''connect-timeout'')
     @ validateTime lib (u_ProxyReadTimeout u) (path_Child idxPath ''read-timeout'')
     @ validateTime lib (u_ProxySendTimeout u) (path_Child idxPath ''send-timeout'')
     @ validateNextUpstream lib (u_ProxyNextUpstream u) (path_Child idxPath ''next-upstream'')
     @ validateTime lib (u_ProxyNextUpstreamTimeout u)
         (path_Child idxPath ''next-upstream-timeout'')
     @ validatePositiveIntOrZeroFromPointer (Some (u_ProxyNextUpstreamTries u))
         (path_Child idxPath ''next-upstream-tries'')
     @ validateUpstreamLBMethod lib (u_LBMethod u) (path_Child idxPath ''lb-method'') isPlus
     @ validateTime lib (u_FailTimeout u) (path_Child idxPath ''fail-timeout'')
     @ validatePositiveIntOrZeroFromPointer (u_MaxFails u) (path_Child idxPath ''max-fails'')
     @ validatePositiveIntOrZeroFromPointer (u_Keepalive u) (path_Child idxPath ''keepalive'')
     @ validatePositiveIntOrZeroFromPointer (u_MaxConns u) (path_Child idxPath ''max-conns'')
     @ validateOffset lib (u_ClientMaxBodySize u) (path_Child idxPath ''client-max-body-size'')
     @ validateUpstreamHealthCheck lib (u_HealthCheck u) (path_Child idxPath ''healthCheck'')
     @ validateTime lib (u_SlowStart u) (path_Child idxPath ''slow-start'')
     @ validateBuffer lib (u_ProxyBuffers u) (path_Child idxPath ''buffers'')
     @ validateSize lib (u_ProxyBufferSize u) (path_Child idxPath ''buffer-size'')
     @ validateQueue lib (u_Queue u) (path_Child idxPath ''queue'')
     @ validateSessionCookie lib (u_SessionCookie u) (path_Child idxPath ''sessionCookie'')
     @ map (\<lambda>msg. field_Invalid (path_Child idxPath ''port'') (Uint16Value (u_Port u)) msg)
         (IsValidPortNum lib (int (unat (u_Port u))))
     @ rejectPlusResourcesInOSS u idxPath isPlus"

text \<open>
  The loop of \<open>validateUpstreams\<close>, from the upstream of index \<open>i\<close> on, with the errors
  and the names collected so far.
\<close>

fun validateUpstreams_loop ::
  "Library \<Rightarrow> Path \<Rightarrow> bool \<Rightarrow> nat \<Rightarrow> Upstream list \<Rightarrow> ErrorList \<times> string set
     \<Rightarrow> ErrorList \<times> string set" where
  "validateUpstreams_loop lib fieldPath isPlus i [] st = st"
| "validateUpstreams_loop lib fieldPath isPlus i (u # us) (allErrs, upstreamNames) =
     (let idxPath = path_Index fieldPath (int i);
          upstreamErrors = validateUpstreamName lib (u_Name u) (path_Child idxPath ''name'');
          (allErrs1, upstreamNames1) =
            (if length upstreamErrors > 0 then (allErrs @ upstreamErrors, upstreamNames)
             else if u_Name u \<in> upstreamNames
             then (allErrs @ [field_Duplicate (path_Child idxPath ''name'')
                                (StringValue (u_Name u))],
                   upstreamNames)
             else (allErrs, insert (u_Name u) upstreamNames))
      in validateUpstreams_loop lib fieldPath isPlus (Suc i) us
           (allErrs1 @ validateUpstreams_fields lib u idxPath isPlus, upstreamNames1))"

definition validateUpstreams ::
  "Library \<Rightarrow> Upstream list \<Rightarrow> Path \<Rightarrow> bool \<Rightarrow> ErrorList \<times> string set" where
  "validateUpstreams lib upstreams fieldPath isPlus =
     validateUpstreams_loop lib fieldPath isPlus 0 upstreams ([], {})"

subsection \<open>Strings with variables\<close>

text \<open>
  Two accesses of this part can be out of range, and each is a run-time panic of Go:
  the byte \<open>str[i+1]\<close> in \<open>validateStringWithVariables\<close>, and the element \<open>value[1]\<close>
  of the split variable in \<open>validateSpecialVariable\<close>. The two functions return a sum:
  \<open>Inl\<close> the panic, \<open>Inr\<close> the error list.
\<close>

datatype Panic = StringIndexOutOfRange | SliceIndexOutOfRange

text \<open>
  A table of type \<open>map[string]bool\<close> is an association list. \<open>mapToPrettyString\<close> ranges
  over the Go map, in an order the language leaves open; the model takes the order of
  the list.
\<close>

definition mapToPrettyString :: "(string \<times> bool) list \<Rightarrow> string" where
  "mapToPrettyString m = join (map fst m) '', ''"

definition validateVariable :: "string \<Rightarrow> (string \<times> bool) list \<Rightarrow> Path \<Rightarrow> ErrorList" where
  "validateVariable nVar validVars fieldPath =
     (if map_of validVars nVar \<noteq> Some True
      then [field_Invalid fieldPath (StringValue nVar)
              ([squote] @ nVar @ [squote]
                 @ '' contains an invalid NGINX variable. Accepted variables are: ''
                 @ mapToPrettyString validVars)]
      else [])"

definition isValidSpecialVariableHeader :: "Library \<Rightarrow> string \<Rightarrow> string list" where
  "isValidSpecialVariableHeader lib header =
     (let errMsgs = IsHTTPHeaderName lib
                      (map (\<lambda>c. if c = CHR ''_'' then CHR ''-'' else c) header)
      in if length errMsgs \<ge> 1 \<or> CHR ''-'' \<in> set header
         then [''a valid HTTP header must consist of alphanumeric characters or ''
                 @ [squote] @ ''_'' @ [squote]]
         else [])"

definition validateSpecialVariable :: "Library \<Rightarrow> string \<Rightarrow> Path \<Rightarrow> Panic + ErrorList" where
  "validateSpecialVariable lib nVar fieldPath =
     (let v = splitN2_underscore nVar
      in if hd v = ''arg''
         then (if 1 < length v
               then Inr (map (\<lambda>msg. field_Invalid fieldPath (StringValue nVar) msg)
                           (isArgumentName lib (v ! 1)))
               else Inl SliceIndexOutOfRange)
         else if hd v = ''http''
         then (if 1 < length v
               then Inr (map (\<lambda>msg. field_Invalid fieldPath (StringValue nVar) msg)
                           (isValidSpecialVariableHeader lib (v ! 1)))
               else Inl SliceIndexOutOfRange)
         else if hd v = ''cookie''
         then (if 1 < length v
               then Inr (map (\<lambda>msg. field_Invalid fieldPath (StringValue nVar) msg)
                           (isCookieName lib (v ! 1)))
               else Inl SliceIndexOutOfRange)
         else Inr [])"

text \<open>
  The scan of \<open>validateStringWithVariables\<close> over the positions of the string. The loop
  ranges over the runes of the string; a rune is the dollar sign exactly at the positions
  of the byte \<open>$\<close>, so the model ranges over the bytes. The result is the panic, the
  error of an early return, or nothing.
\<close>

definition variablesMsg :: string where
  "variablesMsg = ''variables must be enclosed in curly braces, for example ${host}''"

fun validateStringWithVariables_scan :: "string \<Rightarrow> Path \<Rightarrow> nat list \<Rightarrow> Panic + Error option" where
  "validateStringWithVariables_scan str fieldPath [] = Inr None"
| "validateStringWithVariables_scan str fieldPath (i # is) =
     (if str ! i = CHR ''$''
      then
        (if i + 1 < length str
         then
           (if str ! (i + 1) \<noteq> CHR ''{''
            then Inr (Some (field_Invalid fieldPath (StringValue str) variablesMsg))
            else if CHR ''}'' \<notin> set (drop (i + 1) str)
            then Inr (Some (field_Invalid fieldPath (StringValue str) variablesMsg))
            else validateStringWithVariables_scan str fieldPath is)
         else Inl StringIndexOutOfRange)
      else validateStringWithVariables_scan str fieldPath is)"

fun validateStringWithVariables_vars ::
  "Library \<Rightarrow> Path \<Rightarrow> (string \<times> bool) list \<Rightarrow> string list \<Rightarrow> string list \<Rightarrow> ErrorList
     \<Rightarrow> Panic + ErrorList" where
  "validateStringWithVariables_vars lib fieldPath validVars specialVars [] allErrs = Inr allErrs"
| "validateStringWithVariables_vars lib fieldPath validVars specialVars (nVar # nVars) allErrs =
     (let special = list_ex (\<lambda>specialVar. HasPrefix nVar specialVar) specialVars
      in if special
         then (case validateSpecialVariable lib nVar fieldPath of
                 Inl p \<Rightarrow> Inl p
               | Inr errs \<Rightarrow>
                   validateStringWithVariables_vars lib fieldPath validVars specialVars nVars
                     (allErrs @ errs))
         else validateStringWithVariables_vars lib fieldPath validVars specialVars nVars
                (allErrs @ validateVariable nVar validVars fieldPath))"

definition validateStringWithVariables ::
  "Library \<Rightarrow> string \<Rightarrow> Path \<Rightarrow> (string \<times> bool) list \<Rightarrow> string list \<Rightarrow> Panic + ErrorList" where
  "validateStringWithVariables lib str fieldPath validVars specialVars =
     (if HasSuffix_dollar str
      then Inr [field_Invalid fieldPath (StringValue str) ''must not end with $'']
      else
        (case validateStringWithVariables_scan str fieldPath [0..<length str] of
           Inl p \<Rightarrow> Inl p
         | Inr (Some e) \<Rightarrow> Inr [e]
         | Inr None \<Rightarrow>
             validateStringWithVariables_vars lib fieldPath validVars specialVars
               (captureVariables str) []))"

text \<open>
  The two callers of \<open>validateStringWithVariables\<close> pass no special variables, or the
  three prefixes of \<open>returnBodySpecialVariables\<close>. With these arguments the function
  returns an error list (lemmas \<open>validateStringWithVariables_no_special\<close> and
  \<open>validateStringWithVariables_returnBody\<close> below), which the callers read with
  \<open>errorsOf\<close>.
\<close>

definition errorsOf :: "Panic + ErrorList \<Rightarrow> ErrorList" where
  "errorsOf r = (case r of Inr errs \<Rightarrow> errs | Inl p \<Rightarrow> [])"

subsection \<open>Actions\<close>

definition validRedirectVariableNames :: "(string \<times> bool) list" where
  "validRedirectVariableNames =
     [(''scheme'', True), (''http_x_forwarded_proto'', True), (''request_uri'', True),
      (''host'', True)]"

definition validateRedirectURL :: "Library \<Rightarrow> string \<Rightarrow> Path \<Rightarrow> ErrorList" where
  "validateRedirectURL lib redirectURL fieldPath =
     (if redirectURL = [] then [field_Required fieldPath ''must specify a url'']
      else if \<not> escapedStringsFmtRegexp_MatchString redirectURL
      then [field_Invalid fieldPath (StringValue redirectURL)
              (RegexError lib escapedStringsErrMsg escapedStringsFmt
                 [''http://www.nginx.com'', ''${scheme}://${host}/green/'',
                  [backslash, dquote] @ ''http://www.nginx.com'' @ [backslash, dquote]])]
      else errorsOf (validateStringWithVariables lib redirectURL fieldPath
                       validRedirectVariableNames []))"

definition validateActionRedirect :: "Library \<Rightarrow> ActionRedirect \<Rightarrow> Path \<Rightarrow> ErrorList" where
  "validateActionRedirect lib redirect fieldPath =
     validateRedirectURL lib (ar_URL redirect) (path_Child fieldPath ''url'')
     @ (if ar_Code redirect \<noteq> 0
        then validateRedirectStatusCode (ar_Code redirect) (path_Child fieldPath ''code'')
        else [])"

definition validateActionReturnCode :: "int \<Rightarrow> Path \<Rightarrow> ErrorList" where
  "validateActionReturnCode code fieldPath =
     (if (code \<ge> 200 \<and> code \<le> 299) \<or> (code \<ge> 400 \<and> code \<le> 599) then []
      else [field_Invalid fieldPath (IntValue code)
              ''must be a valid status code either 2XX, 4XX or 5XX, for example, 200 or 402.''])"

definition returnBodyVariables :: "(string \<times> bool) list" where
  "returnBodyVariables =
     [(''request_uri'', True), (''request_method'', True), (''request_body'', True),
      (''scheme'', True), (''args'', True), (''host'', True), (''request_time'', True),
      (''request_length'', True), (''nginx_version'', True), (''pid'', True),
      (''connection'', True), (''remote_addr'', True), (''remote_port'', True),
      (''time_iso8601'', True), (''time_local'', True), (''server_addr'', True),
      (''server_port'', True), (''server_name'', True), (''server_protocol'', True),
      (''connections_active'', True), (''connections_reading'', True),
      (''connections_writing'', True), (''connections_waiting'', True)]"

definition returnBodySpecialVariables :: "string list" where
  "returnBodySpecialVariables = [''arg_'', ''http_'', ''cookie_'']"

definition validateActionReturnBody :: "Library \<Rightarrow> string \<Rightarrow> Path \<Rightarrow> ErrorList" where
  "validateActionReturnBody lib body fieldPath =
     (if \<not> escapedStringsFmtRegexp_MatchString body
      then [field_Invalid fieldPath (StringValue body)
              (RegexError lib escapedStringsErrMsg escapedStringsFmt
                 [''Hello World! '' @ [backslash] @ ''n'',
                  [backslash, dquote] @ ''${request_uri}'' @ [backslash, dquote]
                    @ '' is unavailable. '' @ [backslash] @ ''n''])]
      else [])
     @ errorsOf (validateStringWithVariables lib body fieldPath returnBodyVariables
                   returnBodySpecialVariables)"

definition validateActionReturnType :: "Library \<Rightarrow> string \<Rightarrow> Path \<Rightarrow> ErrorList" where
  "validateActionReturnType lib returnType fieldPath =
     (if \<not> actionReturnTypeRegexp_MatchString returnType
      then [field_Invalid fieldPath (StringValue returnType)
              (RegexError lib actionReturnTypeErr actionReturnTypeFmt
                 [''type/subtype'', ''application/json''])]
      else [])"

definition validateActionReturn :: "Library \<Rightarrow> ActionReturn \<Rightarrow> Path \<Rightarrow> ErrorList" where
  "validateActionReturn lib r fieldPath =
     (if rt_Body r = [] then [field_Required (path_Child fieldPath ''body'') []]
      else
        validateActionReturnBody lib (rt_Body r) (path_Child fieldPath ''body'')
        @ (if rt_Type r \<noteq> []
           then validateActionReturnType lib (rt_Type r) (path_Child fieldPath ''type'')
           else [])
        @ (if rt_Code r \<noteq> 0
           then validateActionReturnCode (rt_Code r) (path_Child fieldPath ''code'')
           else []))"

definition validateReferencedUpstream ::
  "Library \<Rightarrow> string \<Rightarrow> Path \<Rightarrow> string set \<Rightarrow> ErrorList" where
  "validateReferencedUpstream lib name fieldPath upstreamNames =
     (let upstreamErrs = validateUpstreamName lib name fieldPath
      in if length upstreamErrs > 0 then upstreamErrs
         else if name \<notin> upstreamNames then [field_NotFound fieldPath (StringValue name)]
         else [])"

definition countActions :: "Action \<Rightarrow> int" where
  "countActions action =
     (if a_Pass action \<noteq> [] then 1 else 0)
     + (if a_Redirect action \<noteq> None then 1 else 0)
     + (if a_Return action \<noteq> None then 1 else 0)"

text \<open>
  \<open>validateAction\<close> dereferences its pointer at once; every caller has checked that the
  pointer is not nil, so the model takes the action itself.
\<close>

definition validateAction :: "Library \<Rightarrow> Action \<Rightarrow> Path \<Rightarrow> string set \<Rightarrow> ErrorList" where
  "validateAction lib action fieldPath upstreamNames =
     (if countActions action \<noteq> 1
      then [field_Required fieldPath
              ''action must specify exactly one of `pass`, `redirect` or `return`'']
      else
        (if a_Pass action \<noteq> []
         then validateReferencedUpstream lib (a_Pass action) (path_Child fieldPath ''pass'')
                upstreamNames
         else [])
        @ (case a_Redirect action of
             Some redirect \<Rightarrow>
               validateActionRedirect lib redirect (path_Child fieldPath ''redirect'')
           | None \<Rightarrow> [])
        @ (case a_Return action of
             Some ret \<Rightarrow> validateActionReturn lib ret (path_Child fieldPath ''return'')
           | None \<Rightarrow> []))"

subsection \<open>Splits, matches and routes\<close>

text \<open>
  The loop of \<open>validateSplits\<close> appends the errors of each split and adds its weight to
  \<open>totalWeight\<close>, an \<open>int\<close> of 64 bits: the sum wraps around.
\<close>

definition validateSplits :: "Library \<Rightarrow> Split list \<Rightarrow> Path \<Rightarrow> string set \<Rightarrow> ErrorList" where
  "validateSplits lib splits fieldPath upstreamNames =
     (if length splits < 2
      then [field_Invalid fieldPath (StringValue []) ''must include at least 2 splits'']
      else
        (let allErrs =
               concat
                 (map (\<lambda>(i, s).
                         (let idxPath = path_Index fieldPath (int i)
                          in map (\<lambda>msg. field_Invalid (path_Child idxPath ''weight'')
                                           (IntValue (s_Weight s)) msg)
                               (IsInRange lib (s_Weight s) 1 99)
                             @ (case s_Action s of
                                  None \<Rightarrow> [field_Required (path_Child idxPath ''action'') []]
                                | Some action \<Rightarrow>
                                    validateAction lib action (path_Child idxPath ''action'')
                                      upstreamNames)))
                    (enumerate 0 splits));
             totalWeight = foldl (\<lambda>t s. wrap64 (t + s_Weight s)) 0 splits
         in if totalWeight \<noteq> 100
            then allErrs
                   @ [field_Invalid fieldPath (StringValue [])
                        ''the sum of the weights of all splits must be equal to 100'']
            else allErrs))"

definition validateRegexPath :: "Library \<Rightarrow> string \<Rightarrow> Path \<Rightarrow> ErrorList" where
  "validateRegexPath lib path fieldPath =
     (case regexp_Compile lib path of
        Some err \<Rightarrow>
          [field_Invalid fieldPath (StringValue path)
             (''must be a valid regular expression: '' @ err)]
      | None \<Rightarrow>
          if \<not> escapedStringsFmtRegexp_MatchString path
          then [field_Invalid fieldPath (StringValue path)
                  (RegexError lib escapedStringsErrMsg escapedStringsFmt
                     [''*.jpg'', ''^/images/image_*.png$''])]
          else [])"

definition validateRoutePath :: "Library \<Rightarrow> string \<Rightarrow> Path \<Rightarrow> ErrorList" where
  "validateRoutePath lib path fieldPath =
     (if path = [] then [field_Required fieldPath []]
      else if HasPrefix path ''~'' then validateRegexPath lib path fieldPath
      else if HasPrefix path ''/'' then validatePath lib path fieldPath
      else if HasPrefix path ''='' then validatePath lib (TrimPrefix path ''='') fieldPath
      else [field_Invalid fieldPath (StringValue path) ''must start with /, ~ or =''])"

definition validVariableNames :: "string list" where
  "validVariableNames =
     [''$args'', ''$http2'', ''$https'', ''$remote_addr'', ''$remote_port'', ''$query_string'',
      ''$request'', ''$request_body'', ''$request_uri'', ''$request_method'', ''$scheme'']"

definition validateVariableName :: "string \<Rightarrow> Path \<Rightarrow> ErrorList" where
  "validateVariableName name fieldPath =
     (if \<not> HasPrefix name ''$''
      then [field_Invalid fieldPath (StringValue name) ''must start with `$`'']
      else if name \<notin> set validVariableNames
      then [field_Invalid fieldPath (StringValue name)
              ''is not allowed or is not an NGINX variable'']
      else [])"

definition isValidMatchValue :: "Library \<Rightarrow> string \<Rightarrow> string list" where
  "isValidMatchValue lib v =
     (if \<not> escapedStringsFmtRegexp_MatchString v
      then [RegexError lib escapedStringsErrMsg escapedStringsFmt [''value-123'']]
      else [])"

definition validateCondition :: "Library \<Rightarrow> Condition \<Rightarrow> Path \<Rightarrow> ErrorList" where
  "validateCondition lib condition fieldPath =
     (let (errsH, countH) =
            (if c_Header condition \<noteq> []
             then (map (\<lambda>msg. field_Invalid (path_Child fieldPath ''header'')
                                 (StringValue (c_Header condition)) msg)
                     (IsHTTPHeaderName lib (c_Header condition)), 1 :: int)
             else ([], 0));
          (errsC, countC) =
            (if c_Cookie condition \<noteq> []
             then (map (\<lambda>msg. field_Invalid (path_Child fieldPath ''cookie'')
                                 (StringValue (c_Cookie condition)) msg)
                     (isCookieName lib (c_Cookie condition)), 1 :: int)
             else ([], 0));
          (errsA, countA) =
            (if c_Argument condition \<noteq> []
             then (map (\<lambda>msg. field_Invalid (path_Child fieldPath ''argument'')
                                 (StringValue (c_Argument condition)) msg)
                     (isArgumentName lib (c_Argument condition)), 1 :: int)
             else ([], 0));
          (errsV, countV) =
            (if c_Variable condition \<noteq> []
             then (validateVariableName (c_Variable condition)
                     (path_Child fieldPath ''variable''), 1 :: int)
             else ([], 0));
          fieldCount = countH + countC + countA + countV
      in errsH @ errsC @ errsA @ errsV
         @ (if fieldCount \<noteq> 1
            then [field_Invalid fieldPath (StringValue [])
                    ''must specify exactly one of: `header`, `cookie`, `argument` or `variable`'']
            else [])
         @ map (\<lambda>msg. field_Invalid (path_Child fieldPath ''value'')
                         (StringValue (c_Value condition)) msg)
             (isValidMatchValue lib (c_Value condition)))"

definition validateMatch :: "Library \<Rightarrow> Match \<Rightarrow> Path \<Rightarrow> string set \<Rightarrow> ErrorList" where
  "validateMatch lib match fieldPath upstreamNames =
     (let errsC =
            (if length (m_Conditions match) = 0
             then [field_Required (path_Child fieldPath ''conditions'')
                     ''must specify at least one condition'']
             else concat
                    (map (\<lambda>(i, c).
                            validateCondition lib c
                              (path_Index (path_Child fieldPath ''conditions'') (int i)))
                       (enumerate 0 (m_Conditions match))));
          (errsA, countA) =
            (case m_Action match of
               Some action \<Rightarrow>
                 (validateAction lib action (path_Child fieldPath ''action'') upstreamNames,
                  1 :: int)
             | None \<Rightarrow> ([], 0));
          (errsS, countS) =
            (if length (m_Splits match) > 0
             then (validateSplits lib (m_Splits match) (path_Child fieldPath ''splits'')
                     upstreamNames, 1 :: int)
             else ([], 0));
          fieldCount = countA + countS
      in errsC @ errsA @ errsS
         @ (if fieldCount \<noteq> 1
            then [field_Invalid fieldPath (StringValue [])
                    ''must specify exactly one of `action` or `splits`'']
            else []))"

definition validateRouteField :: "Library \<Rightarrow> string \<Rightarrow> Path \<Rightarrow> ErrorList" where
  "validateRouteField lib v fieldPath =
     map (\<lambda>msg. field_Invalid fieldPath (StringValue v) msg) (IsQualifiedName lib v)"

definition validateRoute ::
  "Library \<Rightarrow> Route \<Rightarrow> Path \<Rightarrow> string set \<Rightarrow> bool \<Rightarrow> ErrorList" where
  "validateRoute lib route fieldPath upstreamNames isRouteFieldForbidden =
     (let errsP = validateRoutePath lib (r_Path route) (path_Child fieldPath ''path'');
          (errsA, countA) =
            (case r_Action route of
               Some action \<Rightarrow>
                 (validateAction lib action (path_Child fieldPath ''action'') upstreamNames,
                  1 :: int)
             | None \<Rightarrow> ([], 0));
          (errsS, countS) =
            (if length (r_Splits route) > 0
             then (validateSplits lib (r_Splits route) (path_Child fieldPath ''splits'')
                     upstreamNames, 1 :: int)
             else ([], 0));
          errsM =
            concat
              (map (\<lambda>(i, m).
                      validateMatch lib m (path_Index (path_Child fieldPath ''matches'') (int i))
                        upstreamNames)
                 (enumerate 0 (r_Matches route)));
          (errsR, countR) =
            (if r_Route route \<noteq> []
             then (if isRouteFieldForbidden
                   then ([field_Forbidden (path_Child fieldPath ''route'') ''is not allowed''],
                         0 :: int)
                   else (validateRouteField lib (r_Route route) (path_Child fieldPath ''route''),
                         1))
             else ([], 0));
          fieldCount = countA + countS + countR
      in errsP @ errsA @ errsS @ errsM @ errsR
         @ (if fieldCount \<noteq> 1
            then [field_Invalid fieldPath (StringValue [])
                    (if isRouteFieldForbidden \<or> length (r_Matches route) > 0
                     then ''must specify exactly one of `action` or `splits`''
                     else ''must specify exactly one of `action`, `splits` or `route`'')]
            else []))"

text \<open>
  The loop of \<open>validateVirtualServerRoutes\<close>, from the route of index \<open>i\<close> on, with the
  paths seen so far; the result is the list of the errors it appends.
\<close>

fun validateVirtualServerRoutes_loop ::
  "Library \<Rightarrow> Path \<Rightarrow> string set \<Rightarrow> nat \<Rightarrow> Route list \<Rightarrow> string set \<Rightarrow> ErrorList" where
  "validateVirtualServerRoutes_loop lib fieldPath upstreamNames i [] allPaths = []"
| "validateVirtualServerRoutes_loop lib fieldPath upstreamNames i (r # rs) allPaths =
     (let idxPath = path_Index fieldPath (int i);
          routeErrs = validateRoute lib r idxPath upstreamNames False
      in if length routeErrs > 0
         then routeErrs
                @ validateVirtualServerRoutes_loop lib fieldPath upstreamNames (Suc i) rs allPaths
         else if r_Path r \<in> allPaths
         then field_Duplicate (path_Child idxPath ''path'') (StringValue (r_Path r))
                # validateVirtualServerRoutes_loop lib fieldPath upstreamNames (Suc i) rs
                    allPaths
         else validateVirtualServerRoutes_loop lib fieldPath upstreamNames (Suc i) rs
                (insert (r_Path r) allPaths))"

definition validateVirtualServerRoutes ::
  "Library \<Rightarrow> Route list \<Rightarrow> Path \<Rightarrow> string set \<Rightarrow> ErrorList" where
  "validateVirtualServerRoutes lib routes fieldPath upstreamNames =
     validateVirtualServerRoutes_loop lib fieldPath upstreamNames 0 routes {}"

definition validateVirtualServerSpec ::
  "Library \<Rightarrow> VirtualServerSpec \<Rightarrow> Path \<Rightarrow> bool \<Rightarrow> ErrorList" where
  "validateVirtualServerSpec lib spec fieldPath isPlus =
     (let (upstreamErrs, upstreamNames) =
            validateUpstreams lib (vss_Upstreams spec) (path_Child fieldPath ''upstreams'') isPlus
      in validateHost lib (vss_Host spec) (path_Child fieldPath ''host'')
         @ validateTLS lib (vss_TLS spec) (path_Child fieldPath ''tls'')
         @ upstreamErrs
         @ validateVirtualServerRoutes lib (vss_Routes spec) (path_Child fieldPath ''routes'')
             upstreamNames)"

text \<open>
  \<open>ValidateVirtualServer\<close> aggregates the error list; the model returns the list.
\<close>

definition ValidateVirtualServer :: "Library \<Rightarrow> VirtualServer \<Rightarrow> bool \<Rightarrow> ErrorList" where
  "ValidateVirtualServer lib virtualServer isPlus =
     validateVirtualServerSpec lib (vs_Spec virtualServer) (NewPath ''spec'') isPlus"

subsection \<open>VirtualServerRoutes\<close>

definition validateVirtualServerRouteHost :: "Library \<Rightarrow> string \<Rightarrow> string \<Rightarrow> Path \<Rightarrow> ErrorList" where
  "validateVirtualServerRouteHost lib host virtualServerHost fieldPath =
     validateHost lib host fieldPath
     @ (if virtualServerHost \<noteq> [] \<and> host \<noteq> virtualServerHost
        then [field_Invalid fieldPath (StringValue host)
                (''must be equal to '' @ [squote] @ virtualServerHost @ [squote])]
        else [])"

definition isRegexOrExactMatch :: "string \<Rightarrow> bool" where
  "isRegexOrExactMatch path = (HasPrefix path ''~'' \<or> HasPrefix path ''='')"

text \<open>
  The loop of \<open>validateVirtualServerRouteSubroutes\<close>, from the subroute of index \<open>i\<close> on,
  with the paths seen so far; the result is the list of the errors it appends.
\<close>

fun validateVirtualServerRouteSubroutes_loop ::
  "Library \<Rightarrow> Path \<Rightarrow> string set \<Rightarrow> string \<Rightarrow> nat \<Rightarrow> Route list \<Rightarrow> string set \<Rightarrow> ErrorList" where
  "validateVirtualServerRouteSubroutes_loop lib fieldPath upstreamNames vsPath i [] allPaths = []"
| "validateVirtualServerRouteSubroutes_loop lib fieldPath upstreamNames vsPath i (r # rs)
     allPaths =
     (let idxPath = path_Index fieldPath (int i);
          routeErrs0 = validateRoute lib r idxPath upstreamNames True;
          routeErrs =
            (if vsPath \<noteq> [] \<and> \<not> HasPrefix (r_Path r) vsPath \<and> \<not> isRegexOrExactMatch (r_Path r)
             then routeErrs0
                    @ [field_Invalid idxPath (StringValue (r_Path r))
                         (''must start with '' @ [squote] @ vsPath @ [squote])]
             else routeErrs0)
      in if length routeErrs > 0
         then routeErrs
                @ validateVirtualServerRouteSubroutes_loop lib fieldPath upstreamNames vsPath
                    (Suc i) rs allPaths
         else if r_Path r \<in> allPaths
         then field_Duplicate (path_Child idxPath ''path'') (StringValue (r_Path r))
                # validateVirtualServerRouteSubroutes_loop lib fieldPath upstreamNames vsPath
                    (Suc i) rs allPaths
         else validateVirtualServerRouteSubroutes_loop lib fieldPath upstreamNames vsPath
                (Suc i) rs (insert (r_Path r) allPaths))"

definition validateVirtualServerRouteSubroutes ::
  "Library \<Rightarrow> Route list \<Rightarrow> Path \<Rightarrow> string set \<Rightarrow> string \<Rightarrow> ErrorList" where
  "validateVirtualServerRouteSubroutes lib routes fieldPath upstreamNames vsPath =
     (if isRegexOrExactMatch vsPath
      then
        (case routes of
           [r0] \<Rightarrow>
             (let idxPath = path_Index fieldPath 0
              in if r_Path r0 \<noteq> vsPath
                 then [field_Invalid (path_Child idxPath ''path'') (StringValue (r_Path r0))
                         ''must have the same path as the referenced VirtualServer route path'']
                 else validateRoute lib r0 idxPath upstreamNames True)
         | _ \<Rightarrow>
             [field_Invalid fieldPath (StringValue ''subroutes'')
                ''must have only one subroute if regex match or exact match are being used''])
      else validateVirtualServerRouteSubroutes_loop lib fieldPath upstreamNames vsPath 0 routes
             {})"

definition validateVirtualServerRouteSpec ::
  "Library \<Rightarrow> VirtualServerRouteSpec \<Rightarrow> Path \<Rightarrow> string \<Rightarrow> string \<Rightarrow> bool \<Rightarrow> ErrorList" where
  "validateVirtualServerRouteSpec lib spec fieldPath virtualServerHost vsPath isPlus =
     (let (upstreamErrs, upstreamNames) =
            validateUpstreams lib (vsrs_Upstreams spec) (path_Child fieldPath ''upstreams'')
              isPlus
      in validateVirtualServerRouteHost lib (vsrs_Host spec) virtualServerHost
           (path_Child fieldPath ''host'')
         @ upstreamErrs
         @ validateVirtualServerRouteSubroutes lib (vsrs_Subroutes spec)
             (path_Child fieldPath ''subroutes'') upstreamNames vsPath)"

definition ValidateVirtualServerRoute :: "Library \<Rightarrow> VirtualServerRoute \<Rightarrow> bool \<Rightarrow> ErrorList" where
  "ValidateVirtualServerRoute lib virtualServerRoute isPlus =
     validateVirtualServerRouteSpec lib (vsr_Spec virtualServerRoute) (NewPath ''spec'') []
       ''/'' isPlus"

definition ValidateVirtualServerRouteForVirtualServer ::
  "Library \<Rightarrow> VirtualServerRoute \<Rightarrow> string \<Rightarrow> string \<Rightarrow> bool \<Rightarrow> ErrorList" where
  "ValidateVirtualServerRouteForVirtualServer lib virtualServerRoute virtualServerHost vsPath
     isPlus =
     validateVirtualServerRouteSpec lib (vsr_Spec virtualServerRoute) (NewPath ''spec'')
       virtualServerHost vsPath isPlus"

section \<open>Notions used in the statements\<close>

text \<open>
  The generator dereferences the action of a split, of a match without splits and of
  a route without splits. \<open>routeHasActions\<close> holds when none of these pointers is nil,
  as validation demands.
\<close>

definition splitsHaveActions :: "Split list \<Rightarrow> bool" where
  "splitsHaveActions splits = list_all (\<lambda>s. s_Action s \<noteq> None) splits"

definition matchHasActions :: "Match \<Rightarrow> bool" where
  "matchHasActions m =
     (if length (m_Splits m) > 0 then splitsHaveActions (m_Splits m) else m_Action m \<noteq> None)"

definition routeHasActions :: "Route \<Rightarrow> bool" where
  "routeHasActions route =
     (list_all matchHasActions (r_Matches route)
      \<and> (if length (r_Splits route) > 0 then splitsHaveActions (r_Splits route)
         else r_Action route \<noteq> None))"

text \<open>The number of matches that have splits.\<close>

definition countSplits :: "Match list \<Rightarrow> nat" where
  "countSplits ms = length (filter (\<lambda>m. length (m_Splits m) > 0) ms)"

text \<open>
  The parameter that the second loop of \<open>generateMatchesConfig\<close> appends for the match
  \<open>ms ! k\<close>, when the loop has started at index \<open>i\<close> with the local counter \<open>k0\<close>.
\<close>

definition mainMapParam ::
  "variableNamer \<Rightarrow> int \<Rightarrow> int \<Rightarrow> Match list \<Rightarrow> nat \<Rightarrow> int \<Rightarrow> nat \<Rightarrow> v2_Parameter" where
  "mainMapParam vn index scIndex ms i k0 k =
     \<lparr>p_Value = ''~^'' @ replicate (i + k) (CHR ''0'') @ ''1'',
      p_Result = (if length (m_Splits (ms ! k)) > 0
                  then GetNameForSplitClientVariable vn
                         (scIndex + k0 + int (countSplits (take k ms)))
                  else ''@matches_'' @ show_int index @ ''_match_'' @ show_int (int (i + k)))\<rparr>"

text \<open>The map that the first loop appends for the condition \<open>j\<close> of the match \<open>m\<close> of index \<open>i\<close>.\<close>

definition conditionMap :: "variableNamer \<Rightarrow> int \<Rightarrow> nat \<Rightarrow> Match \<Rightarrow> nat \<Rightarrow> v2_Map" where
  "conditionMap vn index i m j =
     \<lparr>map_Source = getNameForSourceForMatchesRouteMapFromCondition (m_Conditions m ! j),
      map_Variable = GetNameForVariableForMatchesRouteMap vn index (int i) (int j),
      map_Parameters =
        generateParametersForMatchesRouteMap (c_Value (m_Conditions m ! j))
          (if Suc j < length (m_Conditions m)
           then GetNameForVariableForMatchesRouteMap vn index (int i) (int j + 1)
           else ''1'')\<rparr>"

text \<open>
  The value form of the specification: a special map token is prefixed with a
  backslash, any other string is put in double quotes.
\<close>

definition mapValueForm :: "string \<Rightarrow> string" where
  "mapValueForm w =
     (if w \<in> {''default'', ''hostnames'', ''include'', ''volatile''} then backslash # w
      else [dquote] @ w @ [dquote])"

definition noForbidden :: "ErrorList \<Rightarrow> bool" where
  "noForbidden errs = list_all (\<lambda>e. err_Type e \<noteq> ErrorTypeForbidden) errs"

section \<open>Example inputs\<close>

definition exampleCfgParams :: ConfigParams where
  "exampleCfgParams = \<lparr>cp_ClientMaxBodySize = ''1m'', cp_FailTimeout = ''10s'', cp_HTTP2 = True,
     cp_Keepalive = 16, cp_LBMethod = ''random two least_conn'', cp_LocationSnippets = [],
     cp_MaxConns = 0, cp_MaxFails = 1, cp_ProxyBuffering = True, cp_ProxyBuffers = [],
     cp_ProxyBufferSize = [], cp_ProxyConnectTimeout = ''60s'', cp_ProxyMaxTempFileSize = [],
     cp_ProxyProtocol = False, cp_ProxyReadTimeout = ''60s'', cp_ProxySendTimeout = ''60s'',
     cp_RealIPHeader = [], cp_RealIPRecursive = False, cp_ServerSnippets = [],
     cp_ServerTokens = ''off'', cp_SetRealIPFrom = [], cp_UpstreamZoneSize = ''256k''\<rparr>"

definition exampleUpstream :: Upstream where
  "exampleUpstream = zeroUpstream\<lparr>u_Name := ''tea'', u_Service := ''tea-svc'', u_Port := 80,
     u_Keepalive := Some 0, u_MaxFails := Some 3\<rparr>"

definition examplePlusUpstream :: Upstream where
  "examplePlusUpstream = zeroUpstream\<lparr>u_Name := ''coffee'', u_Service := ''coffee-svc'',
     u_Port := 80, u_SlowStart := ''10s'',
     u_Queue := Some \<lparr>q_Size = 10, q_Timeout = ''60s''\<rparr>\<rparr>"

definition passAction :: "string \<Rightarrow> Action" where
  "passAction name = \<lparr>a_Pass = name, a_Redirect = None, a_Return = None\<rparr>"

definition exampleVirtualServer :: VirtualServer where
  "exampleVirtualServer = \<lparr>vs_addr = 1, vs_Namespace = ''default'', vs_Name = ''cafe'',
     vs_Spec = \<lparr>vss_Host = ''cafe.example.com'',
                 vss_TLS = Some \<lparr>tls_Secret = ''secret'', tls_Redirect = None\<rparr>,
                 vss_Upstreams = [exampleUpstream],
                 vss_Routes = [\<lparr>r_Path = ''/tea'', r_Route = [],
                                 r_Action = Some (passAction ''tea''),
                                 r_Splits = [], r_Matches = []\<rparr>]\<rparr>\<rparr>"

definition exampleVirtualServerEx :: VirtualServerEx where
  "exampleVirtualServerEx = \<lparr>vsx_VirtualServer = exampleVirtualServer,
     vsx_Endpoints = [''default/tea-svc:80'' \<mapsto> [''example.com:80'']],
     vsx_VirtualServerRoutes = [],
     vsx_ExternalNameSvcs = [''default/tea-svc'' \<mapsto> True]\<rparr>"


definition exampleCondition :: "string \<Rightarrow> string \<Rightarrow> Condition" where
  "exampleCondition header v =
     \<lparr>c_Header = header, c_Cookie = [], c_Argument = [], c_Variable = [], c_Value = v\<rparr>"

definition exampleSplits :: "Split list" where
  "exampleSplits = [\<lparr>s_Weight = 90, s_Action = Some (passAction ''coffee-v1'')\<rparr>,
                    \<lparr>s_Weight = 10, s_Action = Some (passAction ''coffee-v2'')\<rparr>]"

definition exampleMatchesRoute :: Route where
  "exampleMatchesRoute = \<lparr>r_Path = ''/'', r_Route = [], r_Action = None,
     r_Splits = [\<lparr>s_Weight = 99, s_Action = Some (passAction ''coffee-v1'')\<rparr>,
                 \<lparr>s_Weight = 1, s_Action = Some (passAction ''coffee-v2'')\<rparr>],
     r_Matches =
       [\<lparr>m_Conditions = [exampleCondition ''x-version'' ''v1''], m_Action = None,
         m_Splits = [\<lparr>s_Weight = 30, s_Action = Some (passAction ''coffee-v1'')\<rparr>,
                     \<lparr>s_Weight = 70, s_Action = Some (passAction ''coffee-v2'')\<rparr>]\<rparr>,
        \<lparr>m_Conditions = [exampleCondition ''x-version'' ''!v2'',
                          exampleCondition ''x-user'' ''default''],
         m_Action = Some (passAction ''coffee-v2''), m_Splits = []\<rparr>]\<rparr>"

text \<open>
  A library that accepts every name, time and load-balancing method, for the
  evaluation of the validator on examples.
\<close>

definition exampleLibrary :: Library where
  "exampleLibrary = \<lparr>IsDNS1123Subdomain = (\<lambda>s. []), IsDNS1035Label = (\<lambda>s. []),
     IsQualifiedName = (\<lambda>s. []), IsValidLabelValue = (\<lambda>s. []), IsHTTPHeaderName = (\<lambda>s. []),
     InclusiveRangeError = (\<lambda>lo hi. ''must be between '' @ show_int lo @ '' and ''
                                      @ show_int hi @ '', inclusive''),
     RegexError = (\<lambda>msg fmt examples. msg),
     regexp_Compile = (\<lambda>s. None), strings_Fields = (\<lambda>s. split_on (CHR '' '') s),
     ParseTime = (\<lambda>s. None), ParseLBMethod = (\<lambda>s. None), ParseLBMethodForPlus = (\<lambda>s. None)\<rparr>"

definition exampleSubroute :: "string \<Rightarrow> Route" where
  "exampleSubroute path = \<lparr>r_Path = path, r_Route = [], r_Action = Some (passAction ''tea''),
     r_Splits = [], r_Matches = []\<rparr>"

section \<open>Properties of the generator\<close>

subsection \<open>The SSL block\<close>

text \<open>
  Claim C3. \<open>generateSSLConfig\<close> returns no SSL block exactly when the TLS block is
  nil or its secret name is empty. With a TLS block whose secret is not empty: when the
  resolved pem file name is empty, the block has the file name of the missing secret as
  certificate and as key, and the ciphers \<open>NULL\<close>; when the pem file name is not empty,
  the block has that name as certificate and as key, and no ciphers.
\<close>

theorem generateSSLConfig_cases:
  "(generateSSLConfig missing tls pem cfgParams = None
      \<longleftrightarrow> (tls = None \<or> (\<exists>t. tls = Some t \<and> tls_Secret t = [])))
   \<and> (tls = Some t \<and> tls_Secret t \<noteq> [] \<and> pem = [] \<longrightarrow>
        generateSSLConfig missing tls pem cfgParams =
          Some \<lparr>ssl_HTTP2 = cp_HTTP2 cfgParams, ssl_Certificate = missing,
                ssl_CertificateKey = missing, ssl_Ciphers = ''NULL''\<rparr>)
   \<and> (tls = Some t \<and> tls_Secret t \<noteq> [] \<and> pem \<noteq> [] \<longrightarrow>
        generateSSLConfig missing tls pem cfgParams =
          Some \<lparr>ssl_HTTP2 = cp_HTTP2 cfgParams, ssl_Certificate = pem,
                ssl_CertificateKey = pem, ssl_Ciphers = []\<rparr>)"
  by (cases tls) (auto simp: generateSSLConfig_def)

theorem generateSSLConfig_cases_witness:
  "generateSSLConfig ''/etc/nginx/secrets/default''
     (Some \<lparr>tls_Secret = ''secret'', tls_Redirect = None\<rparr>) [] exampleCfgParams =
     Some \<lparr>ssl_HTTP2 = True, ssl_Certificate = ''/etc/nginx/secrets/default'',
           ssl_CertificateKey = ''/etc/nginx/secrets/default'', ssl_Ciphers = ''NULL''\<rparr>
   \<and> generateSSLConfig ''/etc/nginx/secrets/default''
     (Some \<lparr>tls_Secret = ''secret'', tls_Redirect = None\<rparr>) ''cafe-secret.pem'' exampleCfgParams =
     Some \<lparr>ssl_HTTP2 = True, ssl_Certificate = ''cafe-secret.pem'',
           ssl_CertificateKey = ''cafe-secret.pem'', ssl_Ciphers = []\<rparr>"
  using generateSSLConfig_cases [of "''/etc/nginx/secrets/default''"
      "Some \<lparr>tls_Secret = ''secret'', tls_Redirect = None\<rparr>" "[]" exampleCfgParams
      "\<lparr>tls_Secret = ''secret'', tls_Redirect = None\<rparr>"]
    generateSSLConfig_cases [of "''/etc/nginx/secrets/default''"
      "Some \<lparr>tls_Secret = ''secret'', tls_Redirect = None\<rparr>" "''cafe-secret.pem''" exampleCfgParams
      "\<lparr>tls_Secret = ''secret'', tls_Redirect = None\<rparr>"]
  by (simp add: exampleCfgParams_def)

subsection \<open>Pointer or default\<close>

text \<open>
  Claim C9. The keepalive, max-fails and max-conns values of a generated upstream are
  the values the upstream sets when the pointer is not nil (an explicit 0 included) and
  the defaults of the configuration parameters otherwise; the \<open>HasKeepalive\<close> flag of
  a location that proxies to the upstream is true exactly when the effective keepalive
  value is not zero. A location of a redirect or a return has no upstream; the last
  conjunct is about the locations that \<open>generateLocation\<close> builds for a pass.
\<close>

theorem pointer_or_default:
  "v2u_Keepalive (fst (generateUpstream vsc owner upstreamName upstream isExternalNameSvc endpoints))
     = (case u_Keepalive upstream of Some k \<Rightarrow> k | None \<Rightarrow> cp_Keepalive (vsc_cfgParams vsc))
   \<and> v2u_MaxFails (fst (generateUpstream vsc owner upstreamName upstream isExternalNameSvc endpoints))
     = (case u_MaxFails upstream of Some k \<Rightarrow> k | None \<Rightarrow> cp_MaxFails (vsc_cfgParams vsc))
   \<and> v2u_MaxConns (fst (generateUpstream vsc owner upstreamName upstream isExternalNameSvc endpoints))
     = (case u_MaxConns upstream of Some k \<Rightarrow> k | None \<Rightarrow> cp_MaxConns (vsc_cfgParams vsc))
   \<and> loc_HasKeepalive (generateLocationForProxying path upstreamName upstream cfgParams)
     = ((case u_Keepalive upstream of Some k \<Rightarrow> k | None \<Rightarrow> cp_Keepalive cfgParams) \<noteq> 0)
   \<and> (a_Redirect action = None \<and> a_Return action = None \<longrightarrow>
        loc_HasKeepalive (generateLocation path upstreamName upstream action cfgParams)
          = ((case u_Keepalive upstream of Some k \<Rightarrow> k | None \<Rightarrow> cp_Keepalive cfgParams) \<noteq> 0))"
  by (auto simp: generateUpstream_def generateLocationForProxying_def generateLocation_def
      generateIntFromPointer_def upstreamHasKeepalive_def Let_def split: option.splits prod.splits)

theorem pointer_or_default_witness:
  "v2u_Keepalive (fst (generateUpstream (newVirtualServerConfigurator exampleCfgParams False False)
       (VirtualServerObject 1) ''vs_default_cafe_tea'' exampleUpstream False [''10.0.0.20:80'']))
     = 0
   \<and> v2u_MaxFails (fst (generateUpstream (newVirtualServerConfigurator exampleCfgParams False False)
       (VirtualServerObject 1) ''vs_default_cafe_tea'' exampleUpstream False [''10.0.0.20:80'']))
     = 3
   \<and> v2u_MaxConns (fst (generateUpstream (newVirtualServerConfigurator exampleCfgParams False False)
       (VirtualServerObject 1) ''vs_default_cafe_tea'' exampleUpstream False [''10.0.0.20:80'']))
     = 0
   \<and> \<not> loc_HasKeepalive (generateLocationForProxying ''/tea'' ''vs_default_cafe_tea''
           exampleUpstream exampleCfgParams)
   \<and> \<not> loc_HasKeepalive (generateLocation ''/tea'' ''vs_default_cafe_tea'' exampleUpstream
           (passAction ''tea'') exampleCfgParams)
   \<and> loc_HasKeepalive (generateLocation ''/tea'' ''vs_default_cafe_tea'' zeroUpstream
         (passAction ''tea'') exampleCfgParams)"
  using pointer_or_default [where vsc = "newVirtualServerConfigurator exampleCfgParams False False"
      and owner = "VirtualServerObject 1" and upstreamName = "''vs_default_cafe_tea''"
      and upstream = exampleUpstream and isExternalNameSvc = False
      and endpoints = "[''10.0.0.20:80'']" and path = "''/tea''"
      and cfgParams = exampleCfgParams and action = "passAction ''tea''"]
    pointer_or_default [where vsc = "newVirtualServerConfigurator exampleCfgParams False False"
      and owner = "VirtualServerObject 1" and upstreamName = "''vs_default_cafe_tea''"
      and upstream = zeroUpstream and isExternalNameSvc = False
      and endpoints = "[''10.0.0.20:80'']" and path = "''/tea''"
      and cfgParams = exampleCfgParams and action = "passAction ''tea''"]
  by (simp add: exampleUpstream_def zeroUpstream_def exampleCfgParams_def passAction_def
      newVirtualServerConfigurator_def)

subsection \<open>ExternalName services without a resolver\<close>




subsection \<open>Determinism\<close>


lemma GenerateVirtualServerConfig_example:
  "map_option (\<lambda>(cfg, w, v). (map v2u_Name (cfg_Upstreams cfg),
                               map loc_Path (srv_Locations (cfg_Server cfg)), dom w))
     (GenerateVirtualServerConfig ''/etc/nginx/secrets/default''
        (newVirtualServerConfigurator exampleCfgParams True True) exampleVirtualServerEx
        ''cafe.pem'')
   = Some ([''vs_default_cafe_tea''], [''/tea''], {})"
  by (simp add: GenerateVirtualServerConfig_def exampleVirtualServerEx_def
      exampleVirtualServer_def exampleUpstream_def zeroUpstream_def passAction_def
      newVirtualServerConfigurator_def clearWarnings_def Let_def
      newUpstreamNamerForVirtualServer_def newVariableNamer_def GetNameForUpstream_def
      generateEndpointsForUpstream_def GenerateEndpointsKey_def GenerateExternalNameSvcKey_def
      show_nat.simps generateUpstream_def generateSlowStartForPlus_def generateHealthCheck_def
      generateRoute_def generateLocation_def generateLocationForProxying_def generatePath_def
      HasPrefix_def lookupUpstream_def)


subsection \<open>The maps of a route with matches\<close>

lemma those_map_Some:
  "list_all (\<lambda>x. f x \<noteq> None) xs \<Longrightarrow> those (map f xs) = Some (map (\<lambda>x. the (f x)) xs)"
  by (induction xs) auto

lemma generateSplits_Some:
  assumes "splitsHaveActions splits"
  shows "\<exists>sc locs. generateSplits splits un cr vn k cp = Some (sc, locs)
           \<and> spc_Variable sc = GetNameForSplitClientVariable vn k"
proof -
  let ?F = "\<lambda>(i, s). case s_Action s of
              None \<Rightarrow> None
            | Some action \<Rightarrow>
                (let path = ''@splits_'' @ show_int k @ ''_split_'' @ show_int (int i);
                     upstreamName = GetNameForUpstream un (a_Pass action);
                     upstream = lookupUpstream cr upstreamName
                 in Some (generateLocation path upstreamName upstream action cp))"
  have "list_all (\<lambda>x. ?F x \<noteq> None) (enumerate 0 splits)"
    using assms
    by (auto simp: splitsHaveActions_def list_all_iff in_set_enumerate_eq Let_def
        split: option.splits)
  then have "those (map ?F (enumerate 0 splits)) = Some (map (\<lambda>x. the (?F x)) (enumerate 0 splits))"
    by (rule those_map_Some)
  then show ?thesis
    unfolding generateSplits_def Let_def by simp
qed

lemma generateSplits_Variable:
  "generateSplits splits un cr vn k cp = Some (sc, locs)
   \<Longrightarrow> spc_Variable sc = GetNameForSplitClientVariable vn k"
  unfolding generateSplits_def Let_def by (auto split: option.splits)

lemma countSplits_Cons:
  "countSplits (m # ms) = (if length (m_Splits m) > 0 then Suc (countSplits ms) else countSplits ms)"
  by (simp add: countSplits_def)

lemma countSplits_Nil: "countSplits [] = 0"
  by (simp add: countSplits_def)

lemma countSplits_take_less:
  assumes "k < length ms" and "length (m_Splits (ms ! k)) > 0"
  shows "countSplits (take k ms) < countSplits ms"
proof -
  have "ms = take k ms @ ms ! k # drop (Suc k) ms"
    using assms(1) by (rule id_take_nth_drop)
  then have "countSplits ms = countSplits (take k ms @ ms ! k # drop (Suc k) ms)"
    by simp
  also have "\<dots> = countSplits (take k ms) + Suc (countSplits (drop (Suc k) ms))"
    using assms(2) by (simp add: countSplits_def)
  finally show ?thesis by simp
qed

lemma mainMapLoop_params:
  "generateMatchesConfig_mainMapLoop vn index scIndex i ms (source, params, k0) = (source', params', k')
   \<Longrightarrow> params' = params @ map (mainMapParam vn index scIndex ms i k0) [0..<length ms]
       \<and> k' = k0 + int (countSplits ms)"
proof (induction ms arbitrary: i source params k0)
  case Nil
  then show ?case by (simp add: countSplits_Nil)
next
  case (Cons m ms)
  have shift: "map (mainMapParam vn index scIndex (m # ms) i k0) [0..<Suc (length ms)]
      = mainMapParam vn index scIndex (m # ms) i k0 0
        # map (\<lambda>k. mainMapParam vn index scIndex (m # ms) i k0 (Suc k)) [0..<length ms]"
    by (rule map_upt_Suc)
  show ?case
  proof (cases "length (m_Splits m) > 0")
    case True
    with Cons.prems have
      "generateMatchesConfig_mainMapLoop vn index scIndex (Suc i) ms
         (source @ GetNameForVariableForMatchesRouteMap vn index (int i) 0,
          params @ [\<lparr>p_Value = ''~^'' @ replicate i (CHR ''0'') @ ''1'',
                     p_Result = GetNameForSplitClientVariable vn (scIndex + k0)\<rparr>],
          k0 + 1) = (source', params', k')"
      by (simp add: Let_def)
    from Cons.IH [OF this] have
      "params' = (params @ [\<lparr>p_Value = ''~^'' @ replicate i (CHR ''0'') @ ''1'',
                     p_Result = GetNameForSplitClientVariable vn (scIndex + k0)\<rparr>])
          @ map (mainMapParam vn index scIndex ms (Suc i) (k0 + 1)) [0..<length ms]"
      and k: "k' = k0 + 1 + int (countSplits ms)" by auto
    moreover have "\<And>k. mainMapParam vn index scIndex (m # ms) i k0 (Suc k)
        = mainMapParam vn index scIndex ms (Suc i) (k0 + 1) k"
      using True by (simp add: mainMapParam_def countSplits_Cons add.assoc)
    moreover have "mainMapParam vn index scIndex (m # ms) i k0 0
        = \<lparr>p_Value = ''~^'' @ replicate i (CHR ''0'') @ ''1'',
           p_Result = GetNameForSplitClientVariable vn (scIndex + k0)\<rparr>"
      using True by (simp add: mainMapParam_def countSplits_Nil)
    ultimately show ?thesis
      using True by (simp add: shift countSplits_Cons del: upt_Suc)
  next
    case False
    with Cons.prems have
      "generateMatchesConfig_mainMapLoop vn index scIndex (Suc i) ms
         (source @ GetNameForVariableForMatchesRouteMap vn index (int i) 0,
          params @ [\<lparr>p_Value = ''~^'' @ replicate i (CHR ''0'') @ ''1'',
                     p_Result = ''@matches_'' @ show_int index @ ''_match_'' @ show_int (int i)\<rparr>],
          k0) = (source', params', k')"
      by (simp add: Let_def)
    from Cons.IH [OF this] have
      "params' = (params @ [\<lparr>p_Value = ''~^'' @ replicate i (CHR ''0'') @ ''1'',
                     p_Result = ''@matches_'' @ show_int index @ ''_match_'' @ show_int (int i)\<rparr>])
          @ map (mainMapParam vn index scIndex ms (Suc i) k0) [0..<length ms]"
      and k: "k' = k0 + int (countSplits ms)" by auto
    moreover have "\<And>k. mainMapParam vn index scIndex (m # ms) i k0 (Suc k)
        = mainMapParam vn index scIndex ms (Suc i) k0 k"
      using False by (simp add: mainMapParam_def countSplits_Cons)
    moreover have "mainMapParam vn index scIndex (m # ms) i k0 0
        = \<lparr>p_Value = ''~^'' @ replicate i (CHR ''0'') @ ''1'',
           p_Result = ''@matches_'' @ show_int index @ ''_match_'' @ show_int (int i)\<rparr>"
      using False by (simp add: mainMapParam_def)
    ultimately show ?thesis
      using False by (simp add: shift countSplits_Cons del: upt_Suc)
  qed
qed

lemma locationsLoop_Some:
  "list_all matchHasActions ms \<Longrightarrow>
   \<exists>locs scs. generateMatchesConfig_locationsLoop un cr vn index scIndex cp i ms (l0, s0, k0)
       = Some (locs, scs, k0 + int (countSplits ms))
     \<and> length scs = length s0 + countSplits ms
     \<and> take (length s0) scs = s0
     \<and> (\<forall>k<length ms. length (m_Splits (ms ! k)) > 0 \<longrightarrow>
          (\<exists>ls. generateSplits (m_Splits (ms ! k)) un cr vn
                   (scIndex + k0 + int (countSplits (take k ms))) cp
                 = Some (scs ! (length s0 + countSplits (take k ms)), ls)))"
proof (induction ms arbitrary: i l0 s0 k0)
  case Nil
  then show ?case by (simp add: countSplits_Nil)
next
  case (Cons m ms)
  then have rest: "list_all matchHasActions ms" and m: "matchHasActions m" by auto
  show ?case
  proof (cases "length (m_Splits m) > 0")
    case True
    with m have "splitsHaveActions (m_Splits m)" by (simp add: matchHasActions_def)
    from generateSplits_Some [OF this, of un cr vn "scIndex + k0" cp]
    obtain sc locs where gs: "generateSplits (m_Splits m) un cr vn (scIndex + k0) cp = Some (sc, locs)"
      by blast
    from Cons.IH [OF rest, of "Suc i" "l0 @ locs" "s0 @ [sc]" "k0 + 1"]
    obtain locs' scs' where
      L: "generateMatchesConfig_locationsLoop un cr vn index scIndex cp (Suc i) ms
            (l0 @ locs, s0 @ [sc], k0 + 1) = Some (locs', scs', k0 + 1 + int (countSplits ms))"
      and len: "length scs' = length (s0 @ [sc]) + countSplits ms"
      and pre: "take (length (s0 @ [sc])) scs' = s0 @ [sc]"
      and nth: "\<forall>k<length ms. length (m_Splits (ms ! k)) > 0 \<longrightarrow>
          (\<exists>ls. generateSplits (m_Splits (ms ! k)) un cr vn
                   (scIndex + (k0 + 1) + int (countSplits (take k ms))) cp
                 = Some (scs' ! (length (s0 @ [sc]) + countSplits (take k ms)), ls))"
      by blast
    have pre0: "take (length s0) scs' = s0"
    proof -
      have "take (length s0) scs' = take (length s0) (take (length (s0 @ [sc])) scs')"
        by (simp add: min_def)
      also have "\<dots> = s0" by (simp only: pre) simp
      finally show ?thesis .
    qed
    have at: "scs' ! length s0 = sc"
    proof -
      have "scs' ! length s0 = take (length (s0 @ [sc])) scs' ! length s0"
        by simp
      also have "\<dots> = sc" by (simp only: pre) simp
      finally show ?thesis .
    qed
    have loop: "generateMatchesConfig_locationsLoop un cr vn index scIndex cp i (m # ms) (l0, s0, k0)
        = Some (locs', scs', k0 + int (countSplits (m # ms)))"
      using True gs L by (simp add: countSplits_Cons add.assoc)
    have "\<forall>k<length (m # ms). length (m_Splits ((m # ms) ! k)) > 0 \<longrightarrow>
          (\<exists>ls. generateSplits (m_Splits ((m # ms) ! k)) un cr vn
                   (scIndex + k0 + int (countSplits (take k (m # ms)))) cp
                 = Some (scs' ! (length s0 + countSplits (take k (m # ms))), ls))"
    proof (intro allI impI)
      fix k
      assume k: "k < length (m # ms)" and sp: "length (m_Splits ((m # ms) ! k)) > 0"
      show "\<exists>ls. generateSplits (m_Splits ((m # ms) ! k)) un cr vn
                   (scIndex + k0 + int (countSplits (take k (m # ms)))) cp
                 = Some (scs' ! (length s0 + countSplits (take k (m # ms))), ls)"
      proof (cases k)
        case 0
        then show ?thesis using gs at by (simp add: countSplits_Nil)
      next
        case (Suc k')
        with k sp have "k' < length ms" "length (m_Splits (ms ! k')) > 0" by auto
        with nth obtain ls where
          "generateSplits (m_Splits (ms ! k')) un cr vn
             (scIndex + (k0 + 1) + int (countSplits (take k' ms))) cp
           = Some (scs' ! (length (s0 @ [sc]) + countSplits (take k' ms)), ls)"
          by blast
        then show ?thesis
          using Suc True by (auto simp: countSplits_Cons add.assoc add.commute add.left_commute)
      qed
    qed
    with loop len pre0 show ?thesis
      using True by (auto simp: countSplits_Cons)
  next
    case False
    with m obtain action where a: "m_Action m = Some action"
      by (auto simp: matchHasActions_def)
    from Cons.IH [OF rest, of "Suc i"
        "l0 @ [generateLocation (''@matches_'' @ show_int index @ ''_match_'' @ show_int (int i))
                 (GetNameForUpstream un (a_Pass action))
                 (lookupUpstream cr (GetNameForUpstream un (a_Pass action))) action cp]" s0 k0]
    obtain locs' scs' where
      L: "generateMatchesConfig_locationsLoop un cr vn index scIndex cp (Suc i) ms
            (l0 @ [generateLocation (''@matches_'' @ show_int index @ ''_match_'' @ show_int (int i))
                 (GetNameForUpstream un (a_Pass action))
                 (lookupUpstream cr (GetNameForUpstream un (a_Pass action))) action cp], s0, k0)
          = Some (locs', scs', k0 + int (countSplits ms))"
      and len: "length scs' = length s0 + countSplits ms"
      and pre: "take (length s0) scs' = s0"
      and nth: "\<forall>k<length ms. length (m_Splits (ms ! k)) > 0 \<longrightarrow>
          (\<exists>ls. generateSplits (m_Splits (ms ! k)) un cr vn
                   (scIndex + k0 + int (countSplits (take k ms))) cp
                 = Some (scs' ! (length s0 + countSplits (take k ms)), ls))"
      by blast
    have loop: "generateMatchesConfig_locationsLoop un cr vn index scIndex cp i (m # ms) (l0, s0, k0)
        = Some (locs', scs', k0 + int (countSplits (m # ms)))"
      using False a L by (simp add: countSplits_Cons Let_def)
    have "\<forall>k<length (m # ms). length (m_Splits ((m # ms) ! k)) > 0 \<longrightarrow>
          (\<exists>ls. generateSplits (m_Splits ((m # ms) ! k)) un cr vn
                   (scIndex + k0 + int (countSplits (take k (m # ms)))) cp
                 = Some (scs' ! (length s0 + countSplits (take k (m # ms))), ls))"
    proof (intro allI impI)
      fix k
      assume k: "k < length (m # ms)" and sp: "length (m_Splits ((m # ms) ! k)) > 0"
      show "\<exists>ls. generateSplits (m_Splits ((m # ms) ! k)) un cr vn
                   (scIndex + k0 + int (countSplits (take k (m # ms)))) cp
                 = Some (scs' ! (length s0 + countSplits (take k (m # ms))), ls)"
      proof (cases k)
        case 0
        with sp False show ?thesis by simp
      next
        case (Suc k')
        with k sp have "k' < length ms" "length (m_Splits (ms ! k')) > 0" by auto
        with nth show ?thesis
          using Suc False by (auto simp: countSplits_Cons)
      qed
    qed
    with loop len pre show ?thesis
      using False by (auto simp: countSplits_Cons)
  qed
qed

lemma conditionMaps_inner:
  "map (\<lambda>(j, c).
          (let source = getNameForSourceForMatchesRouteMapFromCondition c;
               variable = GetNameForVariableForMatchesRouteMap vn index (int i) (int j);
               successfulResult =
                 (if int j < int (length (m_Conditions m)) - 1
                  then GetNameForVariableForMatchesRouteMap vn index (int i) (int j + 1)
                  else ''1'');
               params = generateParametersForMatchesRouteMap (c_Value c) successfulResult
           in \<lparr>map_Source = source, map_Variable = variable, map_Parameters = params\<rparr>))
     (enumerate 0 (m_Conditions m))
   = map (conditionMap vn index i m) [0..<length (m_Conditions m)]"
proof (rule nth_equalityI)
  show "length (map (\<lambda>(j, c).
          (let source = getNameForSourceForMatchesRouteMapFromCondition c;
               variable = GetNameForVariableForMatchesRouteMap vn index (int i) (int j);
               successfulResult =
                 (if int j < int (length (m_Conditions m)) - 1
                  then GetNameForVariableForMatchesRouteMap vn index (int i) (int j + 1)
                  else ''1'');
               params = generateParametersForMatchesRouteMap (c_Value c) successfulResult
           in \<lparr>map_Source = source, map_Variable = variable, map_Parameters = params\<rparr>))
     (enumerate 0 (m_Conditions m)))
     = length (map (conditionMap vn index i m) [0..<length (m_Conditions m)])"
    by simp
next
  fix j
  assume "j < length (map (\<lambda>(j, c).
          (let source = getNameForSourceForMatchesRouteMapFromCondition c;
               variable = GetNameForVariableForMatchesRouteMap vn index (int i) (int j);
               successfulResult =
                 (if int j < int (length (m_Conditions m)) - 1
                  then GetNameForVariableForMatchesRouteMap vn index (int i) (int j + 1)
                  else ''1'');
               params = generateParametersForMatchesRouteMap (c_Value c) successfulResult
           in \<lparr>map_Source = source, map_Variable = variable, map_Parameters = params\<rparr>))
     (enumerate 0 (m_Conditions m)))"
  then have j: "j < length (m_Conditions m)" by simp
  have "(int j < int (length (m_Conditions m)) - 1) = (Suc j < length (m_Conditions m))"
    by linarith
  with j show "map (\<lambda>(j, c).
          (let source = getNameForSourceForMatchesRouteMapFromCondition c;
               variable = GetNameForVariableForMatchesRouteMap vn index (int i) (int j);
               successfulResult =
                 (if int j < int (length (m_Conditions m)) - 1
                  then GetNameForVariableForMatchesRouteMap vn index (int i) (int j + 1)
                  else ''1'');
               params = generateParametersForMatchesRouteMap (c_Value c) successfulResult
           in \<lparr>map_Source = source, map_Variable = variable, map_Parameters = params\<rparr>))
     (enumerate 0 (m_Conditions m)) ! j
     = map (conditionMap vn index i m) [0..<length (m_Conditions m)] ! j"
    by (simp add: nth_enumerate_eq conditionMap_def Let_def)
qed

lemma conditionMaps_concat:
  "concat (map (\<lambda>(i, m). map (conditionMap vn index i m) [0..<length (m_Conditions m)])
             (enumerate n ms))
     ! (length (concat (map m_Conditions (take i ms))) + j)
   = conditionMap vn index (n + i) (ms ! i) j"
  if "i < length ms" "j < length (m_Conditions (ms ! i))"
  using that
proof (induction ms arbitrary: i n)
  case Nil
  then show ?case by simp
next
  case (Cons m ms)
  show ?case
  proof (cases i)
    case 0
    with Cons.prems show ?thesis by (simp add: nth_append)
  next
    case (Suc i')
    with Cons.prems have "i' < length ms" "j < length (m_Conditions (ms ! i'))" by auto
    from Cons.IH [OF this, of "Suc n"] Suc show ?thesis
      by (simp add: nth_append add.assoc)
  qed
qed

lemma conditionMaps_length:
  "length (concat (map (\<lambda>(i, m). map (conditionMap vn index i m) [0..<length (m_Conditions m)])
             (enumerate n ms)))
   = length (concat (map m_Conditions ms))"
  by (induction ms arbitrary: n) auto

lemma conditionMaps_eq:
  "generateMatchesConfig_conditionMaps vn index ms
   = concat (map (\<lambda>(i, m). map (conditionMap vn index i m) [0..<length (m_Conditions m)])
               (enumerate 0 ms))"
  unfolding generateMatchesConfig_conditionMaps_def
  by (simp only: conditionMaps_inner)

lemma generateMatchesConfig_Some:
  assumes "routeHasActions route"
  shows "\<exists>cfg src. generateMatchesConfig route un cr vn index scIndex cp = Some cfg
     \<and> rc_Maps cfg = generateMatchesConfig_conditionMaps vn index (r_Matches route)
         @ [\<lparr>map_Source = src,
             map_Variable = GetNameForVariableForMatchesRouteMainMap vn index,
             map_Parameters =
               map (mainMapParam vn index scIndex (r_Matches route) 0 0)
                 [0..<length (r_Matches route)]
               @ [\<lparr>p_Value = ''default'',
                   p_Result =
                     (if length (r_Splits route) > 0
                      then GetNameForSplitClientVariable vn
                             (scIndex + int (countSplits (r_Matches route)))
                      else ''@matches_'' @ show_int index @ ''_default'')\<rparr>]\<rparr>]
     \<and> length (rc_SplitClients cfg)
         = countSplits (r_Matches route) + (if length (r_Splits route) > 0 then 1 else 0)
     \<and> (\<forall>k<length (r_Matches route). length (m_Splits (r_Matches route ! k)) > 0 \<longrightarrow>
          (\<exists>ls. generateSplits (m_Splits (r_Matches route ! k)) un cr vn
                   (scIndex + int (countSplits (take k (r_Matches route)))) cp
                 = Some (rc_SplitClients cfg ! countSplits (take k (r_Matches route)), ls)))
     \<and> (length (r_Splits route) > 0 \<longrightarrow>
          (\<exists>ls. generateSplits (r_Splits route) un cr vn
                   (scIndex + int (countSplits (r_Matches route))) cp
                 = Some (rc_SplitClients cfg ! countSplits (r_Matches route), ls)))"
proof -
  obtain src params k where
    mm: "generateMatchesConfig_mainMapLoop vn index scIndex 0 (r_Matches route) ([], [], 0)
           = (src, params, k)"
    by (metis prod_cases3)
  from mainMapLoop_params [OF mm]
  have params: "params = map (mainMapParam vn index scIndex (r_Matches route) 0 0)
                           [0..<length (r_Matches route)]"
    and k: "k = int (countSplits (r_Matches route))" by auto
  from assms have ms: "list_all matchHasActions (r_Matches route)"
    by (simp add: routeHasActions_def)
  from locationsLoop_Some [OF ms, of un cr vn index scIndex cp 0 "[]" "[]" 0]
  obtain locs scs where
    ll: "generateMatchesConfig_locationsLoop un cr vn index scIndex cp 0 (r_Matches route)
           ([], [], 0) = Some (locs, scs, int (countSplits (r_Matches route)))"
    and len: "length scs = countSplits (r_Matches route)"
    and nth: "\<forall>k<length (r_Matches route). length (m_Splits (r_Matches route ! k)) > 0 \<longrightarrow>
          (\<exists>ls. generateSplits (m_Splits (r_Matches route ! k)) un cr vn
                   (scIndex + int (countSplits (take k (r_Matches route)))) cp
                 = Some (scs ! countSplits (take k (r_Matches route)), ls))"
    by auto
  show ?thesis
  proof (cases "length (r_Splits route) > 0")
    case True
    with assms have "splitsHaveActions (r_Splits route)" by (simp add: routeHasActions_def)
    from generateSplits_Some [OF this, of un cr vn "scIndex + int (countSplits (r_Matches route))" cp]
    obtain sc locs2 where
      gs: "generateSplits (r_Splits route) un cr vn
             (scIndex + int (countSplits (r_Matches route))) cp = Some (sc, locs2)"
      by blast
    have nth': "\<forall>k<length (r_Matches route). length (m_Splits (r_Matches route ! k)) > 0 \<longrightarrow>
          (\<exists>ls. generateSplits (m_Splits (r_Matches route ! k)) un cr vn
                   (scIndex + int (countSplits (take k (r_Matches route)))) cp
                 = Some ((scs @ [sc]) ! countSplits (take k (r_Matches route)), ls))"
      using nth len countSplits_take_less [of _ "r_Matches route"]
      by (auto simp: nth_append)
    show ?thesis
      unfolding generateMatchesConfig_def Let_def
      using True mm ll gs len params k nth' by (simp add: nth_append)
  next
    case False
    with assms obtain action where "r_Action route = Some action"
      by (auto simp: routeHasActions_def)
    with False show ?thesis
      unfolding generateMatchesConfig_def Let_def
      using mm ll len params k nth by simp
  qed
qed

text \<open>
  Claim C1. For a route with \<open>n\<close> matches whose actions are present,
  \<open>generateMatchesConfig\<close> returns a configuration whose last map, the main map, has
  \<open>n + 1\<close> parameters. The value of the parameter \<open>k < n\<close> is \<open>~^\<close>, \<open>k\<close> zeros
  and \<open>1\<close>; its result is the named location \<open>@matches_<index>_match_<k>\<close>, or, when
  the match \<open>k\<close> has splits, the variable of the split client that \<open>generateSplits\<close>
  has made of the splits of that match, which is the split client number
  \<open>scIndex\<close> plus the number of earlier matches with splits. The last parameter has the
  value \<open>default\<close>; its result is \<open>@matches_<index>_default\<close>, or, when the route has
  splits, the variable of the last split client, made of the splits of the route.
\<close>

theorem generateMatchesConfig_mainMap:
  assumes "routeHasActions route"
  shows "\<exists>cfg. generateMatchesConfig route un cr vn index scIndex cp = Some cfg
     \<and> (let params = map_Parameters (last (rc_Maps cfg));
            matches = r_Matches route;
            n = length matches
        in length params = n + 1
         \<and> (\<forall>k<n.
               p_Value (params ! k) = ''~^'' @ replicate k (CHR ''0'') @ ''1''
             \<and> p_Result (params ! k) =
                 (if length (m_Splits (matches ! k)) > 0
                  then GetNameForSplitClientVariable vn
                         (scIndex + int (countSplits (take k matches)))
                  else ''@matches_'' @ show_int index @ ''_match_'' @ show_int (int k))
             \<and> (length (m_Splits (matches ! k)) > 0 \<longrightarrow>
                  (\<exists>ls. generateSplits (m_Splits (matches ! k)) un cr vn
                           (scIndex + int (countSplits (take k matches))) cp
                         = Some (rc_SplitClients cfg ! countSplits (take k matches), ls))
                  \<and> spc_Variable (rc_SplitClients cfg ! countSplits (take k matches))
                      = p_Result (params ! k)))
         \<and> p_Value (params ! n) = ''default''
         \<and> p_Result (params ! n) =
             (if length (r_Splits route) > 0
              then GetNameForSplitClientVariable vn (scIndex + int (countSplits matches))
              else ''@matches_'' @ show_int index @ ''_default'')
         \<and> (length (r_Splits route) > 0 \<longrightarrow>
              (\<exists>ls. generateSplits (r_Splits route) un cr vn
                       (scIndex + int (countSplits matches)) cp
                     = Some (last (rc_SplitClients cfg), ls))
              \<and> spc_Variable (last (rc_SplitClients cfg)) = p_Result (params ! n)))"
proof -
  from generateMatchesConfig_Some [OF assms, of un cr vn index scIndex cp]
  obtain cfg src where
    some: "generateMatchesConfig route un cr vn index scIndex cp = Some cfg"
    and maps: "rc_Maps cfg = generateMatchesConfig_conditionMaps vn index (r_Matches route)
         @ [\<lparr>map_Source = src,
             map_Variable = GetNameForVariableForMatchesRouteMainMap vn index,
             map_Parameters =
               map (mainMapParam vn index scIndex (r_Matches route) 0 0)
                 [0..<length (r_Matches route)]
               @ [\<lparr>p_Value = ''default'',
                   p_Result =
                     (if length (r_Splits route) > 0
                      then GetNameForSplitClientVariable vn
                             (scIndex + int (countSplits (r_Matches route)))
                      else ''@matches_'' @ show_int index @ ''_default'')\<rparr>]\<rparr>]"
    and len: "length (rc_SplitClients cfg)
         = countSplits (r_Matches route) + (if length (r_Splits route) > 0 then 1 else 0)"
    and nth: "\<forall>k<length (r_Matches route). length (m_Splits (r_Matches route ! k)) > 0 \<longrightarrow>
          (\<exists>ls. generateSplits (m_Splits (r_Matches route ! k)) un cr vn
                   (scIndex + int (countSplits (take k (r_Matches route)))) cp
                 = Some (rc_SplitClients cfg ! countSplits (take k (r_Matches route)), ls))"
    and dflt: "length (r_Splits route) > 0 \<longrightarrow>
          (\<exists>ls. generateSplits (r_Splits route) un cr vn
                   (scIndex + int (countSplits (r_Matches route))) cp
                 = Some (rc_SplitClients cfg ! countSplits (r_Matches route), ls))"
    by blast
  let ?ms = "r_Matches route"
  let ?params = "map_Parameters (last (rc_Maps cfg))"
  have params: "?params = map (mainMapParam vn index scIndex ?ms 0 0) [0..<length ?ms]
               @ [\<lparr>p_Value = ''default'',
                   p_Result =
                     (if length (r_Splits route) > 0
                      then GetNameForSplitClientVariable vn (scIndex + int (countSplits ?ms))
                      else ''@matches_'' @ show_int index @ ''_default'')\<rparr>]"
    by (simp add: maps)
  have l: "length ?params = length ?ms + 1"
    by (simp add: params)
  have at: "?params ! k = mainMapParam vn index scIndex ?ms 0 0 k" if "k < length ?ms" for k
    using that by (simp add: params nth_append)
  have lastp: "?params ! length ?ms = \<lparr>p_Value = ''default'',
                   p_Result =
                     (if length (r_Splits route) > 0
                      then GetNameForSplitClientVariable vn (scIndex + int (countSplits ?ms))
                      else ''@matches_'' @ show_int index @ ''_default'')\<rparr>"
    by (simp add: params nth_append)
  have lastsc: "last (rc_SplitClients cfg) = rc_SplitClients cfg ! countSplits ?ms"
    if "length (r_Splits route) > 0"
  proof -
    from that len have "length (rc_SplitClients cfg) = Suc (countSplits ?ms)" by simp
    then show ?thesis
      by (metis diff_Suc_1 last_conv_nth length_0_conv nat.distinct(1))
  qed
  have per: "p_Value (?params ! k) = ''~^'' @ replicate k (CHR ''0'') @ ''1''
             \<and> p_Result (?params ! k) =
                 (if length (m_Splits (?ms ! k)) > 0
                  then GetNameForSplitClientVariable vn
                         (scIndex + int (countSplits (take k ?ms)))
                  else ''@matches_'' @ show_int index @ ''_match_'' @ show_int (int k))
             \<and> (length (m_Splits (?ms ! k)) > 0 \<longrightarrow>
                  (\<exists>ls. generateSplits (m_Splits (?ms ! k)) un cr vn
                           (scIndex + int (countSplits (take k ?ms))) cp
                         = Some (rc_SplitClients cfg ! countSplits (take k ?ms), ls))
                  \<and> spc_Variable (rc_SplitClients cfg ! countSplits (take k ?ms))
                      = p_Result (?params ! k))" if k: "k < length ?ms" for k
  proof (cases "length (m_Splits (?ms ! k)) > 0")
    case True
    with nth k obtain ls where
      g: "generateSplits (m_Splits (?ms ! k)) un cr vn
            (scIndex + int (countSplits (take k ?ms))) cp
          = Some (rc_SplitClients cfg ! countSplits (take k ?ms), ls)" by blast
    from generateSplits_Variable [OF g] g True show ?thesis
      by (auto simp: at [OF k] mainMapParam_def)
  next
    case False
    then show ?thesis by (simp add: at [OF k] mainMapParam_def)
  qed
  have dfl: "length (r_Splits route) > 0 \<longrightarrow>
              (\<exists>ls. generateSplits (r_Splits route) un cr vn
                       (scIndex + int (countSplits ?ms)) cp
                     = Some (last (rc_SplitClients cfg), ls))
              \<and> spc_Variable (last (rc_SplitClients cfg)) = p_Result (?params ! length ?ms)"
  proof
    assume sp: "length (r_Splits route) > 0"
    with dflt obtain ls where
      g: "generateSplits (r_Splits route) un cr vn (scIndex + int (countSplits ?ms)) cp
          = Some (rc_SplitClients cfg ! countSplits ?ms, ls)" by blast
    from generateSplits_Variable [OF g] g sp
    show "(\<exists>ls. generateSplits (r_Splits route) un cr vn
                       (scIndex + int (countSplits ?ms)) cp
                     = Some (last (rc_SplitClients cfg), ls))
              \<and> spc_Variable (last (rc_SplitClients cfg)) = p_Result (?params ! length ?ms)"
      by (auto simp: lastsc [OF sp] lastp)
  qed
  show ?thesis
    unfolding Let_def using some l per dfl by (auto simp: lastp)
qed

theorem generateMatchesConfig_mainMap_witness:
  "routeHasActions exampleMatchesRoute
   \<and> (\<exists>cfg. generateMatchesConfig exampleMatchesRoute
                (newUpstreamNamerForVirtualServer exampleVirtualServer) Map.empty
                (newVariableNamer exampleVirtualServer) 1 2 exampleCfgParams = Some cfg
          \<and> length (map_Parameters (last (rc_Maps cfg))) = 3
          \<and> p_Value (map_Parameters (last (rc_Maps cfg)) ! 0) = ''~^1''
          \<and> p_Result (map_Parameters (last (rc_Maps cfg)) ! 0) = ''$vs_default_cafe_splits_2''
          \<and> p_Value (map_Parameters (last (rc_Maps cfg)) ! 1) = ''~^01''
          \<and> p_Result (map_Parameters (last (rc_Maps cfg)) ! 1) = ''@matches_1_match_1''
          \<and> p_Value (map_Parameters (last (rc_Maps cfg)) ! 2) = ''default''
          \<and> p_Result (map_Parameters (last (rc_Maps cfg)) ! 2) = ''$vs_default_cafe_splits_3''
          \<and> spc_Variable (rc_SplitClients cfg ! 0) = ''$vs_default_cafe_splits_2''
          \<and> spc_Variable (last (rc_SplitClients cfg)) = ''$vs_default_cafe_splits_3'')"
proof -
  have h: "routeHasActions exampleMatchesRoute"
    by (simp add: routeHasActions_def matchHasActions_def splitsHaveActions_def
        exampleMatchesRoute_def)
  have n: "length (r_Matches exampleMatchesRoute) = 2"
    by (simp add: exampleMatchesRoute_def)
  from generateMatchesConfig_mainMap [OF h, of "newUpstreamNamerForVirtualServer exampleVirtualServer"
      Map.empty "newVariableNamer exampleVirtualServer" 1 2 exampleCfgParams]
  obtain cfg where
    c: "generateMatchesConfig exampleMatchesRoute
          (newUpstreamNamerForVirtualServer exampleVirtualServer) Map.empty
          (newVariableNamer exampleVirtualServer) 1 2 exampleCfgParams = Some cfg"
    and p: "let params = map_Parameters (last (rc_Maps cfg));
                matches = r_Matches exampleMatchesRoute;
                n = length matches
            in length params = n + 1
             \<and> (\<forall>k<n.
                   p_Value (params ! k) = ''~^'' @ replicate k (CHR ''0'') @ ''1''
                 \<and> p_Result (params ! k) =
                     (if length (m_Splits (matches ! k)) > 0
                      then GetNameForSplitClientVariable (newVariableNamer exampleVirtualServer)
                             (2 + int (countSplits (take k matches)))
                      else ''@matches_'' @ show_int 1 @ ''_match_'' @ show_int (int k))
                 \<and> (length (m_Splits (matches ! k)) > 0 \<longrightarrow>
                      (\<exists>ls. generateSplits (m_Splits (matches ! k))
                               (newUpstreamNamerForVirtualServer exampleVirtualServer) Map.empty
                               (newVariableNamer exampleVirtualServer)
                               (2 + int (countSplits (take k matches))) exampleCfgParams
                             = Some (rc_SplitClients cfg ! countSplits (take k matches), ls))
                      \<and> spc_Variable (rc_SplitClients cfg ! countSplits (take k matches))
                          = p_Result (params ! k)))
             \<and> p_Value (params ! n) = ''default''
             \<and> p_Result (params ! n) =
                 (if length (r_Splits exampleMatchesRoute) > 0
                  then GetNameForSplitClientVariable (newVariableNamer exampleVirtualServer)
                         (2 + int (countSplits matches))
                  else ''@matches_'' @ show_int 1 @ ''_default'')
             \<and> (length (r_Splits exampleMatchesRoute) > 0 \<longrightarrow>
                  (\<exists>ls. generateSplits (r_Splits exampleMatchesRoute)
                           (newUpstreamNamerForVirtualServer exampleVirtualServer) Map.empty
                           (newVariableNamer exampleVirtualServer)
                           (2 + int (countSplits matches)) exampleCfgParams
                         = Some (last (rc_SplitClients cfg), ls))
                  \<and> spc_Variable (last (rc_SplitClients cfg)) = p_Result (params ! n))"
    by blast
  let ?params = "map_Parameters (last (rc_Maps cfg))"
  have names: "GetNameForSplitClientVariable (newVariableNamer exampleVirtualServer) 2
                 = ''$vs_default_cafe_splits_2''"
    "GetNameForSplitClientVariable (newVariableNamer exampleVirtualServer) 3
                 = ''$vs_default_cafe_splits_3''"
    "show_int 1 = ''1''"
    by (simp_all add: GetNameForSplitClientVariable_def newVariableNamer_def
        exampleVirtualServer_def replace_dash_def show_int_def show_nat.simps)
  from p have len: "length ?params = 3"
    by (simp add: Let_def n)
  from p have k0: "p_Value (?params ! 0) = ''~^1''"
      "p_Result (?params ! 0) = ''$vs_default_cafe_splits_2''"
      "spc_Variable (rc_SplitClients cfg ! 0) = ''$vs_default_cafe_splits_2''"
    by (simp_all add: Let_def exampleMatchesRoute_def countSplits_def names All_less_Suc
        numeral_2_eq_2)
  from p have k1: "p_Value (?params ! 1) = ''~^01''"
      "p_Result (?params ! 1) = ''@matches_1_match_1''"
    by (simp_all add: Let_def exampleMatchesRoute_def countSplits_def names All_less_Suc
        numeral_2_eq_2)
  from p have k2: "p_Value (?params ! 2) = ''default''"
      "p_Result (?params ! 2) = ''$vs_default_cafe_splits_3''"
      "spc_Variable (last (rc_SplitClients cfg)) = ''$vs_default_cafe_splits_3''"
    by (simp_all add: Let_def exampleMatchesRoute_def countSplits_def names All_less_Suc
        numeral_2_eq_2)
  from h c len k0 k1 k2 show ?thesis
    by (intro conjI exI [of _ cfg]) simp_all
qed

lemma generateParametersForMatchesRouteMap_eq:
  "generateParametersForMatchesRouteMap v succ =
     (if HasPrefix v ''!''
      then [\<lparr>p_Value = mapValueForm (tl v), p_Result = ''0''\<rparr>,
            \<lparr>p_Value = ''default'', p_Result = succ\<rparr>]
      else [\<lparr>p_Value = mapValueForm v, p_Result = succ\<rparr>,
            \<lparr>p_Value = ''default'', p_Result = ''0''\<rparr>])"
  by (cases v)
     (auto simp: generateParametersForMatchesRouteMap_def generateValueForMatchesRouteMap_def
       mapValueForm_def HasPrefix_def specialMapParameters_def Let_def)

lemma concat_take_offset:
  assumes "i < length xss" and "j < length (xss ! i)"
  shows "length (concat (take i xss)) + j < length (concat xss)"
proof -
  have "xss = take i xss @ xss ! i # drop (Suc i) xss"
    using assms(1) by (rule id_take_nth_drop)
  then have "length (concat xss) = length (concat (take i xss @ xss ! i # drop (Suc i) xss))"
    by simp
  also have "\<dots> = length (concat (take i xss)) + length (xss ! i)
                    + length (concat (drop (Suc i) xss))"
    by simp
  finally show ?thesis using assms(2) by simp
qed

text \<open>
  Claim C5. For a route whose actions are present, the map that \<open>generateMatchesConfig\<close>
  returns for the condition \<open>j\<close> of the match \<open>i\<close> (the maps of the conditions come in
  the order of the matches, so it is at the position given by the number of conditions
  of the earlier matches plus \<open>j\<close>) has the variable of that condition, the source of
  the condition, and exactly two parameters: the value form of the value of the
  condition with the successful result, and \<open>default\<close> with \<open>0\<close>. The successful result
  is \<open>1\<close> for the last condition and the variable of the condition \<open>j + 1\<close> otherwise.
  When the value begins with \<open>!\<close>, the two results are swapped and the value form is that
  of the value without the leading \<open>!\<close>.
\<close>

theorem generateMatchesConfig_conditionMap:
  assumes "routeHasActions route"
    and "i < length (r_Matches route)"
    and "j < length (m_Conditions (r_Matches route ! i))"
  shows "\<exists>cfg. generateMatchesConfig route un cr vn index scIndex cp = Some cfg
     \<and> (let conds = m_Conditions (r_Matches route ! i);
            c = conds ! j;
            mp = rc_Maps cfg ! (length (concat (map m_Conditions (take i (r_Matches route)))) + j);
            successfulResult =
              (if j = length conds - 1 then ''1''
               else GetNameForVariableForMatchesRouteMap vn index (int i) (int (j + 1)))
        in map_Variable mp = GetNameForVariableForMatchesRouteMap vn index (int i) (int j)
         \<and> map_Source mp = getNameForSourceForMatchesRouteMapFromCondition c
         \<and> map_Parameters mp =
             (if HasPrefix (c_Value c) ''!''
              then [\<lparr>p_Value = mapValueForm (tl (c_Value c)), p_Result = ''0''\<rparr>,
                    \<lparr>p_Value = ''default'', p_Result = successfulResult\<rparr>]
              else [\<lparr>p_Value = mapValueForm (c_Value c), p_Result = successfulResult\<rparr>,
                    \<lparr>p_Value = ''default'', p_Result = ''0''\<rparr>]))"
proof -
  let ?ms = "r_Matches route"
  let ?off = "length (concat (map m_Conditions (take i ?ms))) + j"
  from generateMatchesConfig_Some [OF assms(1), of un cr vn index scIndex cp]
  obtain cfg mainMap where
    some: "generateMatchesConfig route un cr vn index scIndex cp = Some cfg"
    and maps: "rc_Maps cfg = generateMatchesConfig_conditionMaps vn index ?ms @ [mainMap]"
    by blast
  have "length (concat (take i (map m_Conditions ?ms))) + j < length (concat (map m_Conditions ?ms))"
    using assms(2,3) by (intro concat_take_offset) simp_all
  then have off: "?off < length (generateMatchesConfig_conditionMaps vn index ?ms)"
    by (simp add: conditionMaps_eq conditionMaps_length take_map)
  have "rc_Maps cfg ! ?off = generateMatchesConfig_conditionMaps vn index ?ms ! ?off"
    using off by (simp add: maps nth_append)
  also have "\<dots> = conditionMap vn index i (?ms ! i) j"
    using conditionMaps_concat [OF assms(2,3), of vn index 0]
    by (simp add: conditionMaps_eq)
  finally have mp: "rc_Maps cfg ! ?off = conditionMap vn index i (?ms ! i) j" .
  have succ: "(if Suc j < length (m_Conditions (?ms ! i))
               then GetNameForVariableForMatchesRouteMap vn index (int i) (int j + 1)
               else ''1'')
      = (if j = length (m_Conditions (?ms ! i)) - 1 then ''1''
         else GetNameForVariableForMatchesRouteMap vn index (int i) (int (j + 1)))"
  proof (cases "Suc j < length (m_Conditions (?ms ! i))")
    case True
    then have "j \<noteq> length (m_Conditions (?ms ! i)) - 1" by linarith
    moreover have "int (j + 1) = int j + 1" by simp
    ultimately show ?thesis using True by (simp add: add.commute)
  next
    case False
    with assms(3) have "j = length (m_Conditions (?ms ! i)) - 1" by linarith
    with False show ?thesis by simp
  qed
  have V: "map_Variable (rc_Maps cfg ! ?off)
      = GetNameForVariableForMatchesRouteMap vn index (int i) (int j)"
    by (simp only: mp) (simp add: conditionMap_def)
  have S: "map_Source (rc_Maps cfg ! ?off)
      = getNameForSourceForMatchesRouteMapFromCondition (m_Conditions (?ms ! i) ! j)"
    by (simp only: mp) (simp add: conditionMap_def)
  have "map_Parameters (rc_Maps cfg ! ?off)
      = generateParametersForMatchesRouteMap (c_Value (m_Conditions (?ms ! i) ! j))
          (if Suc j < length (m_Conditions (?ms ! i))
           then GetNameForVariableForMatchesRouteMap vn index (int i) (int j + 1)
           else ''1'')"
    by (simp only: mp) (simp add: conditionMap_def)
  then have P: "map_Parameters (rc_Maps cfg ! ?off)
      = generateParametersForMatchesRouteMap (c_Value (m_Conditions (?ms ! i) ! j))
          (if j = length (m_Conditions (?ms ! i)) - 1 then ''1''
           else GetNameForVariableForMatchesRouteMap vn index (int i) (int (j + 1)))"
    by (simp only: succ)
  show ?thesis
    unfolding Let_def
    using some V S P
    by (simp only: generateParametersForMatchesRouteMap_eq) blast
qed

theorem generateMatchesConfig_conditionMap_witness:
  "routeHasActions exampleMatchesRoute
   \<and> (\<exists>cfg. generateMatchesConfig exampleMatchesRoute
                (newUpstreamNamerForVirtualServer exampleVirtualServer) Map.empty
                (newVariableNamer exampleVirtualServer) 1 2 exampleCfgParams = Some cfg
          \<and> rc_Maps cfg ! 1
              = \<lparr>map_Source = ''$http_x_version'',
                 map_Variable = ''$vs_default_cafe_matches_1_match_1_cond_0'',
                 map_Parameters =
                   [\<lparr>p_Value = [dquote] @ ''v2'' @ [dquote], p_Result = ''0''\<rparr>,
                    \<lparr>p_Value = ''default'',
                      p_Result = ''$vs_default_cafe_matches_1_match_1_cond_1''\<rparr>]\<rparr>)"
proof -
  have h: "routeHasActions exampleMatchesRoute"
    by (simp add: routeHasActions_def matchHasActions_def splitsHaveActions_def
        exampleMatchesRoute_def)
  have i: "1 < length (r_Matches exampleMatchesRoute)"
    by (simp add: exampleMatchesRoute_def)
  have j: "0 < length (m_Conditions (r_Matches exampleMatchesRoute ! 1))"
    by (simp add: exampleMatchesRoute_def)
  from generateMatchesConfig_conditionMap [OF h i j,
      of "newUpstreamNamerForVirtualServer exampleVirtualServer"
      Map.empty "newVariableNamer exampleVirtualServer" 1 2 exampleCfgParams]
  obtain cfg where
    c: "generateMatchesConfig exampleMatchesRoute
          (newUpstreamNamerForVirtualServer exampleVirtualServer) Map.empty
          (newVariableNamer exampleVirtualServer) 1 2 exampleCfgParams = Some cfg"
    and p: "let conds = m_Conditions (r_Matches exampleMatchesRoute ! 1);
            c = conds ! 0;
            mp = rc_Maps cfg
                   ! (length (concat (map m_Conditions (take 1 (r_Matches exampleMatchesRoute))))
                      + 0);
            successfulResult =
              (if 0 = length conds - 1 then ''1''
               else GetNameForVariableForMatchesRouteMap (newVariableNamer exampleVirtualServer)
                      1 (int 1) (int (0 + 1)))
        in map_Variable mp
             = GetNameForVariableForMatchesRouteMap (newVariableNamer exampleVirtualServer)
                 1 (int 1) (int 0)
         \<and> map_Source mp = getNameForSourceForMatchesRouteMapFromCondition c
         \<and> map_Parameters mp =
             (if HasPrefix (c_Value c) ''!''
              then [\<lparr>p_Value = mapValueForm (tl (c_Value c)), p_Result = ''0''\<rparr>,
                    \<lparr>p_Value = ''default'', p_Result = successfulResult\<rparr>]
              else [\<lparr>p_Value = mapValueForm (c_Value c), p_Result = successfulResult\<rparr>,
                    \<lparr>p_Value = ''default'', p_Result = ''0''\<rparr>])"
    by blast
  from p have "rc_Maps cfg ! 1
              = \<lparr>map_Source = ''$http_x_version'',
                 map_Variable = ''$vs_default_cafe_matches_1_match_1_cond_0'',
                 map_Parameters =
                   [\<lparr>p_Value = [dquote] @ ''v2'' @ [dquote], p_Result = ''0''\<rparr>,
                    \<lparr>p_Value = ''default'',
                      p_Result = ''$vs_default_cafe_matches_1_match_1_cond_1''\<rparr>]\<rparr>"
    by (simp add: Let_def exampleMatchesRoute_def exampleCondition_def
        GetNameForVariableForMatchesRouteMap_def newVariableNamer_def exampleVirtualServer_def
        replace_dash_def show_int_def show_nat.simps
        getNameForSourceForMatchesRouteMapFromCondition_def HasPrefix_def mapValueForm_def
        dquote_def backslash_def v2_Map.equality)
  with h c show ?thesis by blast
qed

section \<open>Properties of the validator\<close>

subsection \<open>Strings with variables\<close>

lemma scan_no_panic:
  assumes "\<not> HasSuffix_dollar str" and "\<forall>i\<in>set is. i < length str"
  shows "\<exists>r. validateStringWithVariables_scan str fp is = Inr r"
  using assms(2)
proof (induction "is")
  case Nil
  then show ?case by simp
next
  case (Cons i "is")
  then have i: "i < length str" and rest: "\<forall>i\<in>set is. i < length str" by auto
  from Cons.IH [OF rest] obtain r where r: "validateStringWithVariables_scan str fp is = Inr r"
    by blast
  show ?case
  proof (cases "str ! i = CHR ''$''")
    case True
    have "i + 1 < length str"
    proof (rule ccontr)
      assume "\<not> i + 1 < length str"
      with i have "i = length str - 1" by linarith
      moreover from i have "str \<noteq> []" by auto
      ultimately have "last str = CHR ''$''" using True by (simp add: last_conv_nth)
      with \<open>str \<noteq> []\<close> assms(1) show False by (simp add: HasSuffix_dollar_def)
    qed
    with True r show ?thesis by simp
  next
    case False
    with r show ?thesis by simp
  qed
qed

lemma validateSpecialVariable_panic:
  "validateSpecialVariable lib nVar fp = Inl p \<Longrightarrow> p = SliceIndexOutOfRange"
  by (auto simp: validateSpecialVariable_def Let_def split: if_splits)

lemma vars_panic:
  "validateStringWithVariables_vars lib fp validVars specialVars nVars allErrs = Inl p
   \<Longrightarrow> p = SliceIndexOutOfRange"
proof (induction nVars arbitrary: allErrs)
  case Nil
  then show ?case by simp
next
  case (Cons nVar nVars)
  then show ?case
    by (auto simp: Let_def validateSpecialVariable_panic split: if_splits sum.splits)
qed

lemma validateSpecialVariable_underscore:
  assumes "CHR ''_'' \<in> set nVar"
  shows "\<exists>errs. validateSpecialVariable lib nVar fp = Inr errs"
  using assms by (simp add: validateSpecialVariable_def splitN2_underscore_def Let_def)

lemma vars_no_panic:
  assumes "\<forall>sv\<in>set specialVars. CHR ''_'' \<in> set sv"
  shows "\<exists>errs. validateStringWithVariables_vars lib fp validVars specialVars nVars allErrs
           = Inr errs"
proof (induction nVars arbitrary: allErrs)
  case Nil
  then show ?case by simp
next
  case (Cons nVar nVars)
  show ?case
  proof (cases "list_ex (\<lambda>specialVar. HasPrefix nVar specialVar) specialVars")
    case True
    then obtain sv where sv: "sv \<in> set specialVars" and pre: "prefix sv nVar"
      by (auto simp: list_ex_iff HasPrefix_def)
    from sv assms have "CHR ''_'' \<in> set sv" by blast
    with pre have "CHR ''_'' \<in> set nVar" using set_mono_prefix by blast
    from validateSpecialVariable_underscore [OF this, of lib fp]
    obtain errs where "validateSpecialVariable lib nVar fp = Inr errs" by blast
    with True Cons.IH [of "allErrs @ errs"] show ?thesis by simp
  next
    case False
    with Cons.IH [of "allErrs @ validateVariable nVar validVars fp"] show ?thesis by simp
  qed
qed

lemma validateStringWithVariables_cases:
  "validateStringWithVariables lib str fp validVars specialVars
     = validateStringWithVariables_vars lib fp validVars specialVars (captureVariables str) []
   \<or> (\<exists>errs. validateStringWithVariables lib str fp validVars specialVars = Inr errs)"
proof (cases "HasSuffix_dollar str")
  case True
  then show ?thesis by (simp add: validateStringWithVariables_def)
next
  case False
  have "\<forall>i\<in>set [0..<length str]. i < length str" by simp
  from scan_no_panic [OF False this, of fp]
  obtain r where r: "validateStringWithVariables_scan str fp [0..<length str] = Inr r" by blast
  with False show ?thesis
    by (cases r) (simp_all add: validateStringWithVariables_def)
qed

lemma validateStringWithVariables_returns:
  assumes "\<forall>sv\<in>set specialVars. CHR ''_'' \<in> set sv"
  shows "\<exists>errs. validateStringWithVariables lib str fp validVars specialVars = Inr errs"
  using validateStringWithVariables_cases [of lib str fp validVars specialVars]
    vars_no_panic [OF assms, of lib fp validVars "captureVariables str" "[]"]
  by auto

lemma validateStringWithVariables_no_special:
  "\<exists>errs. validateStringWithVariables lib str fp validVars [] = Inr errs"
  by (rule validateStringWithVariables_returns) simp

lemma validateStringWithVariables_returnBody:
  "\<exists>errs. validateStringWithVariables lib str fp validVars returnBodySpecialVariables = Inr errs"
  by (rule validateStringWithVariables_returns) (simp add: returnBodySpecialVariables_def)

text \<open>
  Claim C10, as amended. For every input, \<open>validateStringWithVariables\<close> never reads
  the string out of range: the byte \<open>str[i+1]\<close> after a dollar sign exists, since a
  string that ends in a dollar sign is rejected before the scan. When every special
  prefix contains an underscore, as the three prefixes of the return body do (and the
  empty list of the redirect URL), the function returns an error list.
\<close>

theorem validateStringWithVariables_total:
  "validateStringWithVariables lib str fp validVars specialVars \<noteq> Inl StringIndexOutOfRange
   \<and> ((\<forall>sv\<in>set specialVars. CHR ''_'' \<in> set sv) \<longrightarrow>
        (\<exists>errs. validateStringWithVariables lib str fp validVars specialVars = Inr errs))"
proof
  show "validateStringWithVariables lib str fp validVars specialVars \<noteq> Inl StringIndexOutOfRange"
    using validateStringWithVariables_cases [of lib str fp validVars specialVars]
      vars_panic [of lib fp validVars specialVars "captureVariables str" "[]"
        StringIndexOutOfRange]
    by auto
next
  show "(\<forall>sv\<in>set specialVars. CHR ''_'' \<in> set sv) \<longrightarrow>
        (\<exists>errs. validateStringWithVariables lib str fp validVars specialVars = Inr errs)"
    using validateStringWithVariables_returns by blast
qed

theorem validateStringWithVariables_total_witness:
  "validateStringWithVariables exampleLibrary ''${arg_user} and ${host}'' (NewPath ''body'')
     returnBodyVariables returnBodySpecialVariables \<noteq> Inl StringIndexOutOfRange
   \<and> (\<exists>errs. validateStringWithVariables exampleLibrary ''${arg_user} and ${host}''
                 (NewPath ''body'') returnBodyVariables returnBodySpecialVariables = Inr errs)"
  using validateStringWithVariables_total [of exampleLibrary "''${arg_user} and ${host}''"
      "NewPath ''body''" returnBodyVariables returnBodySpecialVariables]
  by (simp add: returnBodySpecialVariables_def)

text \<open>
  Claim C10 as stated fails for a special prefix without an underscore, as the tests
  of the function pass them: the variable \<open>arg\<close> has the prefix \<open>arg\<close>, and
  \<open>validateSpecialVariable\<close> reads the second part of a split that has one part only.
\<close>

theorem validateStringWithVariables_counterexample:
  "validateStringWithVariables exampleLibrary ''${arg}'' (NewPath ''string'')
     [(''scheme'', True), (''host'', True)] [''arg'', ''http'', ''cookie'']
   = Inl SliceIndexOutOfRange"
  by (simp add: validateStringWithVariables_def HasSuffix_dollar_def upt_rec
      validateSpecialVariable_def splitN2_underscore_def HasPrefix_def Let_def)

subsection \<open>Splits\<close>

lemma wrap64_id: "- (2 ^ 63) \<le> x \<Longrightarrow> x < 2 ^ 63 \<Longrightarrow> wrap64 x = x"
  by (simp add: wrap64_def)

lemma totalWeight_sum:
  assumes "\<forall>s\<in>set splits. 1 \<le> s_Weight s \<and> s_Weight s \<le> 99"
    and "0 \<le> t" and "t + 99 * int (length splits) < 2 ^ 63"
  shows "foldl (\<lambda>t s. wrap64 (t + s_Weight s)) t splits = t + sum_list (map s_Weight splits)"
  using assms
proof (induction splits arbitrary: t)
  case Nil
  then show ?case by simp
next
  case (Cons s splits)
  then have w: "1 \<le> s_Weight s" "s_Weight s \<le> 99" by auto
  with Cons.prems have "wrap64 (t + s_Weight s) = t + s_Weight s"
    by (intro wrap64_id) auto
  moreover have "foldl (\<lambda>t s. wrap64 (t + s_Weight s)) (t + s_Weight s) splits
      = (t + s_Weight s) + sum_list (map s_Weight splits)"
    using Cons.prems w by (intro Cons.IH) auto
  ultimately show ?case by simp
qed

lemma sum_list_ge_length:
  "\<forall>s\<in>set splits. 1 \<le> s_Weight s \<Longrightarrow> int (length splits) \<le> sum_list (map s_Weight splits)"
  by (induction splits) auto

lemma concat_map_enumerate_Nil:
  "(concat (map f (enumerate n xs)) = []) = (\<forall>i<length xs. f (n + i, xs ! i) = [])"
proof (induction xs arbitrary: n)
  case Nil
  then show ?case by simp
next
  case (Cons x xs)
  have "(\<forall>i<length (x # xs). f (n + i, (x # xs) ! i) = [])
      = (f (n, x) = [] \<and> (\<forall>i<length xs. f (Suc n + i, xs ! i) = []))"
    by (auto simp: less_Suc_eq_0_disj)
  with Cons.IH [of "Suc n"] show ?case by simp
qed

text \<open>
  Claim C4. \<open>validateSplits\<close> returns the empty error list if and only if the block has
  at least two splits, the weight of every split lies between 1 and 99, every split has
  an action that \<open>validateAction\<close> accepts, and the weights sum to 100. So a block with
  fewer than two splits is rejected, and so is a block whose weights do not sum to 100.
  The total weight is a 64-bit sum: the statement is for the slices that a machine can
  hold, of fewer than \<open>2 ^ 56\<close> splits.
\<close>

theorem validateSplits_accepts:
  assumes "length splits < 2 ^ 56"
  shows "validateSplits lib splits fp names = []
     \<longleftrightarrow> (2 \<le> length splits
          \<and> (\<forall>i<length splits.
                1 \<le> s_Weight (splits ! i) \<and> s_Weight (splits ! i) \<le> 99
              \<and> (\<exists>action. s_Action (splits ! i) = Some action
                   \<and> validateAction lib action
                        (path_Child (path_Index fp (int i)) ''action'') names = []))
          \<and> sum_list (map s_Weight splits) = 100)"
proof (cases "length splits < 2")
  case True
  then show ?thesis by (simp add: validateSplits_def)
next
  case False
  let ?f = "\<lambda>(i, s).
              (let idxPath = path_Index fp (int i)
               in map (\<lambda>msg. field_Invalid (path_Child idxPath ''weight'')
                                (IntValue (s_Weight s)) msg)
                    (IsInRange lib (s_Weight s) 1 99)
                  @ (case s_Action s of
                       None \<Rightarrow> [field_Required (path_Child idxPath ''action'') []]
                     | Some action \<Rightarrow>
                         validateAction lib action (path_Child idxPath ''action'') names))"
  let ?tw = "foldl (\<lambda>t s. wrap64 (t + s_Weight s)) 0 splits"
  have v: "validateSplits lib splits fp names = []
      \<longleftrightarrow> concat (map ?f (enumerate 0 splits)) = [] \<and> ?tw = 100"
    using False by (simp add: validateSplits_def Let_def)
  have each: "concat (map ?f (enumerate 0 splits)) = []
      \<longleftrightarrow> (\<forall>i<length splits.
                1 \<le> s_Weight (splits ! i) \<and> s_Weight (splits ! i) \<le> 99
              \<and> (\<exists>action. s_Action (splits ! i) = Some action
                   \<and> validateAction lib action
                        (path_Child (path_Index fp (int i)) ''action'') names = []))"
    unfolding concat_map_enumerate_Nil
    by (auto simp: Let_def IsInRange_def split: option.splits)
  show ?thesis
  proof
    assume "validateSplits lib splits fp names = []"
    with v each have e: "\<forall>i<length splits.
                1 \<le> s_Weight (splits ! i) \<and> s_Weight (splits ! i) \<le> 99
              \<and> (\<exists>action. s_Action (splits ! i) = Some action
                   \<and> validateAction lib action
                        (path_Child (path_Index fp (int i)) ''action'') names = [])"
      and tw: "?tw = 100" by auto
    from e have r: "\<forall>s\<in>set splits. 1 \<le> s_Weight s \<and> s_Weight s \<le> 99"
      by (auto simp: in_set_conv_nth)
    from assms have "99 * int (length splits) < 99 * 2 ^ 56" by simp
    then have "0 + 99 * int (length splits) < 2 ^ 63" by simp
    from totalWeight_sum [OF r _ this] tw have "sum_list (map s_Weight splits) = 100" by simp
    with e False show "2 \<le> length splits
          \<and> (\<forall>i<length splits.
                1 \<le> s_Weight (splits ! i) \<and> s_Weight (splits ! i) \<le> 99
              \<and> (\<exists>action. s_Action (splits ! i) = Some action
                   \<and> validateAction lib action
                        (path_Child (path_Index fp (int i)) ''action'') names = []))
          \<and> sum_list (map s_Weight splits) = 100" by simp
  next
    assume a: "2 \<le> length splits
          \<and> (\<forall>i<length splits.
                1 \<le> s_Weight (splits ! i) \<and> s_Weight (splits ! i) \<le> 99
              \<and> (\<exists>action. s_Action (splits ! i) = Some action
                   \<and> validateAction lib action
                        (path_Child (path_Index fp (int i)) ''action'') names = []))
          \<and> sum_list (map s_Weight splits) = 100"
    then have r: "\<forall>s\<in>set splits. 1 \<le> s_Weight s \<and> s_Weight s \<le> 99"
      by (auto simp: in_set_conv_nth)
    then have "int (length splits) \<le> sum_list (map s_Weight splits)"
      by (intro sum_list_ge_length) auto
    with a have "int (length splits) \<le> 100" by simp
    then have "0 + 99 * int (length splits) < 2 ^ 63" by simp
    from totalWeight_sum [OF r _ this] a have "?tw = 100" by simp
    with a v each show "validateSplits lib splits fp names = []" by simp
  qed
qed

theorem validateSplits_accepts_witness:
  "length exampleSplits < 2 ^ 56
   \<and> validateSplits exampleLibrary exampleSplits (NewPath ''splits'')
        {''coffee-v1'', ''coffee-v2''} = []
   \<and> sum_list (map s_Weight exampleSplits) = 100
   \<and> validateSplits exampleLibrary (tl exampleSplits) (NewPath ''splits'')
        {''coffee-v1'', ''coffee-v2''} \<noteq> []"
proof -
  have l: "length exampleSplits < 2 ^ 56" "length (tl exampleSplits) < 2 ^ 56"
    by (simp_all add: exampleSplits_def)
  have a: "validateAction exampleLibrary (passAction name) p {''coffee-v1'', ''coffee-v2''} = []"
    if "name = ''coffee-v1'' \<or> name = ''coffee-v2''" for name p
    using that
    by (auto simp: validateAction_def countActions_def passAction_def
        validateReferencedUpstream_def validateUpstreamName_def validateDNS1035Label_def
        exampleLibrary_def Let_def)
  have "\<forall>i<length exampleSplits.
                1 \<le> s_Weight (exampleSplits ! i) \<and> s_Weight (exampleSplits ! i) \<le> 99
              \<and> (\<exists>action. s_Action (exampleSplits ! i) = Some action
                   \<and> validateAction exampleLibrary action
                        (path_Child (path_Index (NewPath ''splits'') (int i)) ''action'')
                        {''coffee-v1'', ''coffee-v2''} = [])"
    by (auto simp: exampleSplits_def less_Suc_eq a)
  with validateSplits_accepts [OF l(1), of exampleLibrary "NewPath ''splits''"
      "{''coffee-v1'', ''coffee-v2''}"]
  have "validateSplits exampleLibrary exampleSplits (NewPath ''splits'')
        {''coffee-v1'', ''coffee-v2''} = []"
    by (simp add: exampleSplits_def)
  moreover from validateSplits_accepts [OF l(2), of exampleLibrary "NewPath ''splits''"
      "{''coffee-v1'', ''coffee-v2''}"]
  have "validateSplits exampleLibrary (tl exampleSplits) (NewPath ''splits'')
        {''coffee-v1'', ''coffee-v2''} \<noteq> []"
    by (simp add: exampleSplits_def)
  ultimately show ?thesis using l(1) by (simp add: exampleSplits_def)
qed

subsection \<open>Fields of the commercial tier\<close>

lemma noForbidden_Nil: "noForbidden []"
  by (simp add: noForbidden_def)

lemma noForbidden_append: "noForbidden (xs @ ys) = (noForbidden xs \<and> noForbidden ys)"
  by (simp add: noForbidden_def)

lemma noForbidden_Cons:
  "noForbidden (e # es) = (err_Type e \<noteq> ErrorTypeForbidden \<and> noForbidden es)"
  by (simp add: noForbidden_def)

lemma noForbidden_map_Invalid: "noForbidden (map (field_Invalid p v) msgs)"
  by (simp add: noForbidden_def list_all_iff field_Invalid_def)

lemma noForbidden_concat: "(\<And>x. x \<in> set xs \<Longrightarrow> noForbidden (f x)) \<Longrightarrow> noForbidden (concat (map f xs))"
  by (auto simp: noForbidden_def list_all_iff)

lemma err_Type_simps:
  "err_Type (field_Invalid p v d) = ErrorTypeInvalid"
  "err_Type (field_Required p d) = ErrorTypeRequired"
  "err_Type (field_Duplicate p v) = ErrorTypeDuplicate"
  "err_Type (field_NotFound p v) = ErrorTypeNotFound"
  "err_Type (field_Forbidden p d) = ErrorTypeForbidden"
  by (simp_all add: field_Invalid_def field_Required_def field_Duplicate_def field_NotFound_def
      field_Forbidden_def)

lemmas nf = noForbidden_Nil noForbidden_append noForbidden_Cons noForbidden_map_Invalid
  err_Type_simps

lemma nf_validateTime: "noForbidden (validateTime lib t p)"
  by (simp add: validateTime_def nf split: option.splits)

lemma nf_validateDNS1035Label: "noForbidden (validateDNS1035Label lib name p)"
  by (simp add: validateDNS1035Label_def nf)

lemma nf_validateLabels: "noForbidden (validateLabels lib labels p)"
  unfolding validateLabels_def
  by (rule noForbidden_concat) (auto simp: isValidLabelName_def nf)

lemma nf_validateNextUpstream_loop: "noForbidden (validateNextUpstream_loop p params allParams)"
  by (induction params arbitrary: allParams) (simp_all add: nf)

lemma nf_validateNextUpstream: "noForbidden (validateNextUpstream lib s p)"
  by (simp add: validateNextUpstream_def nf nf_validateNextUpstream_loop)

lemma nf_validatePositiveIntOrZeroFromPointer:
  "noForbidden (validatePositiveIntOrZeroFromPointer n p)"
  by (simp add: validatePositiveIntOrZeroFromPointer_def nf split: option.splits)

lemma nf_validatePositiveIntOrZero: "noForbidden (validatePositiveIntOrZero n p)"
  by (simp add: validatePositiveIntOrZero_def nf)

lemma nf_validateUpstreamLBMethod: "noForbidden (validateUpstreamLBMethod lib m p isPlus)"
  by (simp add: validateUpstreamLBMethod_def nf split: option.splits)

lemma nf_validateOffset: "noForbidden (validateOffset lib s p)"
  by (simp add: validateOffset_def nf)

lemma nf_validateSize: "noForbidden (validateSize lib s p)"
  by (simp add: validateSize_def nf)

lemma nf_validatePath: "noForbidden (validatePath lib s p)"
  by (simp add: validatePath_def nf)

lemma nf_validateBuffer: "noForbidden (validateBuffer lib b p)"
  by (simp add: validateBuffer_def nf nf_validateSize split: option.splits)

lemma nf_validateQueue: "noForbidden (validateQueue lib q p)"
  by (simp add: validateQueue_def nf nf_validateTime split: option.splits)

lemma nf_validateSessionCookie: "noForbidden (validateSessionCookie lib sc p)"
  by (simp add: validateSessionCookie_def nf nf_validateTime nf_validatePath split: option.splits)

lemma nf_validateHeader: "noForbidden (validateHeader lib h p)"
  by (simp add: validateHeader_def nf)

lemma nf_validateStatusMatch: "noForbidden (validateStatusMatch lib s p)"
  unfolding validateStatusMatch_def
  by (auto simp: nf Let_def intro!: noForbidden_concat)

lemma nf_validateUpstreamHealthCheck: "noForbidden (validateUpstreamHealthCheck lib hc p)"
  unfolding validateUpstreamHealthCheck_def
  by (auto simp: nf nf_validateTime nf_validatePath nf_validatePositiveIntOrZero
      nf_validateStatusMatch nf_validateHeader split: option.splits intro!: noForbidden_concat)

lemma nf_validateUpstreams_fields: "noForbidden (validateUpstreams_fields lib u p True)"
  by (simp add: validateUpstreams_fields_def nf validateServiceName_def nf_validateDNS1035Label
      nf_validateLabels nf_validateTime nf_validateNextUpstream
      nf_validatePositiveIntOrZeroFromPointer nf_validateUpstreamLBMethod nf_validateOffset
      nf_validateUpstreamHealthCheck nf_validateBuffer nf_validateSize nf_validateQueue
      nf_validateSessionCookie rejectPlusResourcesInOSS_def)

lemma nf_validateUpstreams_loop:
  "noForbidden errs \<Longrightarrow>
   noForbidden (fst (validateUpstreams_loop lib fp True i us (errs, names)))"
proof (induction us arbitrary: i errs names)
  case Nil
  then show ?case by simp
next
  case (Cons u us)
  show ?case
    using Cons.prems
    by (auto simp: Let_def nf validateUpstreamName_def nf_validateDNS1035Label
        nf_validateUpstreams_fields intro!: Cons.IH)
qed

lemma validateUpstreams_loop_step:
  "\<exists>errs1 names1.
     validateUpstreams_loop lib fp isPlus i (u # us) (errs, names)
       = validateUpstreams_loop lib fp isPlus (Suc i) us
           (errs1 @ validateUpstreams_fields lib u (path_Index fp (int i)) isPlus, names1)
     \<and> set errs \<subseteq> set errs1"
proof -
  let ?idx = "path_Index fp (int i)"
  let ?ne = "validateUpstreamName lib (u_Name u) (path_Child ?idx ''name'')"
  let ?P = "\<lambda>errs1 names1.
     validateUpstreams_loop lib fp isPlus i (u # us) (errs, names)
       = validateUpstreams_loop lib fp isPlus (Suc i) us
           (errs1 @ validateUpstreams_fields lib u ?idx isPlus, names1)
     \<and> set errs \<subseteq> set errs1"
  consider (bad) "length ?ne > 0"
    | (dup) "\<not> length ?ne > 0" "u_Name u \<in> names"
    | (new) "\<not> length ?ne > 0" "u_Name u \<notin> names"
    by blast
  then show ?thesis
  proof cases
    case bad
    then have "?P (errs @ ?ne) names" by (simp add: Let_def)
    then show ?thesis by blast
  next
    case dup
    then have "?P (errs @ [field_Duplicate (path_Child ?idx ''name'') (StringValue (u_Name u))])
                 names"
      by (auto simp: Let_def)
    then show ?thesis by blast
  next
    case new
    then have "?P errs (insert (u_Name u) names)" by (simp add: Let_def)
    then show ?thesis by blast
  qed
qed

lemma validateUpstreams_loop_mono:
  "set errs \<subseteq> set (fst (validateUpstreams_loop lib fp isPlus i us (errs, names)))"
proof (induction us arbitrary: i errs names)
  case Nil
  then show ?case by simp
next
  case (Cons u us)
  let ?idx = "path_Index fp (int i)"
  from validateUpstreams_loop_step [of lib fp isPlus i u us errs names]
  obtain errs1 names1 where
    step: "validateUpstreams_loop lib fp isPlus i (u # us) (errs, names)
       = validateUpstreams_loop lib fp isPlus (Suc i) us
           (errs1 @ validateUpstreams_fields lib u ?idx isPlus, names1)"
    and sub: "set errs \<subseteq> set errs1"
    by blast
  from Cons.IH [of "errs1 @ validateUpstreams_fields lib u ?idx isPlus" "Suc i" names1] sub
  show ?case by (simp only: step) auto
qed

lemma validateUpstreams_loop_fields:
  "k < length us \<Longrightarrow>
   set (validateUpstreams_fields lib (us ! k) (path_Index fp (int (i + k))) isPlus)
     \<subseteq> set (fst (validateUpstreams_loop lib fp isPlus i us (errs, names)))"
proof (induction us arbitrary: i errs names k)
  case Nil
  then show ?case by simp
next
  case (Cons u us)
  let ?idx = "path_Index fp (int i)"
  from validateUpstreams_loop_step [of lib fp isPlus i u us errs names]
  obtain errs1 names1 where
    step: "validateUpstreams_loop lib fp isPlus i (u # us) (errs, names)
       = validateUpstreams_loop lib fp isPlus (Suc i) us
           (errs1 @ validateUpstreams_fields lib u ?idx isPlus, names1)"
    by blast
  show ?case
  proof (cases k)
    case 0
    from validateUpstreams_loop_mono
      [of "errs1 @ validateUpstreams_fields lib u ?idx isPlus" lib fp isPlus "Suc i" us names1]
    show ?thesis using 0 by (simp only: step) auto
  next
    case (Suc k')
    with Cons.prems have "k' < length us" by simp
    from Cons.IH [OF this, of "Suc i"
        "errs1 @ validateUpstreams_fields lib u ?idx isPlus" names1]
    show ?thesis using Suc by (simp only: step) simp
  qed
qed

text \<open>
  Claim C6. When the upstreams are validated for the open-source tier, the error list
  has, for every upstream and for each of its fields of the commercial tier that is
  present (a health check, a non-empty slow start, a session cookie, a queue), the
  Forbidden error at the path of that field of that upstream. When they are validated
  for the commercial tier, the error list has no Forbidden error.
\<close>

theorem validateUpstreams_plus_gating:
  "(\<forall>i<length upstreams.
      (let u = upstreams ! i;
           idxPath = path_Index fp (int i);
           errs = fst (validateUpstreams lib upstreams fp False)
       in (u_HealthCheck u \<noteq> None \<longrightarrow>
             field_Forbidden (path_Child idxPath ''healthCheck'')
               ''active health checks are only supported in NGINX Plus'' \<in> set errs)
        \<and> (u_SlowStart u \<noteq> [] \<longrightarrow>
             field_Forbidden (path_Child idxPath ''slow-start'')
               ''slow start is only supported in NGINX Plus'' \<in> set errs)
        \<and> (u_SessionCookie u \<noteq> None \<longrightarrow>
             field_Forbidden (path_Child idxPath ''sessionCookie'')
               ''sticky cookies are only supported in NGINX Plus'' \<in> set errs)
        \<and> (u_Queue u \<noteq> None \<longrightarrow>
             field_Forbidden (path_Child idxPath ''queue'')
               ''queue is only supported in NGINX Plus'' \<in> set errs)))
   \<and> noForbidden (fst (validateUpstreams lib upstreams fp True))"
proof (intro conjI allI impI)
  fix i
  assume i: "i < length upstreams"
  let ?u = "upstreams ! i"
  let ?idx = "path_Index fp (int i)"
  have "set (rejectPlusResourcesInOSS ?u ?idx False)
      \<subseteq> set (validateUpstreams_fields lib ?u ?idx False)"
    by (auto simp: validateUpstreams_fields_def)
  also have "\<dots> \<subseteq> set (fst (validateUpstreams lib upstreams fp False))"
    using validateUpstreams_loop_fields [OF i, of lib fp 0 False "[]" "{}"]
    by (simp add: validateUpstreams_def)
  finally have sub: "set (rejectPlusResourcesInOSS ?u ?idx False)
      \<subseteq> set (fst (validateUpstreams lib upstreams fp False))" .
  show "let u = upstreams ! i;
           idxPath = path_Index fp (int i);
           errs = fst (validateUpstreams lib upstreams fp False)
       in (u_HealthCheck u \<noteq> None \<longrightarrow>
             field_Forbidden (path_Child idxPath ''healthCheck'')
               ''active health checks are only supported in NGINX Plus'' \<in> set errs)
        \<and> (u_SlowStart u \<noteq> [] \<longrightarrow>
             field_Forbidden (path_Child idxPath ''slow-start'')
               ''slow start is only supported in NGINX Plus'' \<in> set errs)
        \<and> (u_SessionCookie u \<noteq> None \<longrightarrow>
             field_Forbidden (path_Child idxPath ''sessionCookie'')
               ''sticky cookies are only supported in NGINX Plus'' \<in> set errs)
        \<and> (u_Queue u \<noteq> None \<longrightarrow>
             field_Forbidden (path_Child idxPath ''queue'')
               ''queue is only supported in NGINX Plus'' \<in> set errs)"
    unfolding Let_def
    using sub by (auto simp: rejectPlusResourcesInOSS_def)
next
  show "noForbidden (fst (validateUpstreams lib upstreams fp True))"
    unfolding validateUpstreams_def
    by (rule nf_validateUpstreams_loop) (rule noForbidden_Nil)
qed

theorem validateUpstreams_plus_gating_witness:
  "field_Forbidden (path_Child (path_Index (NewPath ''upstreams'') 0) ''slow-start'')
     ''slow start is only supported in NGINX Plus''
     \<in> set (fst (validateUpstreams exampleLibrary [examplePlusUpstream] (NewPath ''upstreams'')
                   False))
   \<and> field_Forbidden (path_Child (path_Index (NewPath ''upstreams'') 0) ''queue'')
       ''queue is only supported in NGINX Plus''
       \<in> set (fst (validateUpstreams exampleLibrary [examplePlusUpstream] (NewPath ''upstreams'')
                     False))
   \<and> noForbidden (fst (validateUpstreams exampleLibrary [examplePlusUpstream]
                          (NewPath ''upstreams'') True))"
  using validateUpstreams_plus_gating [of "[examplePlusUpstream]" "NewPath ''upstreams''"
      exampleLibrary]
  by (simp add: Let_def examplePlusUpstream_def zeroUpstream_def)

subsection \<open>The subroutes of a VirtualServerRoute\<close>

lemma subroutes_loop_prefix_error:
  assumes "vsPath \<noteq> []" and "i < length rs"
    and "\<not> HasPrefix (r_Path (rs ! i)) vsPath" and "\<not> isRegexOrExactMatch (r_Path (rs ! i))"
  shows "field_Invalid (path_Index fp (int (n + i))) (StringValue (r_Path (rs ! i)))
           (''must start with '' @ [squote] @ vsPath @ [squote])
         \<in> set (validateVirtualServerRouteSubroutes_loop lib fp names vsPath n rs allPaths)"
  using assms(2-)
proof (induction rs arbitrary: i n allPaths)
  case Nil
  then show ?case by simp
next
  case (Cons r rs)
  show ?case
  proof (cases i)
    case 0
    with Cons.prems assms(1) show ?thesis by (simp add: Let_def)
  next
    case (Suc i')
    with Cons.prems have "i' < length rs" "\<not> HasPrefix (r_Path (rs ! i')) vsPath"
      "\<not> isRegexOrExactMatch (r_Path (rs ! i'))" by auto
    from Cons.IH [OF this, of "Suc n"] have
      "\<And>allPaths. field_Invalid (path_Index fp (int (n + i))) (StringValue (r_Path ((r # rs) ! i)))
           (''must start with '' @ [squote] @ vsPath @ [squote])
         \<in> set (validateVirtualServerRouteSubroutes_loop lib fp names vsPath (Suc n) rs allPaths)"
      using Suc by simp
    with assms(1) show ?thesis by (simp add: Let_def)
  qed
qed

text \<open>
  Claim C7. When the path of the VirtualServer route is a regular expression or an
  exact match, the subroutes pass validation only if there is exactly one subroute and
  its path is that path. Otherwise, for a non-empty path of the VirtualServer route,
  every subroute whose own path is neither a regular expression nor an exact match and
  does not have the path of the VirtualServer route as a prefix gets an Invalid error,
  at the field path of that subroute (the index of the subroute in the list).
\<close>

theorem validateVirtualServerRouteSubroutes_coupling:
  "(isRegexOrExactMatch vsPath \<and> validateVirtualServerRouteSubroutes lib routes fp names vsPath = []
      \<longrightarrow> (\<exists>r. routes = [r] \<and> r_Path r = vsPath))
   \<and> (\<not> isRegexOrExactMatch vsPath \<and> vsPath \<noteq> [] \<longrightarrow>
        (\<forall>i<length routes.
           \<not> isRegexOrExactMatch (r_Path (routes ! i)) \<and> \<not> HasPrefix (r_Path (routes ! i)) vsPath
           \<longrightarrow> field_Invalid (path_Index fp (int i)) (StringValue (r_Path (routes ! i)))
                 (''must start with '' @ [squote] @ vsPath @ [squote])
               \<in> set (validateVirtualServerRouteSubroutes lib routes fp names vsPath)))"
proof (intro conjI impI allI)
  assume a: "isRegexOrExactMatch vsPath
     \<and> validateVirtualServerRouteSubroutes lib routes fp names vsPath = []"
  then show "\<exists>r. routes = [r] \<and> r_Path r = vsPath"
    by (auto simp: validateVirtualServerRouteSubroutes_def Let_def
        split: list.splits if_splits)
next
  fix i
  assume a: "\<not> isRegexOrExactMatch vsPath \<and> vsPath \<noteq> []" and i: "i < length routes"
    and v: "\<not> isRegexOrExactMatch (r_Path (routes ! i)) \<and> \<not> HasPrefix (r_Path (routes ! i)) vsPath"
  from subroutes_loop_prefix_error [of vsPath i routes fp 0 lib names "{}"] a i v
  show "field_Invalid (path_Index fp (int i)) (StringValue (r_Path (routes ! i)))
          (''must start with '' @ [squote] @ vsPath @ [squote])
        \<in> set (validateVirtualServerRouteSubroutes lib routes fp names vsPath)"
    by (simp add: validateVirtualServerRouteSubroutes_def)
qed

theorem validateVirtualServerRouteSubroutes_coupling_witness:
  "isRegexOrExactMatch ''=/exact''
   \<and> validateVirtualServerRouteSubroutes exampleLibrary [exampleSubroute ''=/exact'']
        (NewPath ''subroutes'') {''tea''} ''=/exact'' = []
   \<and> (\<exists>r. [exampleSubroute ''=/exact''] = [r] \<and> r_Path r = ''=/exact'')
   \<and> field_Invalid (path_Index (NewPath ''subroutes'') 1) (StringValue ''/tea'')
        (''must start with '' @ [squote] @ ''/coffee'' @ [squote])
        \<in> set (validateVirtualServerRouteSubroutes exampleLibrary
                  [exampleSubroute ''/coffee/latte'', exampleSubroute ''/tea'']
                  (NewPath ''subroutes'') {''tea''} ''/coffee'')"
proof -
  have r: "isRegexOrExactMatch ''=/exact''"
    by (simp add: isRegexOrExactMatch_def HasPrefix_def)
  have v: "validateVirtualServerRouteSubroutes exampleLibrary [exampleSubroute ''=/exact'']
        (NewPath ''subroutes'') {''tea''} ''=/exact'' = []"
    by (simp add: validateVirtualServerRouteSubroutes_def isRegexOrExactMatch_def HasPrefix_def
        exampleSubroute_def passAction_def validateRoute_def validateRoutePath_def
        validatePath_def TrimPrefix_def pathRegexp_MatchString_def isSpaceClass_def
        validateAction_def countActions_def validateReferencedUpstream_def
        validateUpstreamName_def validateDNS1035Label_def exampleLibrary_def Let_def)
  from validateVirtualServerRouteSubroutes_coupling
    [of "''=/exact''" exampleLibrary "[exampleSubroute ''=/exact'']" "NewPath ''subroutes''"
       "{''tea''}"] r v
  have one: "\<exists>r. [exampleSubroute ''=/exact''] = [r] \<and> r_Path r = ''=/exact''"
    by blast
  from validateVirtualServerRouteSubroutes_coupling
    [of "''/coffee''" exampleLibrary "[exampleSubroute ''/coffee/latte'', exampleSubroute ''/tea'']"
       "NewPath ''subroutes''" "{''tea''}"]
  have "field_Invalid (path_Index (NewPath ''subroutes'') 1) (StringValue ''/tea'')
        (''must start with '' @ [squote] @ ''/coffee'' @ [squote])
        \<in> set (validateVirtualServerRouteSubroutes exampleLibrary
                  [exampleSubroute ''/coffee/latte'', exampleSubroute ''/tea'']
                  (NewPath ''subroutes'') {''tea''} ''/coffee'')"
    by (simp add: isRegexOrExactMatch_def HasPrefix_def exampleSubroute_def less_Suc_eq)
  with r v one show ?thesis by blast
qed

end
